theory Spec2Isabelle
  imports Complex_Main
begin

section \<open>JavaScript numbers\<close>

text \<open>
  Every quantity of \<^verbatim>\<open>iris-tracker.js\<close> is a JavaScript number. A number is either
  finite, one of the two infinities, or NaN. Finite numbers are embedded as reals, on
  which the comparisons of the source are exact. The results the source gets at a zero
  divisor, at NaN and at the infinities are written out case by case. The sign of zero is
  not kept; every divisor of the source that can be zero is a square root or an array
  length, hence \<^verbatim>\<open>+0\<close>, which is how a zero divisor is read below.

  The arithmetic comes in two forms. \<open>jadd\<close>, \<open>jsub\<close>, \<open>jmul\<close>, \<open>jdiv\<close>, \<open>jsqrt\<close> and
  \<open>jsquare\<close> are exact on finite numbers: no rounding, no overflow. \<open>dadd\<close>, \<open>dsub\<close>,
  \<open>dmul\<close> and \<open>ddiv\<close> round each finite result to the nearest double, a tie going to
  the even one, with an infinity from \<open>2 ^ 1024\<close> on and the fixed spacing of \<open>2 ^ - 1074\<close>
  below \<open>2 ^ - 1022\<close>, as \<^verbatim>\<open>+\<close>, \<^verbatim>\<open>-\<close>, \<^verbatim>\<open>*\<close> and \<^verbatim>\<open>/\<close> do.
  The gaze ratio (\<^verbatim>\<open>getCenter\<close>, \<^verbatim>\<open>calculateGazeRatio\<close>) is built from these
  four operations only and is taken with the rounding, since what is claimed of it depends
  on the last bits. The eye aspect ratio and the pupil size go through \<^verbatim>\<open>Math.pow\<close> and
  \<^verbatim>\<open>Math.sqrt\<close>, whose last bits the language leaves to the implementation; they, the
  averages and the screen position are taken exactly.
\<close>

datatype jsnum = Fin real | PInf | NInf | NaN

fun jlt :: "jsnum \<Rightarrow> jsnum \<Rightarrow> bool" where
  "jlt (Fin a) (Fin b) = (a < b)"
| "jlt (Fin a) PInf = True"
| "jlt NInf (Fin b) = True"
| "jlt NInf PInf = True"
| "jlt _ _ = False"

definition jgt :: "jsnum \<Rightarrow> jsnum \<Rightarrow> bool" where
  "jgt a b = jlt b a"

fun jneg :: "jsnum \<Rightarrow> jsnum" where
  "jneg (Fin a) = Fin (- a)"
| "jneg PInf = NInf"
| "jneg NInf = PInf"
| "jneg NaN = NaN"

fun jadd :: "jsnum \<Rightarrow> jsnum \<Rightarrow> jsnum" where
  "jadd (Fin a) (Fin b) = Fin (a + b)"
| "jadd NaN _ = NaN"
| "jadd _ NaN = NaN"
| "jadd PInf NInf = NaN"
| "jadd NInf PInf = NaN"
| "jadd PInf _ = PInf"
| "jadd _ PInf = PInf"
| "jadd NInf _ = NInf"
| "jadd _ NInf = NInf"

definition jsub :: "jsnum \<Rightarrow> jsnum \<Rightarrow> jsnum" where
  "jsub a b = jadd a (jneg b)"

text \<open>The infinity of the sign of a finite non-zero factor; NaN at zero.\<close>

definition inf_of_sign :: "real \<Rightarrow> jsnum" where
  "inf_of_sign a = (if a = 0 then NaN else if 0 < a then PInf else NInf)"

fun jmul :: "jsnum \<Rightarrow> jsnum \<Rightarrow> jsnum" where
  "jmul (Fin a) (Fin b) = Fin (a * b)"
| "jmul NaN _ = NaN"
| "jmul _ NaN = NaN"
| "jmul PInf (Fin b) = inf_of_sign b"
| "jmul (Fin a) PInf = inf_of_sign a"
| "jmul NInf (Fin b) = inf_of_sign (- b)"
| "jmul (Fin a) NInf = inf_of_sign (- a)"
| "jmul PInf PInf = PInf"
| "jmul NInf NInf = PInf"
| "jmul PInf NInf = NInf"
| "jmul NInf PInf = NInf"

text \<open>
  Division: a finite number over zero is NaN when it is zero itself and an infinity of
  its own sign otherwise; an infinity over a finite number keeps or flips its sign with
  the sign of the divisor (zero counting as positive).
\<close>

fun jdiv :: "jsnum \<Rightarrow> jsnum \<Rightarrow> jsnum" where
  "jdiv (Fin a) (Fin b) = (if b = 0 then inf_of_sign a else Fin (a / b))"
| "jdiv NaN _ = NaN"
| "jdiv _ NaN = NaN"
| "jdiv (Fin a) PInf = Fin 0"
| "jdiv (Fin a) NInf = Fin 0"
| "jdiv PInf (Fin b) = (if 0 \<le> b then PInf else NInf)"
| "jdiv NInf (Fin b) = (if 0 \<le> b then NInf else PInf)"
| "jdiv _ _ = NaN"

text \<open>\<^verbatim>\<open>Math.sqrt\<close> and \<^verbatim>\<open>Math.pow(., 2)\<close>.\<close>

fun jsqrt :: "jsnum \<Rightarrow> jsnum" where
  "jsqrt (Fin a) = (if a < 0 then NaN else Fin (sqrt a))"
| "jsqrt PInf = PInf"
| "jsqrt NInf = NaN"
| "jsqrt NaN = NaN"

fun jsquare :: "jsnum \<Rightarrow> jsnum" where
  "jsquare (Fin a) = Fin (a * a)"
| "jsquare PInf = PInf"
| "jsquare NInf = PInf"
| "jsquare NaN = NaN"

text \<open>
  \<^verbatim>\<open>Math.min(...xs)\<close> and \<^verbatim>\<open>Math.max(...xs)\<close>: NaN as soon as one argument is
  NaN, \<^verbatim>\<open>+Infinity\<close> resp. \<^verbatim>\<open>-Infinity\<close> on no argument.
\<close>

definition jmin2 :: "jsnum \<Rightarrow> jsnum \<Rightarrow> jsnum" where
  "jmin2 a b = (if a = NaN \<or> b = NaN then NaN else if jlt b a then b else a)"

definition jmax2 :: "jsnum \<Rightarrow> jsnum \<Rightarrow> jsnum" where
  "jmax2 a b = (if a = NaN \<or> b = NaN then NaN else if jlt a b then b else a)"

definition Math_min :: "jsnum list \<Rightarrow> jsnum" where
  "Math_min xs = foldl jmin2 PInf xs"

definition Math_max :: "jsnum list \<Rightarrow> jsnum" where
  "Math_max xs = foldl jmax2 NInf xs"

text \<open>\<^verbatim>\<open>Math.round\<close>: the nearest integer, a half going up.\<close>

fun Math_round :: "jsnum \<Rightarrow> jsnum" where
  "Math_round (Fin a) = Fin (of_int \<lfloor>a + 1 / 2\<rfloor>)"
| "Math_round v = v"

text \<open>\<^verbatim>\<open>xs.reduce((sum, e) => sum + f(e), 0)\<close>, exactly.\<close>

definition reduce_sum :: "('a \<Rightarrow> jsnum) \<Rightarrow> 'a list \<Rightarrow> jsnum" where
  "reduce_sum f xs = foldl (\<lambda>sum e. jadd sum (f e)) (Fin 0) xs"

text \<open>The length of an array, as a number.\<close>

definition jlength :: "'a list \<Rightarrow> jsnum" where
  "jlength xs = Fin (real (length xs))"

subsection \<open>Rounding to double precision\<close>

text \<open>
  The integer nearest to a real, a half going to the even neighbour.
\<close>

definition round_even :: "real \<Rightarrow> int" where
  "round_even y =
     (let f = \<lfloor>y\<rfloor> in
      if y - of_int f < 1 / 2 then f
      else if 1 / 2 < y - of_int f then f + 1
      else if even f then f else f + 1)"

text \<open>
  The unit in the last place of a double: \<open>2 ^ (e - 52)\<close> for \<open>2 ^ e \<le> \<bar>x\<bar> < 2 ^ (e + 1)\<close>,
  and \<open>2 ^ - 1074\<close> below \<open>2 ^ - 1022\<close>, where the doubles are subnormal. \<open>round_double\<close> is
  the nearest multiple of the unit. \<open>to_double\<close> is the double an exact result is rounded
  to: the infinity of its sign when the nearest multiple is \<open>2 ^ 1024\<close> or more in
  magnitude.
\<close>

definition ulp_of :: "real \<Rightarrow> real" where
  "ulp_of x = 2 powr of_int (max \<lfloor>log 2 \<bar>x\<bar>\<rfloor> (- 1022) - 52)"

definition round_double :: "real \<Rightarrow> real" where
  "round_double x = (if x = 0 then 0 else of_int (round_even (x / ulp_of x)) * ulp_of x)"

definition to_double :: "real \<Rightarrow> jsnum" where
  "to_double x = (let r = round_double x in if 2 ^ 1024 \<le> \<bar>r\<bar> then inf_of_sign r else Fin r)"

fun rounded :: "jsnum \<Rightarrow> jsnum" where
  "rounded (Fin x) = to_double x"
| "rounded v = v"

definition dadd :: "jsnum \<Rightarrow> jsnum \<Rightarrow> jsnum" where
  "dadd a b = rounded (jadd a b)"

definition dsub :: "jsnum \<Rightarrow> jsnum \<Rightarrow> jsnum" where
  "dsub a b = rounded (jsub a b)"

definition dmul :: "jsnum \<Rightarrow> jsnum \<Rightarrow> jsnum" where
  "dmul a b = rounded (jmul a b)"

definition ddiv :: "jsnum \<Rightarrow> jsnum \<Rightarrow> jsnum" where
  "ddiv a b = rounded (jdiv a b)"

text \<open>\<^verbatim>\<open>xs.reduce((sum, e) => sum + f(e), 0)\<close>, each sum rounded.\<close>

definition reduce_sum_rounded :: "('a \<Rightarrow> jsnum) \<Rightarrow> 'a list \<Rightarrow> jsnum" where
  "reduce_sum_rounded f xs = foldl (\<lambda>sum e. dadd sum (f e)) (Fin 0) xs"

section \<open>The tracker and its data\<close>

text \<open>
  A landmark or pixel point \<^verbatim>\<open>{x, y}\<close>, a gaze ratio \<^verbatim>\<open>{h, v}\<close> and a gaze point
  \<^verbatim>\<open>{x, y, h, v}\<close>. The fields carry a prefix, since \<open>x\<close>, \<open>y\<close>, \<open>h\<close> and \<open>v\<close> are
  wanted as variable names.
\<close>

record point =
  pt_x :: jsnum
  pt_y :: jsnum

record gaze =
  gaze_h :: jsnum
  gaze_v :: jsnum

record gazePoint =
  gp_x :: jsnum
  gp_y :: jsnum
  gp_h :: jsnum
  gp_v :: jsnum

text \<open>
  The fields of \<^verbatim>\<open>class IrisTracker\<close> that the signal extraction and the phase
  machine read or write. The handles of the page (video, canvases, contexts), the frame
  rate counters and the trail canvas are left out: no function below reads them.
  \<open>flashes\<close> is not a field of the class: it counts the calls of \<^verbatim>\<open>triggerFlash()\<close>,
  whose effect is on the page only.
\<close>

record tracker =
  LEFT_IRIS :: "nat list"
  RIGHT_IRIS :: "nat list"
  LEFT_EYE :: "nat list"
  RIGHT_EYE :: "nat list"
  blinkCount :: nat
  earHistory :: "jsnum list"
  maxEarHistory :: nat
  EAR_THRESHOLD :: jsnum
  BLINK_CONSEC_FRAMES :: nat
  blinkFrameCounter :: nat
  lastBlinkTime :: int
  gazeHistory :: "gaze list"
  maxGazeHistory :: nat
  screenWidth :: jsnum
  screenHeight :: jsnum
  pupilSizeHistory :: "jsnum list"
  maxPupilHistory :: nat
  currentPhase :: nat
  phaseCompleted :: "bool list"
  leftGazeThreshold :: jsnum
  leftGazeFrames :: int
  leftGazeRequired :: int
  rightGazeThreshold :: jsnum
  rightGazeFrames :: int
  rightGazeRequired :: int
  circleTrailEnabled :: bool
  flashes :: nat

text \<open>
  The constructor. The size of the window is the page's, hence a parameter.
\<close>

definition new_tracker :: "jsnum \<Rightarrow> jsnum \<Rightarrow> tracker" where
  "new_tracker innerWidth innerHeight =
     \<lparr> LEFT_IRIS = [469, 470, 471, 472],
       RIGHT_IRIS = [474, 475, 476, 477],
       LEFT_EYE = [33, 160, 158, 133, 153, 144],
       RIGHT_EYE = [362, 385, 387, 263, 373, 380],
       blinkCount = 0,
       earHistory = [],
       maxEarHistory = 100,
       EAR_THRESHOLD = Fin 0.21,
       BLINK_CONSEC_FRAMES = 2,
       blinkFrameCounter = 0,
       lastBlinkTime = 0,
       gazeHistory = [],
       maxGazeHistory = 5,
       screenWidth = innerWidth,
       screenHeight = innerHeight,
       pupilSizeHistory = [],
       maxPupilHistory = 30,
       currentPhase = 0,
       phaseCompleted = [False, False, False, False],
       leftGazeThreshold = Fin 0.65,
       leftGazeFrames = 0,
       leftGazeRequired = 10,
       rightGazeThreshold = Fin 0.35,
       rightGazeFrames = 0,
       rightGazeRequired = 10,
       circleTrailEnabled = False,
       flashes = 0 \<rparr>"

section \<open>Blink detection\<close>

text \<open>
  \<^verbatim>\<open>detectBlink(ear)\<close>. The reading of \<^verbatim>\<open>Date.now()\<close> is the first argument; the
  result is the returned \<^verbatim>\<open>isBlinking\<close> with the tracker after the call.
\<close>

definition detectBlink :: "int \<Rightarrow> jsnum \<Rightarrow> tracker \<Rightarrow> bool \<times> tracker" where
  "detectBlink now ear s =
     (if jlt ear (EAR_THRESHOLD s)
      then (False, s\<lparr>blinkFrameCounter := blinkFrameCounter s + 1\<rparr>)
      else if BLINK_CONSEC_FRAMES s \<le> blinkFrameCounter s
      then (True, s\<lparr>blinkCount := blinkCount s + 1, lastBlinkTime := now,
                     blinkFrameCounter := 0\<rparr>)
      else (False, s\<lparr>blinkFrameCounter := 0\<rparr>))"

text \<open>
  One call per frame, in the order of the frames: a frame is the clock reading with the
  EAR sample; the results are the \<^verbatim>\<open>isBlinking\<close> of each frame.
\<close>

fun detectBlinks :: "(int \<times> jsnum) list \<Rightarrow> tracker \<Rightarrow> bool list \<times> tracker" where
  "detectBlinks [] s = ([], s)"
| "detectBlinks (f # fs) s =
     (let (b, s1) = detectBlink (fst f) (snd f) s;
          (bs, s2) = detectBlinks fs s1
      in (b # bs, s2))"

subsection \<open>What the specification counts\<close>

text \<open>
  The lengths of the maximal runs of \<open>True\<close> in a list of flags, in order: a run starts
  at a \<open>True\<close>, takes every \<open>True\<close> that follows, and the search goes on behind it.
\<close>

function maximal_runs :: "bool list \<Rightarrow> nat list" where
  "maximal_runs [] = []"
| "maximal_runs (b # bs) =
     (if b then Suc (length (takeWhile id bs)) # maximal_runs (dropWhile id bs)
      else maximal_runs bs)"
  by pat_completeness auto
termination
  by (relation "measure length") (auto simp: length_dropWhile_le less_Suc_eq_le)

definition long_runs :: "bool list \<Rightarrow> nat" where
  "long_runs bs = length (filter (\<lambda>n. 2 \<le> n) (maximal_runs bs))"

text \<open>The flags of a list of frames: is the sample strictly below the threshold?\<close>

definition below_flags :: "jsnum \<Rightarrow> (int \<times> jsnum) list \<Rightarrow> bool list" where
  "below_flags t fs = map (\<lambda>f. jlt (snd f) t) fs"

section \<open>Geometry and feature extraction\<close>

text \<open>
  A read past the end of an array gives \<^verbatim>\<open>undefined\<close>, and the first field read on
  it throws. \<open>Inl TypeError\<close> is that exception.
\<close>

datatype error = TypeError

text \<open>\<^verbatim>\<open>distance(p1, p2)\<close>.\<close>

definition distance :: "point \<Rightarrow> point \<Rightarrow> jsnum" where
  "distance p1 p2 =
     jsqrt (jadd (jsquare (jsub (pt_x p2) (pt_x p1))) (jsquare (jsub (pt_y p2) (pt_y p1))))"

text \<open>
  The conversion of a normalised landmark to pixels, the body of
  \<^verbatim>\<open>lm => ({x: lm.x * width, y: lm.y * height})\<close>.
\<close>

definition to_pixels :: "jsnum \<Rightarrow> jsnum \<Rightarrow> point \<Rightarrow> point" where
  "to_pixels width height lm = \<lparr> pt_x = jmul (pt_x lm) width, pt_y = jmul (pt_y lm) height \<rparr>"

text \<open>\<^verbatim>\<open>getCenter(landmarks, width, height)\<close>, with the rounding of each operation.\<close>

definition getCenter :: "point list \<Rightarrow> jsnum \<Rightarrow> jsnum \<Rightarrow> point" where
  "getCenter landmarks width height =
     \<lparr> pt_x = dmul (ddiv (reduce_sum_rounded pt_x landmarks) (jlength landmarks)) width,
       pt_y = dmul (ddiv (reduce_sum_rounded pt_y landmarks) (jlength landmarks)) height \<rparr>"

text \<open>
  \<^verbatim>\<open>calculateEAR(eyeLandmarks, width, height)\<close>. \<^verbatim>\<open>points[5]\<close> is the second argument
  of the first call of \<^verbatim>\<open>distance\<close>, which reads its \<^verbatim>\<open>x\<close> first: fewer than six
  landmarks throw.
\<close>

definition calculateEAR :: "point list \<Rightarrow> jsnum \<Rightarrow> jsnum \<Rightarrow> error + jsnum" where
  "calculateEAR eyeLandmarks width height =
     (let points = map (to_pixels width height) eyeLandmarks in
      if length points < 6 then Inl TypeError
      else
        let v1 = distance (points ! 1) (points ! 5);
            v2 = distance (points ! 2) (points ! 4);
            h = distance (points ! 0) (points ! 3);
            ear = jdiv (jadd v1 v2) (jmul (Fin 2) h)
        in Inr ear)"

text \<open>
  \<^verbatim>\<open>calculateGazeRatio(irisLandmarks, eyeLandmarks, width, height)\<close>, with the rounding
  of each operation; \<open>to_pixels_rounded\<close> is the body of its
  \<^verbatim>\<open>lm => ({x: lm.x * width, y: lm.y * height})\<close>.
\<close>

definition to_pixels_rounded :: "jsnum \<Rightarrow> jsnum \<Rightarrow> point \<Rightarrow> point" where
  "to_pixels_rounded width height lm =
     \<lparr> pt_x = dmul (pt_x lm) width, pt_y = dmul (pt_y lm) height \<rparr>"

definition calculateGazeRatio :: "point list \<Rightarrow> point list \<Rightarrow> jsnum \<Rightarrow> jsnum \<Rightarrow> gaze" where
  "calculateGazeRatio irisLandmarks eyeLandmarks width height =
     (let irisCenter = getCenter irisLandmarks width height;
          eyePoints = map (to_pixels_rounded width height) eyeLandmarks;
          minX = Math_min (map pt_x eyePoints);
          maxX = Math_max (map pt_x eyePoints);
          minY = Math_min (map pt_y eyePoints);
          maxY = Math_max (map pt_y eyePoints);
          eyeWidth = dsub maxX minX;
          eyeHeight = dsub maxY minY
      in if jgt eyeWidth (Fin 0) \<and> jgt eyeHeight (Fin 0)
         then \<lparr> gaze_h = ddiv (dsub (pt_x irisCenter) minX) eyeWidth,
                gaze_v = ddiv (dsub (pt_y irisCenter) minY) eyeHeight \<rparr>
         else \<lparr> gaze_h = Fin 0.5, gaze_v = Fin 0.5 \<rparr>)"

text \<open>
  The three histories are filled the same way, by \<^verbatim>\<open>push\<close> and then one \<^verbatim>\<open>shift\<close>
  when the length is over the capacity: \<^verbatim>\<open>earHistory\<close> and \<^verbatim>\<open>pupilSizeHistory\<close> in
  \<^verbatim>\<open>processEyeTracking\<close>, \<^verbatim>\<open>gazeHistory\<close> in \<^verbatim>\<open>estimateGazePoint\<close>.
\<close>

definition push_earHistory :: "jsnum \<Rightarrow> tracker \<Rightarrow> tracker" where
  "push_earHistory earAvg s =
     (let s1 = s\<lparr>earHistory := earHistory s @ [earAvg]\<rparr>
      in if maxEarHistory s1 < length (earHistory s1)
         then s1\<lparr>earHistory := tl (earHistory s1)\<rparr> else s1)"

definition push_gazeHistory :: "gaze \<Rightarrow> tracker \<Rightarrow> tracker" where
  "push_gazeHistory g s =
     (let s1 = s\<lparr>gazeHistory := gazeHistory s @ [g]\<rparr>
      in if maxGazeHistory s1 < length (gazeHistory s1)
         then s1\<lparr>gazeHistory := tl (gazeHistory s1)\<rparr> else s1)"

definition push_pupilSizeHistory :: "jsnum \<Rightarrow> tracker \<Rightarrow> tracker" where
  "push_pupilSizeHistory avgPupilSize s =
     (let s1 = s\<lparr>pupilSizeHistory := pupilSizeHistory s @ [avgPupilSize]\<rparr>
      in if maxPupilHistory s1 < length (pupilSizeHistory s1)
         then s1\<lparr>pupilSizeHistory := tl (pupilSizeHistory s1)\<rparr> else s1)"

text \<open>\<^verbatim>\<open>estimateGazePoint(leftGaze, rightGaze)\<close>: the gaze point and the tracker after.\<close>

definition estimateGazePoint :: "gaze \<Rightarrow> gaze \<Rightarrow> tracker \<Rightarrow> gazePoint \<times> tracker" where
  "estimateGazePoint leftGaze rightGaze s =
     (let avgH0 = jdiv (jadd (gaze_h leftGaze) (gaze_h rightGaze)) (Fin 2);
          avgV0 = jdiv (jadd (gaze_v leftGaze) (gaze_v rightGaze)) (Fin 2);
          s1 = push_gazeHistory \<lparr> gaze_h = avgH0, gaze_v = avgV0 \<rparr> s;
          avgH = (if 0 < length (gazeHistory s1)
                  then jdiv (reduce_sum gaze_h (gazeHistory s1)) (jlength (gazeHistory s1))
                  else avgH0);
          avgV = (if 0 < length (gazeHistory s1)
                  then jdiv (reduce_sum gaze_v (gazeHistory s1)) (jlength (gazeHistory s1))
                  else avgV0);
          screenX = Math_round (jmul avgH (screenWidth s1));
          screenY = Math_round (jmul avgV (screenHeight s1))
      in (\<lparr> gp_x = screenX, gp_y = screenY, gp_h = avgH, gp_v = avgV \<rparr>, s1))"

text \<open>\<^verbatim>\<open>calculatePupilSize(irisLandmarks, width, height)\<close>; fewer than four landmarks throw.\<close>

definition calculatePupilSize :: "point list \<Rightarrow> jsnum \<Rightarrow> jsnum \<Rightarrow> error + jsnum" where
  "calculatePupilSize irisLandmarks width height =
     (let points = map (to_pixels width height) irisLandmarks in
      if length points < 4 then Inl TypeError
      else
        let hDist = distance (points ! 0) (points ! 2);
            vDist = distance (points ! 1) (points ! 3);
            diameter = jdiv (jadd hDist vDist) (Fin 2)
        in Inr diameter)"

section \<open>The gesture phases\<close>

text \<open>
  \<^verbatim>\<open>phaseCompleted[i]\<close> as a condition (\<^verbatim>\<open>undefined\<close> past the end, which is not
  true) and \<^verbatim>\<open>phaseCompleted[i] = true\<close> (which extends a shorter array; the entries it
  skips read as not true).
\<close>

definition flag_at :: "bool list \<Rightarrow> nat \<Rightarrow> bool" where
  "flag_at flags i = (i < length flags \<and> flags ! i)"

definition set_flag :: "bool list \<Rightarrow> nat \<Rightarrow> bool list" where
  "set_flag flags i =
     (if i < length flags then flags[i := True]
      else flags @ replicate (i - length flags) False @ [True])"

text \<open>\<^verbatim>\<open>triggerFlash()\<close> changes the page only; the call is counted.\<close>

definition triggerFlash :: "tracker \<Rightarrow> tracker" where
  "triggerFlash s = s\<lparr>flashes := flashes s + 1\<rparr>"

text \<open>
  \<^verbatim>\<open>advanceToPhase(phase)\<close>: the assignment; the rest writes to the page and sets
  timers, whose callbacks are the events \<open>TrailTimer\<close> and \<open>FinalTimer\<close> below. The page
  is taken to have the elements that the script looks up, so that no write to it throws.
\<close>

definition advanceToPhase :: "nat \<Rightarrow> tracker \<Rightarrow> tracker" where
  "advanceToPhase phase s = s\<lparr>currentPhase := phase\<rparr>"

text \<open>\<^verbatim>\<open>showFinalMessage()\<close>, as far as the tracker goes.\<close>

definition showFinalMessage :: "tracker \<Rightarrow> tracker" where
  "showFinalMessage s = s\<lparr>currentPhase := 3\<rparr>"

text \<open>\<^verbatim>\<open>detectLeftGaze(gazePoint)\<close> and \<^verbatim>\<open>detectRightGaze(gazePoint)\<close>.\<close>

definition detectLeftGaze :: "gazePoint \<Rightarrow> tracker \<Rightarrow> tracker" where
  "detectLeftGaze g s =
     (if currentPhase s \<noteq> 0 \<or> flag_at (phaseCompleted s) 0 then s
      else if jgt (gp_h g) (leftGazeThreshold s) then
        (let s1 = s\<lparr>leftGazeFrames := leftGazeFrames s + 1\<rparr> in
         if leftGazeRequired s1 \<le> leftGazeFrames s1 then
           (let s2 = triggerFlash s1;
                s3 = s2\<lparr>phaseCompleted := set_flag (phaseCompleted s2) 0\<rparr>;
                s4 = s3\<lparr>leftGazeFrames := 0\<rparr>
            in advanceToPhase 1 s4)
         else s1)
      else if 0 < leftGazeFrames s
        then s\<lparr>leftGazeFrames := max 0 (leftGazeFrames s - 2)\<rparr>
        else s)"

definition detectRightGaze :: "gazePoint \<Rightarrow> tracker \<Rightarrow> tracker" where
  "detectRightGaze g s =
     (if currentPhase s \<noteq> 1 \<or> flag_at (phaseCompleted s) 1 then s
      else if jlt (gp_h g) (rightGazeThreshold s) then
        (let s1 = s\<lparr>rightGazeFrames := rightGazeFrames s + 1\<rparr> in
         if rightGazeRequired s1 \<le> rightGazeFrames s1 then
           (let s2 = triggerFlash s1;
                s3 = s2\<lparr>phaseCompleted := set_flag (phaseCompleted s2) 1\<rparr>;
                s4 = s3\<lparr>rightGazeFrames := 0\<rparr>
            in advanceToPhase 2 s4)
         else s1)
      else if 0 < rightGazeFrames s
        then s\<lparr>rightGazeFrames := max 0 (rightGazeFrames s - 2)\<rparr>
        else s)"

text \<open>One call of a detector per frame, over the gaze points of the frames in order.\<close>

definition detectLeftGazes :: "gazePoint list \<Rightarrow> tracker \<Rightarrow> tracker" where
  "detectLeftGazes gs s = foldl (\<lambda>t g. detectLeftGaze g t) s gs"

definition detectRightGazes :: "gazePoint list \<Rightarrow> tracker \<Rightarrow> tracker" where
  "detectRightGazes gs s = foldl (\<lambda>t g. detectRightGaze g t) s gs"

section \<open>A frame, and a session\<close>

text \<open>
  \<^verbatim>\<open>INDICES.map(idx => landmarks[idx])\<close>, with \<open>None\<close> when an index is past the end
  of the landmarks: the array then holds \<^verbatim>\<open>undefined\<close>, and the function that gets it
  throws at its first read.
\<close>

definition landmarks_at :: "point list \<Rightarrow> nat list \<Rightarrow> point list option" where
  "landmarks_at landmarks idxs =
     (if \<forall>i \<in> set idxs. i < length landmarks then Some (map (\<lambda>i. landmarks ! i) idxs)
      else None)"

text \<open>
  \<^verbatim>\<open>processEyeTracking(landmarks)\<close>. The size of the canvas and the clock are
  arguments. An exception leaves the assignments made before it in place, so the result
  is the exception, if any, with the tracker as the call leaves it. The writes to the
  page (texts, blink alert, trail, pointer) are not part of the tracker.
\<close>

definition processEyeTracking ::
  "point list \<Rightarrow> jsnum \<Rightarrow> jsnum \<Rightarrow> int \<Rightarrow> tracker \<Rightarrow> error option \<times> tracker" where
  "processEyeTracking landmarks width height now s =
     (case landmarks_at landmarks (LEFT_EYE s) of
        None \<Rightarrow> (Some TypeError, s)
      | Some leftEye \<Rightarrow>
     (case landmarks_at landmarks (RIGHT_EYE s) of
        None \<Rightarrow> (Some TypeError, s)
      | Some rightEye \<Rightarrow>
     (case calculateEAR leftEye width height of
        Inl e \<Rightarrow> (Some e, s)
      | Inr earLeft \<Rightarrow>
     (case calculateEAR rightEye width height of
        Inl e \<Rightarrow> (Some e, s)
      | Inr earRight \<Rightarrow>
     (let earAvg = jdiv (jadd earLeft earRight) (Fin 2);
          s1 = push_earHistory earAvg s;
          s2 = snd (detectBlink now earAvg s1)
      in
     (case landmarks_at landmarks (LEFT_IRIS s2) of
        None \<Rightarrow> (Some TypeError, s2)
      | Some leftIris \<Rightarrow>
     (case landmarks_at landmarks (RIGHT_IRIS s2) of
        None \<Rightarrow> (Some TypeError, s2)
      | Some rightIris \<Rightarrow>
     (let leftGaze = calculateGazeRatio leftIris leftEye width height;
          rightGaze = calculateGazeRatio rightIris rightEye width height;
          est = estimateGazePoint leftGaze rightGaze s2;
          gazePoint = fst est;
          s3 = detectLeftGaze gazePoint (snd est);
          s4 = detectRightGaze gazePoint s3
      in
     (case calculatePupilSize leftIris width height of
        Inl e \<Rightarrow> (Some e, s4)
      | Inr leftPupilSize \<Rightarrow>
     (case calculatePupilSize rightIris width height of
        Inl e \<Rightarrow> (Some e, s4)
      | Inr rightPupilSize \<Rightarrow>
     (let avgPupilSize = jdiv (jadd leftPupilSize rightPupilSize) (Fin 2)
      in (None, push_pupilSizeHistory avgPupilSize s4))))))))))))"

text \<open>
  What happens to a tracker in a session: a frame of landmarks arrives, or one of the two
  timers set by \<^verbatim>\<open>advanceToPhase(2)\<close> fires (the trail is switched on; the final message
  is shown). The timers are allowed at any moment, which covers every schedule.
\<close>

datatype event = Frame "point list" jsnum jsnum int | TrailTimer | FinalTimer

fun step :: "tracker \<Rightarrow> event \<Rightarrow> tracker" where
  "step s (Frame landmarks width height now) =
     snd (processEyeTracking landmarks width height now s)"
| "step s TrailTimer = s\<lparr>circleTrailEnabled := True\<rparr>"
| "step s FinalTimer = showFinalMessage s"

definition session :: "tracker \<Rightarrow> event list \<Rightarrow> tracker" where
  "session s evs = foldl step s evs"

section \<open>Definitions used in the proofs\<close>

text \<open>
  The blink detector seen from the flags alone: \<open>blink_flags m c bs\<close> is the list of
  returned \<^verbatim>\<open>isBlinking\<close> values and \<open>blink_counter c bs\<close> the last value of
  \<^verbatim>\<open>blinkFrameCounter\<close>, for minimum run length \<open>m\<close>, a counter starting at \<open>c\<close> and the
  flags \<open>bs\<close> of the samples. Both are shown below to be what \<open>detectBlinks\<close> computes.
\<close>

fun blink_flags :: "nat \<Rightarrow> nat \<Rightarrow> bool list \<Rightarrow> bool list" where
  "blink_flags m c [] = []"
| "blink_flags m c (b # bs) =
     (if b then False # blink_flags m (Suc c) bs else (m \<le> c) # blink_flags m 0 bs)"

fun blink_counter :: "nat \<Rightarrow> bool list \<Rightarrow> nat" where
  "blink_counter c [] = c"
| "blink_counter c (b # bs) = blink_counter (if b then Suc c else 0) bs"

text \<open>
  The tracker after a phase has been completed from \<open>s\<close>: one more flash, the flag of the
  phase set, its counter back at 0, the next phase current.
\<close>

definition left_completed :: "tracker \<Rightarrow> tracker" where
  "left_completed s =
     s\<lparr>flashes := flashes s + 1, phaseCompleted := set_flag (phaseCompleted s) 0,
       leftGazeFrames := 0, currentPhase := 1\<rparr>"

definition right_completed :: "tracker \<Rightarrow> tracker" where
  "right_completed s =
     s\<lparr>flashes := flashes s + 1, phaseCompleted := set_flag (phaseCompleted s) 1,
       rightGazeFrames := 0, currentPhase := 2\<rparr>"

text \<open>
  The part of the tracker that the phase machine reads and writes. Blink detection, the
  histories and the trail switch do not touch it.
\<close>

definition phase_view ::
  "tracker \<Rightarrow> nat \<times> bool list \<times> (jsnum \<times> int \<times> int) \<times> (jsnum \<times> int \<times> int) \<times> nat" where
  "phase_view s =
     (currentPhase s, phaseCompleted s,
      (leftGazeThreshold s, leftGazeFrames s, leftGazeRequired s),
      (rightGazeThreshold s, rightGazeFrames s, rightGazeRequired s), flashes s)"

text \<open>Both sustain counters are at least 0 and below the required count, which is 10.\<close>

definition counters_in_range :: "tracker \<Rightarrow> bool" where
  "counters_in_range s =
     (0 \<le> leftGazeFrames s \<and> leftGazeFrames s < leftGazeRequired s \<and> leftGazeRequired s = 10
      \<and> 0 \<le> rightGazeFrames s \<and> rightGazeFrames s < rightGazeRequired s
      \<and> rightGazeRequired s = 10)"

text \<open>
  Three gaze points for the examples, on a 1920 by 1080 window: a gaze ratio of 0.7, over
  the left threshold, one of 0.3, under the right threshold, and one of 0.5, between the
  two thresholds.
\<close>

definition looking_left :: gazePoint where
  "looking_left = \<lparr> gp_x = Fin 1344, gp_y = Fin 540, gp_h = Fin 0.7, gp_v = Fin 0.5 \<rparr>"

definition looking_right :: gazePoint where
  "looking_right = \<lparr> gp_x = Fin 576, gp_y = Fin 540, gp_h = Fin 0.3, gp_v = Fin 0.5 \<rparr>"

definition looking_ahead :: gazePoint where
  "looking_ahead = \<lparr> gp_x = Fin 960, gp_y = Fin 540, gp_h = Fin 0.5, gp_v = Fin 0.5 \<rparr>"


text \<open>
  A point with finite coordinates, from a pair of reals.
\<close>

definition fin_point :: "real \<times> real \<Rightarrow> point" where
  "fin_point p = \<lparr> pt_x = Fin (fst p), pt_y = Fin (snd p) \<rparr>"

text \<open>
  The geometry of the specification, over the reals: the scaling of a normalised point by
  the width and height of the frame, the Euclidean distance, the centroid (the arithmetic
  mean of the x and of the y coordinates) and the bounding box (componentwise minimum and
  maximum, as \<open>((minX, maxX), (minY, maxY))\<close>) of a list of points.
\<close>

definition scaled :: "real \<Rightarrow> real \<Rightarrow> real \<times> real \<Rightarrow> real \<times> real" where
  "scaled w h p = (fst p * w, snd p * h)"

definition euclid :: "real \<times> real \<Rightarrow> real \<times> real \<Rightarrow> real" where
  "euclid p q = sqrt ((fst q - fst p)\<^sup>2 + (snd q - snd p)\<^sup>2)"

definition centroid :: "(real \<times> real) list \<Rightarrow> real \<times> real" where
  "centroid ps =
     (sum_list (map fst ps) / real (length ps), sum_list (map snd ps) / real (length ps))"

definition bounding_box :: "(real \<times> real) list \<Rightarrow> (real \<times> real) \<times> (real \<times> real)" where
  "bounding_box ps =
     ((Min (set (map fst ps)), Max (set (map fst ps))),
      (Min (set (map snd ps)), Max (set (map snd ps))))"


text \<open>
  One rounding changes a number of magnitude \<open>2 ^ - 1022\<close> or more, the smallest normal
  double, by a factor between \<open>1 - 2 ^ - 53\<close> and \<open>1 + 2 ^ - 53\<close>, and a smaller number by
  \<open>2 ^ - 1075\<close> at most. \<open>rounding_factor\<close> is the larger factor.
\<close>

definition rounding_factor :: real where
  "rounding_factor = 1 + 1 / 2 ^ 53"

definition smallest_normal :: real where
  "smallest_normal = 1 / 2 ^ 1022"

text \<open>
  What \<^verbatim>\<open>getCenter\<close> and the scaling in \<^verbatim>\<open>calculateGazeRatio\<close> compute on finite
  numbers, over the reals: the sum of a list from the left with each addition rounded, the
  mean times the width resp. the height with the division and the product rounded, and a
  point scaled with both products rounded.
\<close>

definition rounded_sum :: "real list \<Rightarrow> real" where
  "rounded_sum xs = foldl (\<lambda>s x. round_double (s + x)) 0 xs"

definition center_rounded :: "real \<Rightarrow> real \<Rightarrow> (real \<times> real) list \<Rightarrow> real \<times> real" where
  "center_rounded w h ps =
     (round_double (round_double (rounded_sum (map fst ps) / real (length ps)) * w),
      round_double (round_double (rounded_sum (map snd ps) / real (length ps)) * h))"

definition scaled_rounded :: "real \<Rightarrow> real \<Rightarrow> real \<times> real \<Rightarrow> real \<times> real" where
  "scaled_rounded w h p = (round_double (fst p * w), round_double (snd p * h))"

text \<open>
  The gaze ratio as the specification words it, in the arithmetic of the source: the iris
  centre is the centroid of the scaled iris points (each point scaled first, then the
  mean), and the neutral value is returned when the width or the height of the box is at
  most 0. \<open>jle\<close> is \<^verbatim>\<open><=\<close>, and \<open>spec_centroid\<close> the mean of the coordinates of a list of
  points.
\<close>

definition jle :: "jsnum \<Rightarrow> jsnum \<Rightarrow> bool" where
  "jle a b = (jlt a b \<or> (a = b \<and> a \<noteq> NaN))"

definition spec_centroid :: "point list \<Rightarrow> point" where
  "spec_centroid points =
     \<lparr> pt_x = ddiv (reduce_sum_rounded pt_x points) (jlength points),
       pt_y = ddiv (reduce_sum_rounded pt_y points) (jlength points) \<rparr>"

definition spec_gaze_ratio :: "point list \<Rightarrow> point list \<Rightarrow> jsnum \<Rightarrow> jsnum \<Rightarrow> gaze" where
  "spec_gaze_ratio irisLandmarks eyeLandmarks width height =
     (let irisCenter = spec_centroid (map (to_pixels_rounded width height) irisLandmarks);
          eyePoints = map (to_pixels_rounded width height) eyeLandmarks;
          minX = Math_min (map pt_x eyePoints);
          maxX = Math_max (map pt_x eyePoints);
          minY = Math_min (map pt_y eyePoints);
          maxY = Math_max (map pt_y eyePoints);
          eyeWidth = dsub maxX minX;
          eyeHeight = dsub maxY minY
      in if jle eyeWidth (Fin 0) \<or> jle eyeHeight (Fin 0)
         then \<lparr> gaze_h = Fin 0.5, gaze_v = Fin 0.5 \<rparr>
         else \<lparr> gaze_h = ddiv (dsub (pt_x irisCenter) minX) eyeWidth,
                gaze_v = ddiv (dsub (pt_y irisCenter) minY) eyeHeight \<rparr>)"

section \<open>Blink counting\<close>

lemma detectBlink_consts:
  "EAR_THRESHOLD (snd (detectBlink now e s)) = EAR_THRESHOLD s"
  "BLINK_CONSEC_FRAMES (snd (detectBlink now e s)) = BLINK_CONSEC_FRAMES s"
  by (simp_all add: detectBlink_def)

lemma detectBlinks_flags:
  "fst (detectBlinks fs s) =
     blink_flags (BLINK_CONSEC_FRAMES s) (blinkFrameCounter s) (below_flags (EAR_THRESHOLD s) fs)"
proof (induction fs arbitrary: s)
  case Nil show ?case by (simp add: below_flags_def)
next
  case (Cons f fs)
  show ?case 
    using Cons.IH[of "snd (detectBlink (fst f) (snd f) s)"]
    by (auto simp add: below_flags_def  split_def Let_def detectBlink_def)
qed

lemma detectBlinks_counter:
  "blinkFrameCounter (snd (detectBlinks fs s)) =
     blink_counter (blinkFrameCounter s) (below_flags (EAR_THRESHOLD s) fs)"
proof (induction fs arbitrary: s)
  case Nil show ?case by (simp add: below_flags_def)
next
  case (Cons f fs)
  show ?case 
    using Cons.IH[of "snd (detectBlink (fst f) (snd f) s)"]
    by (auto simp add: below_flags_def  split_def Let_def detectBlink_def)
qed

lemma detectBlinks_count:
  "blinkCount (snd (detectBlinks fs s)) =
     blinkCount s + length (filter id (fst (detectBlinks fs s)))"
proof (induction fs arbitrary: s)
  case Nil show ?case by simp
next
  case (Cons f fs)
  show ?case 
    using Cons.IH[of "snd (detectBlink (fst f) (snd f) s)"]
    by (auto simp add: split_def Let_def detectBlink_def)
qed

lemma length_blink_flags: "length (blink_flags m c bs) = length bs"
  by (induction bs arbitrary: c) auto

lemma blink_flags_nth:
  "i < length bs \<Longrightarrow> blink_flags 2 c bs ! i \<longleftrightarrow>
     \<not> bs ! i \<and> ((2 \<le> i \<and> bs ! (i - 1) \<and> bs ! (i - 2))
                \<or> (i = 1 \<and> bs ! 0 \<and> 1 \<le> c) \<or> (i = 0 \<and> 2 \<le> c))"
proof (induction bs arbitrary: c i)
  case Nil then show ?case by simp
next
  case (Cons b bs)
  show ?case
  proof (cases i)
    case 0 then show ?thesis by simp
  next
    case (Suc j)
    then have j: "j < length bs" using Cons.prems by simp
    show ?thesis using Cons.IH[OF j, of "if b then Suc c else 0"] Suc
      by (cases j; cases "j - 1") (auto simp: nth_Cons')
  qed
qed

lemma blink_flags_all_True:
  "\<forall>b\<in>set xs. b \<Longrightarrow>
   blink_flags m c (xs @ ys) = replicate (length xs) False @ blink_flags m (c + length xs) ys"
  by (induction xs arbitrary: c) auto

lemma blink_counter_all_True:
  "\<forall>b\<in>set xs. b \<Longrightarrow> blink_counter c (xs @ ys) = blink_counter (c + length xs) ys"
  by (induction xs arbitrary: c) auto

lemma blink_flags_long_runs:
  "length (filter id (blink_flags 2 0 bs)) + (if 2 \<le> blink_counter 0 bs then 1 else 0) = long_runs bs"
proof (induction bs rule: maximal_runs.induct)
  case 1 show ?case by (simp add: long_runs_def)
next
  case (2 b bs)
  show ?case
  proof (cases b)
    case False
    with 2 show ?thesis by (simp add: long_runs_def)
  next
    case True
    let ?xs = "True # takeWhile id bs"
    let ?ys = "dropWhile id bs"
    have split: "b # bs = ?xs @ ?ys" using True by simp
    have allT: "\<forall>b\<in>set ?xs. b" by (auto dest: set_takeWhileD)
    have e: "blink_flags 2 0 (b # bs) = replicate (length ?xs) False @ blink_flags 2 (length ?xs) ?ys"
      unfolding split using blink_flags_all_True[OF allT, of 2 0 ?ys] by simp
    have f: "blink_counter 0 (b # bs) = blink_counter (length ?xs) ?ys"
      unfolding split using blink_counter_all_True[OF allT, of 0 ?ys] by simp
    have mr: "maximal_runs (b # bs) = length ?xs # maximal_runs ?ys" using True by simp
    show ?thesis
    proof (cases ?ys)
      case Nil
      have "blink_flags 2 0 (b # bs) = replicate (length ?xs) False" using e unfolding Nil by simp
      moreover have "blink_counter 0 (b # bs) = length ?xs" using f unfolding Nil by simp
      moreover have "maximal_runs (b # bs) = [length ?xs]" using mr unfolding Nil by simp
      ultimately show ?thesis unfolding long_runs_def by simp
    next
      case (Cons z zs)
      then have nz: "\<not> z" using hd_dropWhile[of id bs] by auto
      have ih: "length (filter id (blink_flags 2 0 ?ys)) + (if 2 \<le> blink_counter 0 ?ys then 1 else 0) = long_runs ?ys"
        using 2(1)[OF True] .
      have e': "blink_flags 2 0 (b # bs) = replicate (length ?xs) False @ ((2 \<le> length ?xs) # blink_flags 2 0 zs)"
        using e nz unfolding Cons by simp
      have f': "blink_counter 0 (b # bs) = blink_counter 0 zs" using f nz unfolding Cons by simp
      have ih': "length (filter id (blink_flags 2 0 zs)) + (if 2 \<le> blink_counter 0 zs then 1 else 0) = long_runs ?ys"
        using ih nz unfolding Cons by simp
      have "long_runs (b # bs) = (if 2 \<le> length ?xs then 1 else 0) + long_runs ?ys"
        unfolding long_runs_def mr by simp
      then show ?thesis unfolding e' f' using ih' by (simp add: id_def)
    qed
  qed
qed

lemma blink_counter_snoc: "blink_counter c (bs @ [b]) = (if b then Suc (blink_counter c bs) else 0)"
  by (induction bs arbitrary: c) simp_all

lemma blink_counter_0: "blink_counter 0 bs = length (takeWhile id (rev bs))"
  by (induction bs rule: rev_induct) (simp_all add: blink_counter_snoc)

lemma below_flags_nth: "i < length fs \<Longrightarrow> below_flags t fs ! i = jlt (snd (fs ! i)) t"
  by (simp add: below_flags_def)

text \<open>
  C1. Fed a sequence of frames from a counter at 0 with minimum run length 2, the detector
  returns \<^verbatim>\<open>isBlinking = true\<close> exactly on the frames whose sample is not strictly below
  the threshold while the two samples before it are: the first frame after a run of at
  least two sub-threshold samples. \<^verbatim>\<open>blinkCount\<close> grows by the number of these frames. A
  run that is still open when the sequence ends has emitted nothing and stands in
  \<^verbatim>\<open>blinkFrameCounter\<close>; so the events, plus one when the open run has length at least 2,
  are as many as the maximal sub-threshold runs of length at least 2, and the events alone
  are as many when the sequence is empty or ends with a sample that is not below the
  threshold. A NaN sample is not below the threshold.
\<close>

theorem blink_events_are_closed_long_runs:
  assumes c0: "blinkFrameCounter s = 0" and m2: "BLINK_CONSEC_FRAMES s = 2"
  shows "let bs = below_flags (EAR_THRESHOLD s) fs;
             flags = fst (detectBlinks fs s);
             s' = snd (detectBlinks fs s)
         in length flags = length fs
          \<and> (\<forall>i<length fs. flags ! i = (2 \<le> i \<and> bs ! (i - 2) \<and> bs ! (i - 1) \<and> \<not> bs ! i))
          \<and> blinkCount s' = blinkCount s + length (filter id flags)
          \<and> blinkFrameCounter s' = length (takeWhile id (rev bs))
          \<and> blinkCount s' + (if 2 \<le> length (takeWhile id (rev bs)) then 1 else 0)
              = blinkCount s + long_runs bs
          \<and> ((fs = [] \<or> \<not> last bs) \<longrightarrow> blinkCount s' = blinkCount s + long_runs bs)"
proof -
  let ?bs = "below_flags (EAR_THRESHOLD s) fs"
  let ?flags = "fst (detectBlinks fs s)"
  let ?s' = "snd (detectBlinks fs s)"
  have fl: "?flags = blink_flags 2 0 ?bs" using detectBlinks_flags[of fs s] c0 m2 by simp
  have len: "length ?flags = length fs" by (simp add: fl length_blink_flags below_flags_def)
  have nth: "\<forall>i<length fs. ?flags ! i = (2 \<le> i \<and> ?bs ! (i - 2) \<and> ?bs ! (i - 1) \<and> \<not> ?bs ! i)"
  proof (intro allI impI)
    fix i assume "i < length fs"
    then have "i < length ?bs" by (simp add: below_flags_def)
    from blink_flags_nth[OF this, of 0] show "?flags ! i = (2 \<le> i \<and> ?bs ! (i - 2) \<and> ?bs ! (i - 1) \<and> \<not> ?bs ! i)"
      unfolding fl by auto
  qed
  have cnt: "blinkCount ?s' = blinkCount s + length (filter id ?flags)"
    by (rule detectBlinks_count)
  have ctr: "blinkFrameCounter ?s' = length (takeWhile id (rev ?bs))"
    using detectBlinks_counter[of fs s] c0 by (simp add: blink_counter_0)
  have runs: "blinkCount ?s' + (if 2 \<le> length (takeWhile id (rev ?bs)) then 1 else 0)
              = blinkCount s + long_runs ?bs"
    using blink_flags_long_runs[of ?bs] cnt fl by (simp add: blink_counter_0)
  have closed: "(fs = [] \<or> \<not> last ?bs) \<longrightarrow> blinkCount ?s' = blinkCount s + long_runs ?bs"
  proof
    assume a: "fs = [] \<or> \<not> last ?bs"
    have "takeWhile id (rev ?bs) = []"
    proof (cases "fs = []")
      case True then show ?thesis by (simp add: below_flags_def)
    next
      case False
      then have ne: "?bs \<noteq> []" by (simp add: below_flags_def)
      with a False have "\<not> hd (rev ?bs)" by (simp add: hd_rev)
      then show ?thesis using ne by (cases "rev ?bs") auto
    qed
    with runs show "blinkCount ?s' = blinkCount s + long_runs ?bs" by simp
  qed
  show ?thesis unfolding Let_def by (intro conjI len nth cnt ctr runs closed)
qed


text \<open>
  The two sequences of the specification, on a new tracker: \<open>[0.3, 0.3, 0.1, 0.1, 0.1, 0.3, 0.3]\<close>
  gives one event, on the frame where the sample is back at 0.3, and \<open>[0.3, 0.1, 0.3]\<close>
  gives none.
\<close>

theorem blink_events_witness:
  "blinkFrameCounter (new_tracker (Fin 1920) (Fin 1080)) = 0
   \<and> BLINK_CONSEC_FRAMES (new_tracker (Fin 1920) (Fin 1080)) = 2
   \<and> fst (detectBlinks
        [(0, Fin 0.3), (33, Fin 0.3), (66, Fin 0.1), (100, Fin 0.1), (133, Fin 0.1),
         (166, Fin 0.3), (200, Fin 0.3)] (new_tracker (Fin 1920) (Fin 1080)))
       = [False, False, False, False, False, True, False]
   \<and> blinkCount (snd (detectBlinks
        [(0, Fin 0.3), (33, Fin 0.3), (66, Fin 0.1), (100, Fin 0.1), (133, Fin 0.1),
         (166, Fin 0.3), (200, Fin 0.3)] (new_tracker (Fin 1920) (Fin 1080))))
       = long_runs (below_flags (Fin 0.21)
           [(0, Fin 0.3), (33, Fin 0.3), (66, Fin 0.1), (100, Fin 0.1), (133, Fin 0.1),
            (166, Fin 0.3), (200, Fin 0.3)])
   \<and> long_runs (below_flags (Fin 0.21)
           [(0, Fin 0.3), (33, Fin 0.3), (66, Fin 0.1), (100, Fin 0.1), (133, Fin 0.1),
            (166, Fin 0.3), (200, Fin 0.3)]) = 1
   \<and> fst (detectBlinks [(0, Fin 0.3), (33, Fin 0.1), (66, Fin 0.3)]
        (new_tracker (Fin 1920) (Fin 1080))) = [False, False, False]
   \<and> blinkCount (snd (detectBlinks [(0, Fin 0.3), (33, Fin 0.1), (66, Fin 0.3)]
        (new_tracker (Fin 1920) (Fin 1080)))) = 0"
  using blink_events_are_closed_long_runs
          [of "new_tracker (Fin 1920) (Fin 1080)"
              "[(0, Fin 0.3), (33, Fin 0.3), (66, Fin 0.1), (100, Fin 0.1), (133, Fin 0.1),
                (166, Fin 0.3), (200, Fin 0.3)]"]
  by (simp add: new_tracker_def detectBlink_def below_flags_def long_runs_def)

text \<open>
  Two sub-threshold samples and nothing after them: one maximal run of length 2, no event.
\<close>

theorem blink_open_run_counterexample:
  "blinkCount (snd (detectBlinks [(0, Fin 0.1), (33, Fin 0.1)]
       (new_tracker (Fin 1920) (Fin 1080)))) = 0
   \<and> long_runs (below_flags (Fin 0.21) [(0, Fin 0.1), (33, Fin 0.1)]) = 1"
  by (simp add: new_tracker_def detectBlink_def below_flags_def long_runs_def)

section \<open>The phase detectors\<close>

lemma flag_at_set_flag: "flag_at (set_flag fl i) i"
  by (simp add: flag_at_def set_flag_def nth_append)

lemma flag_at_set_flag_mono: "flag_at fl j \<Longrightarrow> flag_at (set_flag fl i) j"
  by (auto simp add: flag_at_def set_flag_def nth_append nth_list_update)

lemma detectLeftGaze_inert:
  "currentPhase s \<noteq> 0 \<or> flag_at (phaseCompleted s) 0 \<Longrightarrow> detectLeftGaze g s = s"
  by (simp add: detectLeftGaze_def)

lemma detectLeftGaze_count:
  assumes "currentPhase s = 0" "\<not> flag_at (phaseCompleted s) 0"
    and "jgt (gp_h g) (leftGazeThreshold s)" "leftGazeFrames s + 1 < leftGazeRequired s"
  shows "detectLeftGaze g s = s\<lparr>leftGazeFrames := leftGazeFrames s + 1\<rparr>"
  using assms by (simp add: detectLeftGaze_def Let_def)

lemma detectLeftGaze_fire:
  assumes "currentPhase s = 0" "\<not> flag_at (phaseCompleted s) 0"
    and "jgt (gp_h g) (leftGazeThreshold s)" "leftGazeRequired s \<le> leftGazeFrames s + 1"
  shows "detectLeftGaze g s = left_completed s"
  using assms 
  by (simp add: detectLeftGaze_def Let_def left_completed_def triggerFlash_def advanceToPhase_def)

lemma detectLeftGaze_decay:
  assumes "currentPhase s = 0" "\<not> flag_at (phaseCompleted s) 0"
    and "\<not> jgt (gp_h g) (leftGazeThreshold s)"
  shows "detectLeftGaze g s =
           s\<lparr>leftGazeFrames := (if 0 < leftGazeFrames s then max 0 (leftGazeFrames s - 2)
                                 else leftGazeFrames s)\<rparr>"
  using assms by (simp add: detectLeftGaze_def)

lemma detectLeftGazes_append:
  "detectLeftGazes (xs @ ys) s = detectLeftGazes ys (detectLeftGazes xs s)"
  by (simp add: detectLeftGazes_def)

lemma detectLeftGazes_count:
  assumes "currentPhase s = 0" "\<not> flag_at (phaseCompleted s) 0"
    and "\<forall>g\<in>set gs. jgt (gp_h g) (leftGazeThreshold s)"
    and "leftGazeFrames s + int (length gs) < leftGazeRequired s"
  shows "detectLeftGazes gs s = s\<lparr>leftGazeFrames := leftGazeFrames s + int (length gs)\<rparr>"
  using assms
proof (induction gs arbitrary: s)
  case Nil
  show ?case by (simp add: detectLeftGazes_def)
next
  case (Cons g gs)
  let ?s1 = "s\<lparr>leftGazeFrames := leftGazeFrames s + 1\<rparr>"
  have one: "detectLeftGaze g s = ?s1"
    using Cons.prems by (intro detectLeftGaze_count) auto
  have "detectLeftGazes gs ?s1 = ?s1\<lparr>leftGazeFrames := leftGazeFrames ?s1 + int (length gs)\<rparr>"
    using Cons.prems by (intro Cons.IH) auto
  then show ?case using one by (simp add: detectLeftGazes_def add.assoc)
qed

lemma detectLeftGazes_fire:
  assumes act: "currentPhase s = 0" "\<not> flag_at (phaseCompleted s) 0"
    and q: "\<forall>g\<in>set gs. jgt (gp_h g) (leftGazeThreshold s)"
    and n: "leftGazeFrames s + int (length gs) = leftGazeRequired s" and ne: "gs \<noteq> []"
  shows "detectLeftGazes gs s = left_completed s"
proof -
  obtain gs' g where gs: "gs = gs' @ [g]" using ne by (cases gs rule: rev_cases) auto
  let ?s1 = "s\<lparr>leftGazeFrames := leftGazeFrames s + int (length gs')\<rparr>"
  have "detectLeftGazes gs' s = ?s1"
    using act q n unfolding gs by (intro detectLeftGazes_count) auto
  moreover have "detectLeftGaze g ?s1 = left_completed ?s1"
    using act q n unfolding gs by (intro detectLeftGaze_fire) auto
  moreover have "left_completed ?s1 = left_completed s" by (simp add: left_completed_def)
  ultimately show ?thesis unfolding gs detectLeftGazes_append by (simp add: detectLeftGazes_def)
qed

lemma detectRightGaze_inert:
  "currentPhase s \<noteq> 1 \<or> flag_at (phaseCompleted s) 1 \<Longrightarrow> detectRightGaze g s = s"
  by (simp add: detectRightGaze_def)

lemma detectRightGaze_count:
  assumes "currentPhase s = 1" "\<not> flag_at (phaseCompleted s) 1"
    and "jlt (gp_h g) (rightGazeThreshold s)" "rightGazeFrames s + 1 < rightGazeRequired s"
  shows "detectRightGaze g s = s\<lparr>rightGazeFrames := rightGazeFrames s + 1\<rparr>"
  using assms by (simp add: detectRightGaze_def Let_def)

lemma detectRightGaze_fire:
  assumes "currentPhase s = 1" "\<not> flag_at (phaseCompleted s) 1"
    and "jlt (gp_h g) (rightGazeThreshold s)" "rightGazeRequired s \<le> rightGazeFrames s + 1"
  shows "detectRightGaze g s = right_completed s"
  using assms 
  by (simp add: detectRightGaze_def Let_def right_completed_def triggerFlash_def advanceToPhase_def)

lemma detectRightGaze_decay:
  assumes "currentPhase s = 1" "\<not> flag_at (phaseCompleted s) 1"
    and "\<not> jlt (gp_h g) (rightGazeThreshold s)"
  shows "detectRightGaze g s =
           s\<lparr>rightGazeFrames := (if 0 < rightGazeFrames s then max 0 (rightGazeFrames s - 2)
                                 else rightGazeFrames s)\<rparr>"
  using assms by (simp add: detectRightGaze_def)

lemma detectRightGazes_append:
  "detectRightGazes (xs @ ys) s = detectRightGazes ys (detectRightGazes xs s)"
  by (simp add: detectRightGazes_def)

lemma detectRightGazes_count:
  assumes "currentPhase s = 1" "\<not> flag_at (phaseCompleted s) 1"
    and "\<forall>g\<in>set gs. jlt (gp_h g) (rightGazeThreshold s)"
    and "rightGazeFrames s + int (length gs) < rightGazeRequired s"
  shows "detectRightGazes gs s = s\<lparr>rightGazeFrames := rightGazeFrames s + int (length gs)\<rparr>"
  using assms
proof (induction gs arbitrary: s)
  case Nil
  show ?case by (simp add: detectRightGazes_def)
next
  case (Cons g gs)
  let ?s1 = "s\<lparr>rightGazeFrames := rightGazeFrames s + 1\<rparr>"
  have one: "detectRightGaze g s = ?s1"
    using Cons.prems by (intro detectRightGaze_count) auto
  have "detectRightGazes gs ?s1 = ?s1\<lparr>rightGazeFrames := rightGazeFrames ?s1 + int (length gs)\<rparr>"
    using Cons.prems by (intro Cons.IH) auto
  then show ?case using one by (simp add: detectRightGazes_def add.assoc)
qed

lemma detectRightGazes_fire:
  assumes act: "currentPhase s = 1" "\<not> flag_at (phaseCompleted s) 1"
    and q: "\<forall>g\<in>set gs. jlt (gp_h g) (rightGazeThreshold s)"
    and n: "rightGazeFrames s + int (length gs) = rightGazeRequired s" and ne: "gs \<noteq> []"
  shows "detectRightGazes gs s = right_completed s"
proof -
  obtain gs' g where gs: "gs = gs' @ [g]" using ne by (cases gs rule: rev_cases) auto
  let ?s1 = "s\<lparr>rightGazeFrames := rightGazeFrames s + int (length gs')\<rparr>"
  have "detectRightGazes gs' s = ?s1"
    using act q n unfolding gs by (intro detectRightGazes_count) auto
  moreover have "detectRightGaze g ?s1 = right_completed ?s1"
    using act q n unfolding gs by (intro detectRightGaze_fire) auto
  moreover have "right_completed ?s1 = right_completed s" by (simp add: right_completed_def)
  ultimately show ?thesis unfolding gs detectRightGazes_append by (simp add: detectRightGazes_def)
qed

lemma jlt_irrefl: "\<not> jlt a a"
  by (cases a) simp_all

subsection \<open>What a frame and a session do to the phases\<close>

lemma phase_view_detectBlink [simp]: "phase_view (snd (detectBlink now e s)) = phase_view s"
  by (simp add: detectBlink_def phase_view_def)

lemma phase_view_pushes [simp]:
  "phase_view (push_earHistory e s) = phase_view s"
  "phase_view (push_gazeHistory g s) = phase_view s"
  "phase_view (push_pupilSizeHistory p s) = phase_view s"
  by (simp_all add: phase_view_def push_earHistory_def push_gazeHistory_def
        push_pupilSizeHistory_def Let_def)

lemma phase_view_estimateGazePoint [simp]:
  "phase_view (snd (estimateGazePoint l r s)) = phase_view s"
  by (simp add: estimateGazePoint_def Let_def)

lemma phase_view_trail [simp]: "phase_view (s\<lparr>circleTrailEnabled := b\<rparr>) = phase_view s"
  by (simp add: phase_view_def)

lemma phase_view_detectLeftGaze:
  "phase_view s = phase_view t \<Longrightarrow>
   phase_view (detectLeftGaze g s) = phase_view (detectLeftGaze g t)"
  by (simp add: phase_view_def detectLeftGaze_def Let_def triggerFlash_def advanceToPhase_def)

lemma phase_view_detectRightGaze:
  "phase_view s = phase_view t \<Longrightarrow>
   phase_view (detectRightGaze g s) = phase_view (detectRightGaze g t)"
  by (simp add: phase_view_def detectRightGaze_def Let_def triggerFlash_def advanceToPhase_def)

lemma processEyeTracking_view:
  assumes s: "Q (phase_view s)"
    and L: "\<And>g u. Q (phase_view u) \<Longrightarrow> Q (phase_view (detectLeftGaze g u))"
    and R: "\<And>g u. Q (phase_view u) \<Longrightarrow> Q (phase_view (detectRightGaze g u))"
  shows "Q (phase_view (snd (processEyeTracking landmarks width height now s)))"
proof -
  have A: "Q (phase_view (snd (detectBlink now e (push_earHistory e' s))))" for e e'
    using s by simp
  have B: "Q (phase_view (detectRightGaze g (detectLeftGaze g
             (snd (estimateGazePoint l r (snd (detectBlink now e (push_earHistory e' s))))))))"
    for g l r e e'
    by (intro R L) (simp add: s)
  show ?thesis
    unfolding processEyeTracking_def Let_def
    by (simp add: s A B split: option.split sum.split)
qed

lemma session_Cons: "session s (e # evs) = session (step s e) evs"
  by (simp add: session_def)

lemma session_view:
  assumes s: "Q (phase_view s)"
    and L: "\<And>g u. Q (phase_view u) \<Longrightarrow> Q (phase_view (detectLeftGaze g u))"
    and R: "\<And>g u. Q (phase_view u) \<Longrightarrow> Q (phase_view (detectRightGaze g u))"
    and F: "\<And>u. Q (phase_view u) \<Longrightarrow> Q (phase_view (showFinalMessage u))"
  shows "Q (phase_view (session s evs))"
  using s
proof (induction evs arbitrary: s)
  case Nil
  then show ?case by (simp add: session_def)
next
  case (Cons e evs)
  have "Q (phase_view (step s e))"
  proof (cases e)
    case (Frame landmarks width height now)
    then show ?thesis using processEyeTracking_view[of Q s, OF Cons.prems L R] by simp
  next
    case TrailTimer
    then show ?thesis using Cons.prems by simp
  next
    case FinalTimer
    then show ?thesis using F[OF Cons.prems] by simp
  qed
  then show ?case unfolding session_Cons by (rule Cons.IH)
qed

lemma detectLeftGaze_flag_mono:
  "flag_at (phaseCompleted s) i \<Longrightarrow> flag_at (phaseCompleted (detectLeftGaze g s)) i"
  by (simp add: detectLeftGaze_def Let_def triggerFlash_def advanceToPhase_def
        flag_at_set_flag_mono)

lemma detectRightGaze_flag_mono:
  "flag_at (phaseCompleted s) i \<Longrightarrow> flag_at (phaseCompleted (detectRightGaze g s)) i"
  by (simp add: detectRightGaze_def Let_def triggerFlash_def advanceToPhase_def
        flag_at_set_flag_mono)

lemma session_flag_mono:
  assumes "flag_at (phaseCompleted s) i"
  shows "flag_at (phaseCompleted (session s evs)) i"
proof -
  have "(\<lambda>v. flag_at (fst (snd v)) i) (phase_view (session s evs))"
  proof (rule session_view)
    show "flag_at (fst (snd (phase_view s))) i" using assms by (simp add: phase_view_def)
  next
    fix g u assume "flag_at (fst (snd (phase_view u))) i"
    then show "flag_at (fst (snd (phase_view (detectLeftGaze g u)))) i"
      by (simp add: phase_view_def detectLeftGaze_flag_mono)
  next
    fix g u assume "flag_at (fst (snd (phase_view u))) i"
    then show "flag_at (fst (snd (phase_view (detectRightGaze g u)))) i"
      by (simp add: phase_view_def detectRightGaze_flag_mono)
  next
    fix u assume "flag_at (fst (snd (phase_view u))) i"
    then show "flag_at (fst (snd (phase_view (showFinalMessage u)))) i"
      by (simp add: phase_view_def showFinalMessage_def)
  qed
  then show ?thesis by (simp add: phase_view_def)
qed

lemma detectLeftGaze_in_range:
  "counters_in_range s \<Longrightarrow> counters_in_range (detectLeftGaze g s)"
  by (simp add: counters_in_range_def detectLeftGaze_def Let_def triggerFlash_def
        advanceToPhase_def)

lemma detectRightGaze_in_range:
  "counters_in_range s \<Longrightarrow> counters_in_range (detectRightGaze g s)"
  by (simp add: counters_in_range_def detectRightGaze_def Let_def triggerFlash_def
        advanceToPhase_def)

lemma counters_in_range_view:
  "counters_in_range s =
     (case phase_view s of (_, _, (_, lf, lr), (_, rf, rr), _) \<Rightarrow>
        0 \<le> lf \<and> lf < lr \<and> lr = 10 \<and> 0 \<le> rf \<and> rf < rr \<and> rr = 10)"
  by (simp add: counters_in_range_def phase_view_def)

lemma session_in_range:
  assumes "counters_in_range s"
  shows "counters_in_range (session s evs)"
proof -
  let ?Q = "\<lambda>v. case v of (_, _, (_, lf, lr), (_, rf, rr), _) \<Rightarrow>
        (0::int) \<le> lf \<and> lf < lr \<and> lr = (10::int) \<and> (0::int) \<le> rf \<and> rf < rr \<and> rr = (10::int)"
  have "?Q (phase_view (session s evs))"
  proof (rule session_view)
    show "?Q (phase_view s)" using assms by (simp add: counters_in_range_view)
  next
    fix g u assume "?Q (phase_view u)"
    then have "counters_in_range u" by (simp add: counters_in_range_view)
    then have "counters_in_range (detectLeftGaze g u)" by (rule detectLeftGaze_in_range)
    then show "?Q (phase_view (detectLeftGaze g u))" by (simp add: counters_in_range_view)
  next
    fix g u assume "?Q (phase_view u)"
    then have "counters_in_range u" by (simp add: counters_in_range_view)
    then have "counters_in_range (detectRightGaze g u)" by (rule detectRightGaze_in_range)
    then show "?Q (phase_view (detectRightGaze g u))" by (simp add: counters_in_range_view)
  next
    fix u assume "?Q (phase_view u)"
    then show "?Q (phase_view (showFinalMessage u))"
      by (simp add: phase_view_def showFinalMessage_def)
  qed
  then show ?thesis by (simp add: counters_in_range_view)
qed

lemma new_tracker_in_range: "counters_in_range (new_tracker w h)"
  by (simp add: counters_in_range_def new_tracker_def)

subsection \<open>The claims on the phases\<close>

text \<open>
  C2. With phase LookLeft active, its flag not set, its counter at 0 and 10 frames
  required, frames whose gaze ratio is strictly over \<^verbatim>\<open>leftGazeThreshold\<close> (whatever its
  value, 0.65 in a new tracker) only count up as long as there are fewer than 10 of them:
  no flash, no flag, phase unchanged. The 10th one fires the flash, sets the flag, puts
  the counter back to 0 and makes LookRight the current phase. A frame whose ratio is
  equal to the threshold does not qualify: it takes the branch of the failed predicate.
\<close>

theorem look_left_completes_on_tenth_frame:
  assumes "currentPhase s = 0" and "\<not> flag_at (phaseCompleted s) 0"
    and "leftGazeFrames s = 0" and "leftGazeRequired s = 10"
    and "\<forall>q\<in>set gs. jgt (gp_h q) (leftGazeThreshold s)"
  shows "(length gs < 10 \<longrightarrow>
            detectLeftGazes gs s = s\<lparr>leftGazeFrames := int (length gs)\<rparr>)
       \<and> (length gs = 10 \<longrightarrow>
            detectLeftGazes gs s =
              s\<lparr>flashes := flashes s + 1, phaseCompleted := set_flag (phaseCompleted s) 0,
                leftGazeFrames := 0, currentPhase := 1\<rparr>
            \<and> flashes (detectLeftGazes gs s) = flashes s + 1
            \<and> flag_at (phaseCompleted (detectLeftGazes gs s)) 0
            \<and> leftGazeFrames (detectLeftGazes gs s) = 0
            \<and> currentPhase (detectLeftGazes gs s) = 1)
       \<and> (\<forall>t g. currentPhase t = 0 \<and> \<not> flag_at (phaseCompleted t) 0
              \<and> gp_h g = leftGazeThreshold t \<longrightarrow>
            \<not> jgt (gp_h g) (leftGazeThreshold t)
            \<and> detectLeftGaze g t =
                t\<lparr>leftGazeFrames := (if 0 < leftGazeFrames t then max 0 (leftGazeFrames t - 2)
                                      else leftGazeFrames t)\<rparr>)"
proof (intro conjI impI allI)
  assume "length gs < 10"
  then show "detectLeftGazes gs s = s\<lparr>leftGazeFrames := int (length gs)\<rparr>"
    using detectLeftGazes_count[of s gs] assms by simp
next
  assume n: "length gs = 10"
  then have "gs \<noteq> []" by auto
  with n have c: "detectLeftGazes gs s = left_completed s"
    using assms by (intro detectLeftGazes_fire) auto
  then show "detectLeftGazes gs s =
              s\<lparr>flashes := flashes s + 1, phaseCompleted := set_flag (phaseCompleted s) 0,
                leftGazeFrames := 0, currentPhase := 1\<rparr>"
    by (simp add: left_completed_def)
  show "flashes (detectLeftGazes gs s) = flashes s + 1" by (simp add: c left_completed_def)
  show "flag_at (phaseCompleted (detectLeftGazes gs s)) 0"
    by (simp add: c left_completed_def flag_at_set_flag)
  show "leftGazeFrames (detectLeftGazes gs s) = 0" by (simp add: c left_completed_def)
  show "currentPhase (detectLeftGazes gs s) = 1" by (simp add: c left_completed_def)
next
  fix t :: tracker and g :: gazePoint
  assume a: "currentPhase t = 0 \<and> \<not> flag_at (phaseCompleted t) 0
              \<and> gp_h g = leftGazeThreshold t"
  then show nq: "\<not> jgt (gp_h g) (leftGazeThreshold t)" by (simp add: jgt_def jlt_irrefl)
  show "detectLeftGaze g t =
          t\<lparr>leftGazeFrames := (if 0 < leftGazeFrames t then max 0 (leftGazeFrames t - 2)
                                else leftGazeFrames t)\<rparr>"
    using a nq by (intro detectLeftGaze_decay) auto
qed

theorem look_left_completes_on_tenth_frame_witness:
  "currentPhase (new_tracker (Fin 1920) (Fin 1080)) = 0
   \<and> \<not> flag_at (phaseCompleted (new_tracker (Fin 1920) (Fin 1080))) 0
   \<and> leftGazeFrames (new_tracker (Fin 1920) (Fin 1080)) = 0
   \<and> leftGazeRequired (new_tracker (Fin 1920) (Fin 1080)) = 10
   \<and> jgt (gp_h looking_left) (leftGazeThreshold (new_tracker (Fin 1920) (Fin 1080)))
   \<and> currentPhase (detectLeftGazes (replicate 10 looking_left)
        (new_tracker (Fin 1920) (Fin 1080))) = 1
   \<and> flashes (detectLeftGazes (replicate 10 looking_left)
        (new_tracker (Fin 1920) (Fin 1080))) = 1
   \<and> leftGazeFrames (detectLeftGazes (replicate 10 looking_left)
        (new_tracker (Fin 1920) (Fin 1080))) = 0
   \<and> currentPhase (detectLeftGazes (replicate 9 looking_left)
        (new_tracker (Fin 1920) (Fin 1080))) = 0
   \<and> flashes (detectLeftGazes (replicate 9 looking_left)
        (new_tracker (Fin 1920) (Fin 1080))) = 0
   \<and> leftGazeFrames (detectLeftGazes (replicate 9 looking_left)
        (new_tracker (Fin 1920) (Fin 1080))) = 9"
  using look_left_completes_on_tenth_frame
          [of "new_tracker (Fin 1920) (Fin 1080)" "replicate 10 looking_left"]
        look_left_completes_on_tenth_frame
          [of "new_tracker (Fin 1920) (Fin 1080)" "replicate 9 looking_left"]
  by (simp add: new_tracker_def flag_at_def jgt_def looking_left_def)

text \<open>
  C3. In the active phase, not yet completed, a frame that fails the predicate of the
  phase takes 2 off a positive counter, stopping at 0, and leaves a counter at 0 alone; a
  counter over 2 stays positive. So 9 qualifying frames bring the counter to 9, a failing
  frame brings it to 7, fewer than 3 further qualifying frames do not complete the phase
  and the 3rd does: 13 frames. This holds of LookLeft with \<^verbatim>\<open>detectLeftGaze\<close> and of
  LookRight with \<^verbatim>\<open>detectRightGaze\<close>, where the 13th frame sets the flag of LookRight
  and makes DrawCircle the current phase.
\<close>

theorem gaze_counter_decays_by_two:
  "(currentPhase s = 0 \<and> \<not> flag_at (phaseCompleted s) 0
      \<and> \<not> jgt (gp_h g) (leftGazeThreshold s) \<longrightarrow>
        detectLeftGaze g s =
          s\<lparr>leftGazeFrames := (if 0 < leftGazeFrames s then max 0 (leftGazeFrames s - 2)
                                else leftGazeFrames s)\<rparr>
      \<and> (0 \<le> leftGazeFrames s \<longrightarrow>
            leftGazeFrames (detectLeftGaze g s) = max 0 (leftGazeFrames s - 2))
      \<and> (2 < leftGazeFrames s \<longrightarrow>
            leftGazeFrames (detectLeftGaze g s) = leftGazeFrames s - 2
            \<and> 0 < leftGazeFrames (detectLeftGaze g s)))
   \<and> (currentPhase s = 1 \<and> \<not> flag_at (phaseCompleted s) 1
      \<and> \<not> jlt (gp_h g) (rightGazeThreshold s) \<longrightarrow>
        detectRightGaze g s =
          s\<lparr>rightGazeFrames := (if 0 < rightGazeFrames s then max 0 (rightGazeFrames s - 2)
                                 else rightGazeFrames s)\<rparr>
      \<and> (0 \<le> rightGazeFrames s \<longrightarrow>
            rightGazeFrames (detectRightGaze g s) = max 0 (rightGazeFrames s - 2))
      \<and> (2 < rightGazeFrames s \<longrightarrow>
            rightGazeFrames (detectRightGaze g s) = rightGazeFrames s - 2
            \<and> 0 < rightGazeFrames (detectRightGaze g s)))
   \<and> (currentPhase s = 0 \<and> \<not> flag_at (phaseCompleted s) 0
      \<and> leftGazeFrames s = 0 \<and> leftGazeRequired s = 10
      \<and> length gs1 = 9 \<and> (\<forall>q\<in>set gs1. jgt (gp_h q) (leftGazeThreshold s))
      \<and> \<not> jgt (gp_h g) (leftGazeThreshold s)
      \<and> (\<forall>q\<in>set gs2. jgt (gp_h q) (leftGazeThreshold s)) \<longrightarrow>
        detectLeftGazes gs1 s = s\<lparr>leftGazeFrames := 9\<rparr>
      \<and> detectLeftGazes (gs1 @ [g]) s = s\<lparr>leftGazeFrames := 7\<rparr>
      \<and> (length gs2 < 3 \<longrightarrow>
            detectLeftGazes (gs1 @ [g] @ gs2) s = s\<lparr>leftGazeFrames := 7 + int (length gs2)\<rparr>)
      \<and> (length gs2 = 3 \<longrightarrow>
            detectLeftGazes (gs1 @ [g] @ gs2) s =
              s\<lparr>flashes := flashes s + 1, phaseCompleted := set_flag (phaseCompleted s) 0,
                leftGazeFrames := 0, currentPhase := 1\<rparr>))
   \<and> (currentPhase s = 1 \<and> \<not> flag_at (phaseCompleted s) 1
      \<and> rightGazeFrames s = 0 \<and> rightGazeRequired s = 10
      \<and> length gs1 = 9 \<and> (\<forall>q\<in>set gs1. jlt (gp_h q) (rightGazeThreshold s))
      \<and> \<not> jlt (gp_h g) (rightGazeThreshold s)
      \<and> (\<forall>q\<in>set gs2. jlt (gp_h q) (rightGazeThreshold s)) \<longrightarrow>
        detectRightGazes gs1 s = s\<lparr>rightGazeFrames := 9\<rparr>
      \<and> detectRightGazes (gs1 @ [g]) s = s\<lparr>rightGazeFrames := 7\<rparr>
      \<and> (length gs2 < 3 \<longrightarrow>
            detectRightGazes (gs1 @ [g] @ gs2) s = s\<lparr>rightGazeFrames := 7 + int (length gs2)\<rparr>)
      \<and> (length gs2 = 3 \<longrightarrow>
            detectRightGazes (gs1 @ [g] @ gs2) s =
              s\<lparr>flashes := flashes s + 1, phaseCompleted := set_flag (phaseCompleted s) 1,
                rightGazeFrames := 0, currentPhase := 2\<rparr>))"
proof (intro conjI)
  show "currentPhase s = 0 \<and> \<not> flag_at (phaseCompleted s) 0
      \<and> \<not> jgt (gp_h g) (leftGazeThreshold s) \<longrightarrow>
        detectLeftGaze g s =
          s\<lparr>leftGazeFrames := (if 0 < leftGazeFrames s then max 0 (leftGazeFrames s - 2)
                                else leftGazeFrames s)\<rparr>
      \<and> (0 \<le> leftGazeFrames s \<longrightarrow>
            leftGazeFrames (detectLeftGaze g s) = max 0 (leftGazeFrames s - 2))
      \<and> (2 < leftGazeFrames s \<longrightarrow>
            leftGazeFrames (detectLeftGaze g s) = leftGazeFrames s - 2
            \<and> 0 < leftGazeFrames (detectLeftGaze g s))"
    by (auto simp add: detectLeftGaze_decay)
  show "currentPhase s = 1 \<and> \<not> flag_at (phaseCompleted s) 1
      \<and> \<not> jlt (gp_h g) (rightGazeThreshold s) \<longrightarrow>
        detectRightGaze g s =
          s\<lparr>rightGazeFrames := (if 0 < rightGazeFrames s then max 0 (rightGazeFrames s - 2)
                                 else rightGazeFrames s)\<rparr>
      \<and> (0 \<le> rightGazeFrames s \<longrightarrow>
            rightGazeFrames (detectRightGaze g s) = max 0 (rightGazeFrames s - 2))
      \<and> (2 < rightGazeFrames s \<longrightarrow>
            rightGazeFrames (detectRightGaze g s) = rightGazeFrames s - 2
            \<and> 0 < rightGazeFrames (detectRightGaze g s))"
    by (auto simp add: detectRightGaze_decay)
  show "currentPhase s = 0 \<and> \<not> flag_at (phaseCompleted s) 0
      \<and> leftGazeFrames s = 0 \<and> leftGazeRequired s = 10
      \<and> length gs1 = 9 \<and> (\<forall>q\<in>set gs1. jgt (gp_h q) (leftGazeThreshold s))
      \<and> \<not> jgt (gp_h g) (leftGazeThreshold s)
      \<and> (\<forall>q\<in>set gs2. jgt (gp_h q) (leftGazeThreshold s)) \<longrightarrow>
        detectLeftGazes gs1 s = s\<lparr>leftGazeFrames := 9\<rparr>
      \<and> detectLeftGazes (gs1 @ [g]) s = s\<lparr>leftGazeFrames := 7\<rparr>
      \<and> (length gs2 < 3 \<longrightarrow>
            detectLeftGazes (gs1 @ [g] @ gs2) s = s\<lparr>leftGazeFrames := 7 + int (length gs2)\<rparr>)
      \<and> (length gs2 = 3 \<longrightarrow>
            detectLeftGazes (gs1 @ [g] @ gs2) s =
              s\<lparr>flashes := flashes s + 1, phaseCompleted := set_flag (phaseCompleted s) 0,
                leftGazeFrames := 0, currentPhase := 1\<rparr>)"
  proof (intro impI, elim conjE)
    assume act: "currentPhase s = 0" "\<not> flag_at (phaseCompleted s) 0"
      and c0: "leftGazeFrames s = 0" and req: "leftGazeRequired s = 10"
      and n1: "length gs1 = 9" and q1: "\<forall>q\<in>set gs1. jgt (gp_h q) (leftGazeThreshold s)"
      and nq: "\<not> jgt (gp_h g) (leftGazeThreshold s)"
      and q2: "\<forall>q\<in>set gs2. jgt (gp_h q) (leftGazeThreshold s)"
    let ?s9 = "s\<lparr>leftGazeFrames := 9\<rparr>"
    let ?s7 = "s\<lparr>leftGazeFrames := 7\<rparr>"
    have nine: "detectLeftGazes gs1 s = ?s9"
      using detectLeftGazes_count[of s gs1] act c0 req n1 q1 by simp
    have "detectLeftGaze g ?s9 = ?s7"
      using detectLeftGaze_decay[of ?s9 g] act nq by simp
    then have seven: "detectLeftGazes (gs1 @ [g]) s = ?s7"
      unfolding detectLeftGazes_append nine by (simp add: detectLeftGazes_def)
    have rest: "detectLeftGazes (gs1 @ [g] @ gs2) s = detectLeftGazes gs2 ?s7"
      using seven detectLeftGazes_append[of "gs1 @ [g]" gs2 s] by simp
    have less: "length gs2 < 3 \<longrightarrow>
            detectLeftGazes (gs1 @ [g] @ gs2) s = s\<lparr>leftGazeFrames := 7 + int (length gs2)\<rparr>"
    proof
      assume "length gs2 < 3"
      then show "detectLeftGazes (gs1 @ [g] @ gs2) s = s\<lparr>leftGazeFrames := 7 + int (length gs2)\<rparr>"
        unfolding rest using detectLeftGazes_count[of ?s7 gs2] act req q2 by simp
    qed
    have three: "length gs2 = 3 \<longrightarrow>
            detectLeftGazes (gs1 @ [g] @ gs2) s =
              s\<lparr>flashes := flashes s + 1, phaseCompleted := set_flag (phaseCompleted s) 0,
                leftGazeFrames := 0, currentPhase := 1\<rparr>"
    proof
      assume n: "length gs2 = 3"
      then have "gs2 \<noteq> []" by auto
      then have "detectLeftGazes gs2 ?s7 = left_completed ?s7"
        using act req q2 n by (intro detectLeftGazes_fire) auto
      then show "detectLeftGazes (gs1 @ [g] @ gs2) s =
              s\<lparr>flashes := flashes s + 1, phaseCompleted := set_flag (phaseCompleted s) 0,
                leftGazeFrames := 0, currentPhase := 1\<rparr>"
        unfolding rest by (simp add: left_completed_def)
    qed
    show "detectLeftGazes gs1 s = s\<lparr>leftGazeFrames := 9\<rparr>
      \<and> detectLeftGazes (gs1 @ [g]) s = s\<lparr>leftGazeFrames := 7\<rparr>
      \<and> (length gs2 < 3 \<longrightarrow>
            detectLeftGazes (gs1 @ [g] @ gs2) s = s\<lparr>leftGazeFrames := 7 + int (length gs2)\<rparr>)
      \<and> (length gs2 = 3 \<longrightarrow>
            detectLeftGazes (gs1 @ [g] @ gs2) s =
              s\<lparr>flashes := flashes s + 1, phaseCompleted := set_flag (phaseCompleted s) 0,
                leftGazeFrames := 0, currentPhase := 1\<rparr>)"
      by (intro conjI nine seven less three)
  qed
  show "currentPhase s = 1 \<and> \<not> flag_at (phaseCompleted s) 1
      \<and> rightGazeFrames s = 0 \<and> rightGazeRequired s = 10
      \<and> length gs1 = 9 \<and> (\<forall>q\<in>set gs1. jlt (gp_h q) (rightGazeThreshold s))
      \<and> \<not> jlt (gp_h g) (rightGazeThreshold s)
      \<and> (\<forall>q\<in>set gs2. jlt (gp_h q) (rightGazeThreshold s)) \<longrightarrow>
        detectRightGazes gs1 s = s\<lparr>rightGazeFrames := 9\<rparr>
      \<and> detectRightGazes (gs1 @ [g]) s = s\<lparr>rightGazeFrames := 7\<rparr>
      \<and> (length gs2 < 3 \<longrightarrow>
            detectRightGazes (gs1 @ [g] @ gs2) s = s\<lparr>rightGazeFrames := 7 + int (length gs2)\<rparr>)
      \<and> (length gs2 = 3 \<longrightarrow>
            detectRightGazes (gs1 @ [g] @ gs2) s =
              s\<lparr>flashes := flashes s + 1, phaseCompleted := set_flag (phaseCompleted s) 1,
                rightGazeFrames := 0, currentPhase := 2\<rparr>)"
  proof (intro impI, elim conjE)
    assume act: "currentPhase s = 1" "\<not> flag_at (phaseCompleted s) 1"
      and c0: "rightGazeFrames s = 0" and req: "rightGazeRequired s = 10"
      and n1: "length gs1 = 9" and q1: "\<forall>q\<in>set gs1. jlt (gp_h q) (rightGazeThreshold s)"
      and nq: "\<not> jlt (gp_h g) (rightGazeThreshold s)"
      and q2: "\<forall>q\<in>set gs2. jlt (gp_h q) (rightGazeThreshold s)"
    let ?s9 = "s\<lparr>rightGazeFrames := 9\<rparr>"
    let ?s7 = "s\<lparr>rightGazeFrames := 7\<rparr>"
    have nine: "detectRightGazes gs1 s = ?s9"
      using detectRightGazes_count[of s gs1] act c0 req n1 q1 by simp
    have "detectRightGaze g ?s9 = ?s7"
      using detectRightGaze_decay[of ?s9 g] act nq by simp
    then have seven: "detectRightGazes (gs1 @ [g]) s = ?s7"
      unfolding detectRightGazes_append nine by (simp add: detectRightGazes_def)
    have rest: "detectRightGazes (gs1 @ [g] @ gs2) s = detectRightGazes gs2 ?s7"
      using seven detectRightGazes_append[of "gs1 @ [g]" gs2 s] by simp
    have less: "length gs2 < 3 \<longrightarrow>
            detectRightGazes (gs1 @ [g] @ gs2) s = s\<lparr>rightGazeFrames := 7 + int (length gs2)\<rparr>"
    proof
      assume "length gs2 < 3"
      then show "detectRightGazes (gs1 @ [g] @ gs2) s = s\<lparr>rightGazeFrames := 7 + int (length gs2)\<rparr>"
        unfolding rest using detectRightGazes_count[of ?s7 gs2] act req q2 by simp
    qed
    have three: "length gs2 = 3 \<longrightarrow>
            detectRightGazes (gs1 @ [g] @ gs2) s =
              s\<lparr>flashes := flashes s + 1, phaseCompleted := set_flag (phaseCompleted s) 1,
                rightGazeFrames := 0, currentPhase := 2\<rparr>"
    proof
      assume n: "length gs2 = 3"
      then have "gs2 \<noteq> []" by auto
      then have "detectRightGazes gs2 ?s7 = right_completed ?s7"
        using act req q2 n by (intro detectRightGazes_fire) auto
      then show "detectRightGazes (gs1 @ [g] @ gs2) s =
              s\<lparr>flashes := flashes s + 1, phaseCompleted := set_flag (phaseCompleted s) 1,
                rightGazeFrames := 0, currentPhase := 2\<rparr>"
        unfolding rest by (simp add: right_completed_def)
    qed
    show "detectRightGazes gs1 s = s\<lparr>rightGazeFrames := 9\<rparr>
      \<and> detectRightGazes (gs1 @ [g]) s = s\<lparr>rightGazeFrames := 7\<rparr>
      \<and> (length gs2 < 3 \<longrightarrow>
            detectRightGazes (gs1 @ [g] @ gs2) s = s\<lparr>rightGazeFrames := 7 + int (length gs2)\<rparr>)
      \<and> (length gs2 = 3 \<longrightarrow>
            detectRightGazes (gs1 @ [g] @ gs2) s =
              s\<lparr>flashes := flashes s + 1, phaseCompleted := set_flag (phaseCompleted s) 1,
                rightGazeFrames := 0, currentPhase := 2\<rparr>)"
      by (intro conjI nine seven less three)
  qed
qed

theorem gaze_counter_decays_by_two_witness:
  "currentPhase (new_tracker (Fin 1920) (Fin 1080)) = 0
   \<and> \<not> flag_at (phaseCompleted (new_tracker (Fin 1920) (Fin 1080))) 0
   \<and> leftGazeFrames (new_tracker (Fin 1920) (Fin 1080)) = 0
   \<and> leftGazeRequired (new_tracker (Fin 1920) (Fin 1080)) = 10
   \<and> jgt (gp_h looking_left) (leftGazeThreshold (new_tracker (Fin 1920) (Fin 1080)))
   \<and> \<not> jgt (gp_h looking_ahead) (leftGazeThreshold (new_tracker (Fin 1920) (Fin 1080)))
   \<and> leftGazeFrames (detectLeftGazes (replicate 9 looking_left @ [looking_ahead])
        (new_tracker (Fin 1920) (Fin 1080))) = 7
   \<and> leftGazeFrames (detectLeftGazes
        (replicate 9 looking_left @ [looking_ahead] @ replicate 2 looking_left)
        (new_tracker (Fin 1920) (Fin 1080))) = 9
   \<and> currentPhase (detectLeftGazes
        (replicate 9 looking_left @ [looking_ahead] @ replicate 2 looking_left)
        (new_tracker (Fin 1920) (Fin 1080))) = 0
   \<and> currentPhase (detectLeftGazes
        (replicate 9 looking_left @ [looking_ahead] @ replicate 3 looking_left)
        (new_tracker (Fin 1920) (Fin 1080))) = 1
   \<and> flashes (detectLeftGazes
        (replicate 9 looking_left @ [looking_ahead] @ replicate 3 looking_left)
        (new_tracker (Fin 1920) (Fin 1080))) = 1
   \<and> currentPhase (left_completed (new_tracker (Fin 1920) (Fin 1080))) = 1
   \<and> \<not> flag_at (phaseCompleted (left_completed (new_tracker (Fin 1920) (Fin 1080)))) 1
   \<and> rightGazeFrames (left_completed (new_tracker (Fin 1920) (Fin 1080))) = 0
   \<and> rightGazeRequired (left_completed (new_tracker (Fin 1920) (Fin 1080))) = 10
   \<and> jlt (gp_h looking_right)
        (rightGazeThreshold (left_completed (new_tracker (Fin 1920) (Fin 1080))))
   \<and> \<not> jlt (gp_h looking_ahead)
        (rightGazeThreshold (left_completed (new_tracker (Fin 1920) (Fin 1080))))
   \<and> rightGazeFrames (detectRightGazes (replicate 9 looking_right @ [looking_ahead])
        (left_completed (new_tracker (Fin 1920) (Fin 1080)))) = 7
   \<and> rightGazeFrames (detectRightGazes
        (replicate 9 looking_right @ [looking_ahead] @ replicate 2 looking_right)
        (left_completed (new_tracker (Fin 1920) (Fin 1080)))) = 9
   \<and> currentPhase (detectRightGazes
        (replicate 9 looking_right @ [looking_ahead] @ replicate 2 looking_right)
        (left_completed (new_tracker (Fin 1920) (Fin 1080)))) = 1
   \<and> currentPhase (detectRightGazes
        (replicate 9 looking_right @ [looking_ahead] @ replicate 3 looking_right)
        (left_completed (new_tracker (Fin 1920) (Fin 1080)))) = 2
   \<and> flashes (detectRightGazes
        (replicate 9 looking_right @ [looking_ahead] @ replicate 3 looking_right)
        (left_completed (new_tracker (Fin 1920) (Fin 1080)))) = 2
   \<and> flag_at (phaseCompleted (detectRightGazes
        (replicate 9 looking_right @ [looking_ahead] @ replicate 3 looking_right)
        (left_completed (new_tracker (Fin 1920) (Fin 1080))))) 1"
  using gaze_counter_decays_by_two
          [of "new_tracker (Fin 1920) (Fin 1080)" looking_ahead "replicate 9 looking_left"
              "replicate 2 looking_left"]
        gaze_counter_decays_by_two
          [of "new_tracker (Fin 1920) (Fin 1080)" looking_ahead "replicate 9 looking_left"
              "replicate 3 looking_left"]
        gaze_counter_decays_by_two
          [of "left_completed (new_tracker (Fin 1920) (Fin 1080))" looking_ahead
              "replicate 9 looking_right" "replicate 2 looking_right"]
        gaze_counter_decays_by_two
          [of "left_completed (new_tracker (Fin 1920) (Fin 1080))" looking_ahead
              "replicate 9 looking_right" "replicate 3 looking_right"]
  by (simp add: new_tracker_def left_completed_def flag_at_def set_flag_def jgt_def
        looking_left_def looking_right_def looking_ahead_def)

text \<open>
  C6. A detector called while its phase is not the current one, or with the flag of its
  phase set, returns the tracker as it got it: counters, flags, blink state, current phase
  and the number of flashes are the same. A flag that is set stays set through both
  detectors and through every session: frames and timers in any number and order.
\<close>

theorem completed_phase_is_inert:
  "(currentPhase s \<noteq> 0 \<or> flag_at (phaseCompleted s) 0 \<longrightarrow> detectLeftGaze g s = s)
   \<and> (currentPhase s \<noteq> 1 \<or> flag_at (phaseCompleted s) 1 \<longrightarrow> detectRightGaze g s = s)
   \<and> (flag_at (phaseCompleted s) i \<longrightarrow>
        flag_at (phaseCompleted (detectLeftGaze g s)) i
        \<and> flag_at (phaseCompleted (detectRightGaze g s)) i
        \<and> flag_at (phaseCompleted (session s evs)) i)"
  using detectLeftGaze_inert[of s g] detectRightGaze_inert[of s g]
    detectLeftGaze_flag_mono[of s i g] detectRightGaze_flag_mono[of s i g]
    session_flag_mono[of s i evs]
  by blast

theorem completed_phase_is_inert_witness:
  "flag_at (phaseCompleted (left_completed (new_tracker (Fin 1920) (Fin 1080)))) 0
   \<and> currentPhase (left_completed (new_tracker (Fin 1920) (Fin 1080))) \<noteq> 0
   \<and> detectLeftGaze looking_left (left_completed (new_tracker (Fin 1920) (Fin 1080)))
      = left_completed (new_tracker (Fin 1920) (Fin 1080))
   \<and> flag_at (phaseCompleted (session (left_completed (new_tracker (Fin 1920) (Fin 1080)))
        [Frame [] (Fin 640) (Fin 480) 0, TrailTimer, FinalTimer])) 0"
proof -
  let ?s = "left_completed (new_tracker (Fin 1920) (Fin 1080))"
  have f: "flag_at (phaseCompleted ?s) 0"
    by (simp add: left_completed_def flag_at_set_flag)
  have p: "currentPhase ?s \<noteq> 0"
    by (simp add: left_completed_def)
  show ?thesis
    using f p completed_phase_is_inert
            [of ?s looking_left 0 "[Frame [] (Fin 640) (Fin 480) 0, TrailTimer, FinalTimer]"]
    by blast
qed

text \<open>
  C9. Both detectors keep the two counters at least 0 and below 10. The counters of a new
  tracker are, so they are in every state that a session reaches, and after a call of a
  detector in such a state.
\<close>

theorem gaze_counters_stay_in_range:
  "(counters_in_range s \<longrightarrow>
       counters_in_range (detectLeftGaze g s) \<and> counters_in_range (detectRightGaze g s))
   \<and> counters_in_range (session (new_tracker w h) evs)
   \<and> 0 \<le> leftGazeFrames (detectLeftGaze g (session (new_tracker w h) evs))
   \<and> leftGazeFrames (detectLeftGaze g (session (new_tracker w h) evs)) < 10
   \<and> 0 \<le> rightGazeFrames (detectRightGaze g (session (new_tracker w h) evs))
   \<and> rightGazeFrames (detectRightGaze g (session (new_tracker w h) evs)) < 10"
proof -
  have r: "counters_in_range (session (new_tracker w h) evs)"
    by (intro session_in_range new_tracker_in_range)
  have l: "counters_in_range (detectLeftGaze g (session (new_tracker w h) evs))"
    using r by (rule detectLeftGaze_in_range)
  have rr: "counters_in_range (detectRightGaze g (session (new_tracker w h) evs))"
    using r by (rule detectRightGaze_in_range)
  have p: "counters_in_range s \<longrightarrow>
       counters_in_range (detectLeftGaze g s) \<and> counters_in_range (detectRightGaze g s)"
    using detectLeftGaze_in_range[of s g] detectRightGaze_in_range[of s g] by blast
  have l': "0 \<le> leftGazeFrames (detectLeftGaze g (session (new_tracker w h) evs))
      \<and> leftGazeFrames (detectLeftGaze g (session (new_tracker w h) evs)) < 10"
    using l unfolding counters_in_range_def by linarith
  have rr': "0 \<le> rightGazeFrames (detectRightGaze g (session (new_tracker w h) evs))
      \<and> rightGazeFrames (detectRightGaze g (session (new_tracker w h) evs)) < 10"
    using rr unfolding counters_in_range_def by linarith
  show ?thesis using p r l' rr' by blast
qed

theorem gaze_counters_stay_in_range_witness:
  "counters_in_range (new_tracker (Fin 1920) (Fin 1080)\<lparr>leftGazeFrames := 9\<rparr>)
   \<and> counters_in_range (detectLeftGaze looking_left
        (new_tracker (Fin 1920) (Fin 1080)\<lparr>leftGazeFrames := 9\<rparr>))
   \<and> leftGazeFrames (detectLeftGaze looking_left
        (new_tracker (Fin 1920) (Fin 1080)\<lparr>leftGazeFrames := 9\<rparr>)) = 0
   \<and> leftGazeFrames (detectLeftGaze looking_ahead
        (new_tracker (Fin 1920) (Fin 1080)\<lparr>leftGazeFrames := 1\<rparr>)) = 0"
proof -
  have a: "counters_in_range (new_tracker (Fin 1920) (Fin 1080)\<lparr>leftGazeFrames := 9\<rparr>)"
    by (simp add: counters_in_range_def new_tracker_def)
  have b: "leftGazeFrames (detectLeftGaze looking_left
        (new_tracker (Fin 1920) (Fin 1080)\<lparr>leftGazeFrames := 9\<rparr>)) = 0"
    by (simp add: detectLeftGaze_def new_tracker_def flag_at_def jgt_def looking_left_def
          triggerFlash_def advanceToPhase_def)
  have c: "leftGazeFrames (detectLeftGaze looking_ahead
        (new_tracker (Fin 1920) (Fin 1080)\<lparr>leftGazeFrames := 1\<rparr>)) = 0"
    by (simp add: detectLeftGaze_def new_tracker_def flag_at_def jgt_def looking_ahead_def)
  show ?thesis
    using a b c gaze_counters_stay_in_range
            [of "new_tracker (Fin 1920) (Fin 1080)\<lparr>leftGazeFrames := 9\<rparr>" looking_left]
    by blast
qed

section \<open>The histories\<close>






















section \<open>Geometry\<close>

lemma pt_fin_point [simp]:
  "pt_x (fin_point p) = Fin (fst p)" "pt_y (fin_point p) = Fin (snd p)"
  by (simp_all add: fin_point_def)

lemma to_pixels_fin: "to_pixels (Fin w) (Fin h) (fin_point p) = fin_point (scaled w h p)"
  by (simp add: to_pixels_def fin_point_def scaled_def)

lemma distance_fin: "distance (fin_point p) (fin_point q) = Fin (euclid p q)"
  by (simp add: distance_def fin_point_def euclid_def jsub_def power2_eq_square not_less)

lemma euclid_nonneg: "0 \<le> euclid p q"
  by (simp add: euclid_def)

lemma euclid_eq_0: "euclid p q = 0 \<longleftrightarrow> p = q"
  by (cases p; cases q) (auto simp add: euclid_def sum_power2_eq_zero_iff)

lemma jmin2_fin: "jmin2 (Fin a) (Fin b) = Fin (min a b)"
  by (auto simp add: jmin2_def)

lemma jmax2_fin: "jmax2 (Fin a) (Fin b) = Fin (max a b)"
  by (auto simp add: jmax2_def)

lemma foldl_jmin2_fin: "foldl jmin2 (Fin a) (map Fin xs) = Fin (fold min xs a)"
  by (induction xs arbitrary: a) (simp_all add: jmin2_fin min.commute)

lemma foldl_jmax2_fin: "foldl jmax2 (Fin a) (map Fin xs) = Fin (fold max xs a)"
  by (induction xs arbitrary: a) (simp_all add: jmax2_fin max.commute)

lemma Math_min_fin:
  assumes "xs \<noteq> []"
  shows "Math_min (map Fin xs) = Fin (Min (set xs))"
proof (cases xs)
  case Nil
  with assms show ?thesis by simp
next
  case (Cons a list)
  have "Math_min (map Fin xs) = Fin (fold min list a)"
    unfolding Cons by (simp add: Math_min_def jmin2_def foldl_jmin2_fin)
  then show ?thesis unfolding Cons using Min.set_eq_fold[of a list] by simp
qed

lemma Math_max_fin:
  assumes "xs \<noteq> []"
  shows "Math_max (map Fin xs) = Fin (Max (set xs))"
proof (cases xs)
  case Nil
  with assms show ?thesis by simp
next
  case (Cons a list)
  have "Math_max (map Fin xs) = Fin (fold max list a)"
    unfolding Cons by (simp add: Math_max_def jmax2_def foldl_jmax2_fin)
  then show ?thesis unfolding Cons using Max.set_eq_fold[of a list] by simp
qed

lemma sum_list_scaled:
  "sum_list (map (fst \<circ> scaled w h) ps) = sum_list (map fst ps) * w"
  "sum_list (map (snd \<circ> scaled w h) ps) = sum_list (map snd ps) * h"
  by (induction ps) (simp_all add: scaled_def algebra_simps)

lemma centroid_scaled: "centroid (map (scaled w h) ps) = scaled w h (centroid ps)"
  by (simp add: centroid_def sum_list_scaled scaled_def)

lemma euclid_same_x: "fst p = fst q \<Longrightarrow> euclid p q = \<bar>snd q - snd p\<bar>"
  by (simp add: euclid_def)

lemma euclid_same_y: "snd p = snd q \<Longrightarrow> euclid p q = \<bar>fst q - fst p\<bar>"
  by (simp add: euclid_def)

lemma calculateEAR_fin:
  "calculateEAR (map fin_point [p0, p1, p2, p3, p4, p5]) (Fin w) (Fin h) =
     Inr (jdiv (Fin (euclid (scaled w h p1) (scaled w h p5)
                     + euclid (scaled w h p2) (scaled w h p4)))
               (Fin (2 * euclid (scaled w h p0) (scaled w h p3))))"
  by (simp add: calculateEAR_def Let_def to_pixels_fin distance_fin)



text \<open>
  C8. When the scaled points 0 and 3 coincide, \<^verbatim>\<open>calculateEAR\<close> divides by zero and
  returns the result of the division as it is: \<^verbatim>\<open>+Infinity\<close> when \<open>v1 + v2\<close> is positive,
  NaN when it is 0, never a finite number and never an exception.
\<close>

theorem calculateEAR_divides_by_zero:
  assumes "scaled w h p0 = scaled w h p3"
  shows "(0 < euclid (scaled w h p1) (scaled w h p5) + euclid (scaled w h p2) (scaled w h p4)
            \<longrightarrow> calculateEAR (map fin_point [p0, p1, p2, p3, p4, p5]) (Fin w) (Fin h)
                  = Inr PInf)
       \<and> (euclid (scaled w h p1) (scaled w h p5) + euclid (scaled w h p2) (scaled w h p4) = 0
            \<longrightarrow> calculateEAR (map fin_point [p0, p1, p2, p3, p4, p5]) (Fin w) (Fin h)
                  = Inr NaN)
       \<and> (calculateEAR (map fin_point [p0, p1, p2, p3, p4, p5]) (Fin w) (Fin h) = Inr PInf
          \<or> calculateEAR (map fin_point [p0, p1, p2, p3, p4, p5]) (Fin w) (Fin h) = Inr NaN)"
proof -
  have h0: "euclid (scaled w h p0) (scaled w h p3) = 0"
    using assms by (simp add: euclid_eq_0)
  have nn: "0 \<le> euclid (scaled w h p1) (scaled w h p5)
               + euclid (scaled w h p2) (scaled w h p4)"
    by (simp add: euclid_nonneg)
  show ?thesis
    using nn unfolding calculateEAR_fin h0 by (auto simp add: inf_of_sign_def)
qed

theorem calculateEAR_divides_by_zero_witness:
  "scaled 10 10 (0.5, 0.5) = scaled 10 10 (0.5, 0.5)
   \<and> calculateEAR (map fin_point [(0.5, 0.5), (0.3, 0.3), (0.7, 0.3), (0.5, 0.5), (0.7, 0.7),
        (0.3, 0.7)]) (Fin 10) (Fin 10) = Inr PInf
   \<and> calculateEAR (map fin_point [(0.5, 0.5), (0.5, 0.5), (0.5, 0.5), (0.5, 0.5), (0.5, 0.5),
        (0.5, 0.5)]) (Fin 10) (Fin 10) = Inr NaN"
  using calculateEAR_divides_by_zero
          [of 10 10 "(0.5, 0.5)" "(0.5, 0.5)" "(0.3, 0.3)" "(0.3, 0.7)" "(0.7, 0.3)" "(0.7, 0.7)"]
        calculateEAR_divides_by_zero
          [of 10 10 "(0.5, 0.5)" "(0.5, 0.5)" "(0.5, 0.5)" "(0.5, 0.5)" "(0.5, 0.5)" "(0.5, 0.5)"]
  by (simp add: scaled_def euclid_same_x euclid_same_y)

section \<open>The gaze ratio in double precision\<close>

subsection \<open>One rounding\<close>

lemma round_even_near: "\<bar>of_int (round_even y) - y\<bar> \<le> 1 / 2"
  unfolding round_even_def Let_def by (auto; linarith)

lemma ulp_of_pos: "0 < ulp_of x"
  by (simp add: ulp_of_def)

lemma smallest_normal_pos: "0 < smallest_normal"
  by (simp add: smallest_normal_def)

lemma smallest_normal_powr: "2 powr (- 1022) = smallest_normal"
proof -
  have "(2::real) powr (- 1022) = 1 / 2 powr (real (1022::nat))"
    by (simp add: powr_minus field_simps)
  also have "\<dots> = 1 / 2 ^ (1022::nat)" by (simp only: powr_realpow zero_less_numeral)
  finally show ?thesis by (simp add: smallest_normal_def)
qed

lemma ulp_of_le:
  assumes "x \<noteq> 0"
  shows "ulp_of x \<le> (\<bar>x\<bar> + smallest_normal) / 2 ^ 52"
proof -
  let ?e = "\<lfloor>log 2 \<bar>x\<bar>\<rfloor>"
  have "of_int ?e \<le> log 2 \<bar>x\<bar>" by simp
  then have "2 powr of_int ?e \<le> 2 powr log 2 \<bar>x\<bar>"
    by (intro powr_mono) simp_all
  also have "\<dots> = \<bar>x\<bar>" using assms by simp
  finally have a: "2 powr of_int ?e \<le> \<bar>x\<bar>" .
  have b: "2 powr of_int (max ?e (- 1022)) \<le> \<bar>x\<bar> + smallest_normal"
  proof (cases "- 1022 \<le> ?e")
    case True
    then have "max ?e (- 1022) = ?e" by simp
    then show ?thesis using a smallest_normal_pos by simp
  next
    case False
    then have "max ?e (- 1022) = - 1022" by simp
    then have "2 powr of_int (max ?e (- 1022)) = smallest_normal"
      using smallest_normal_powr by simp
    then show ?thesis by simp
  qed
  have "ulp_of x = 2 powr of_int (max ?e (- 1022)) / 2 ^ 52"
    unfolding ulp_of_def by (simp add: powr_diff powr_realpow[symmetric])
  then show ?thesis using b by (simp add: divide_right_mono)
qed

lemma round_double_0 [simp]: "round_double 0 = 0"
  by (simp add: round_double_def)

lemma round_double_near: "\<bar>round_double x - x\<bar> \<le> ulp_of x / 2"
proof (cases "x = 0")
  case True
  then show ?thesis using ulp_of_pos[of 0] by simp
next
  case False
  let ?u = "ulp_of x"
  have pos: "0 < ?u" by (rule ulp_of_pos)
  have "round_double x - x = (of_int (round_even (x / ?u)) - x / ?u) * ?u"
    using False pos by (simp add: round_double_def algebra_simps)
  then have "\<bar>round_double x - x\<bar> = \<bar>of_int (round_even (x / ?u)) - x / ?u\<bar> * ?u"
    using pos by (simp add: abs_mult)
  also have "\<dots> \<le> (1 / 2) * ?u"
    using round_even_near[of "x / ?u"] pos by (intro mult_right_mono) simp_all
  finally show ?thesis by simp
qed

lemma round_double_error: "\<bar>round_double x - x\<bar> \<le> (\<bar>x\<bar> + smallest_normal) / 2 ^ 53"
proof (cases "x = 0")
  case True
  then show ?thesis using smallest_normal_pos by simp
next
  case False
  have "\<bar>round_double x - x\<bar> \<le> ulp_of x / 2" by (rule round_double_near)
  also have "\<dots> \<le> ((\<bar>x\<bar> + smallest_normal) / 2 ^ 52) / 2"
    using ulp_of_le[OF False] by simp
  also have "\<dots> = (\<bar>x\<bar> + smallest_normal) / 2 ^ 53" by simp
  finally show ?thesis .
qed

lemma ulp_of_eq:
  assumes "2 ^ 52 \<le> \<bar>x\<bar> * 2 ^ k" and "\<bar>x\<bar> * 2 ^ k < 2 ^ 53" and "k \<le> 1074"
  shows "ulp_of x = 1 / 2 ^ k"
proof -
  have x: "0 < \<bar>x\<bar>" using assms(1) by (smt (verit) mult_eq_0_iff zero_less_power)
  have "2 powr (52 - real k) \<le> \<bar>x\<bar>"
    using assms(1) by (simp add: powr_diff powr_realpow field_simps)
  then have l: "52 - real k \<le> log 2 \<bar>x\<bar>" using x by (simp add: le_log_iff)
  have "\<bar>x\<bar> < 2 powr (53 - real k)"
    using assms(2) by (simp add: powr_diff powr_realpow field_simps)
  then have u: "log 2 \<bar>x\<bar> < 53 - real k" using x by (simp add: log_less_iff)
  have "\<lfloor>log 2 \<bar>x\<bar>\<rfloor> = 52 - int k"
    using l u by (intro floor_unique) simp_all
  then have "max \<lfloor>log 2 \<bar>x\<bar>\<rfloor> (- 1022) - 52 = - int k" using assms(3) by simp
  then have "real_of_int (max \<lfloor>log 2 \<bar>x\<bar>\<rfloor> (- 1022) - 52) = - real k" by simp
  then have "ulp_of x = 2 powr (- real k)" unfolding ulp_of_def by (simp only:)
  then show ?thesis by (simp add: powr_minus powr_realpow field_simps)
qed

lemma round_double_eval:
  assumes "2 ^ 52 \<le> \<bar>x\<bar> * 2 ^ k" and "\<bar>x\<bar> * 2 ^ k < 2 ^ 53" and "k \<le> 1074"
    and "round_even (x * 2 ^ k) = m" and "c = of_int m / 2 ^ k"
  shows "round_double x = c"
proof -
  have "x \<noteq> 0" using assms(1) by auto
  then show ?thesis
    using assms(4,5) by (simp add: round_double_def ulp_of_eq[OF assms(1,2,3)])
qed

lemma to_double_eval:
  assumes "2 ^ 52 \<le> \<bar>x\<bar> * 2 ^ k" and "\<bar>x\<bar> * 2 ^ k < 2 ^ 53" and "k \<le> 1074"
    and "round_even (x * 2 ^ k) = m" and "c = of_int m / 2 ^ k"
  shows "to_double x = Fin c"
proof -
  have r: "round_double x = c" by (rule round_double_eval[OF assms])
  have "\<bar>of_int m - x * 2 ^ k\<bar> \<le> (1 / 2 :: real)"
    using round_even_near[of "x * 2 ^ k"] assms(4) by simp
  moreover have "\<bar>x * 2 ^ k\<bar> < 2 ^ 53" using assms(2) by (simp add: abs_mult)
  ultimately have "\<bar>real_of_int m\<bar> < 2 ^ 53 + 1" by linarith
  then have "\<bar>m\<bar> < 2 ^ 53 + 1" by (simp only: of_int_abs[symmetric]
        of_int_less_iff[symmetric, where 'a = real] of_int_add of_int_power of_int_numeral of_int_1)
  then have m: "\<bar>real_of_int m\<bar> \<le> 2 ^ 53" by simp
  have "\<bar>c\<bar> = \<bar>real_of_int m\<bar> / 2 ^ k" using assms(5) by (simp add: abs_divide)
  also have "\<dots> \<le> \<bar>real_of_int m\<bar> / 1"
    by (intro divide_left_mono) simp_all
  also have "\<dots> \<le> 2 ^ 53" using m by simp
  also have "\<dots> < (2 ^ 1024 :: real)" by (intro power_strict_increasing) simp_all
  finally show ?thesis using r by (simp add: to_double_def)
qed

lemma to_double_0 [simp]: "to_double 0 = Fin 0"
  by (simp add: to_double_def)

lemma to_double_Fin_D: "to_double x = Fin c \<Longrightarrow> c = round_double x"
  by (simp add: to_double_def Let_def inf_of_sign_def split: if_splits)

lemma to_double_not_NaN: "to_double x \<noteq> NaN"
  by (auto simp add: to_double_def Let_def inf_of_sign_def split: if_splits)

lemma to_double_small:
  assumes "\<bar>x\<bar> < 2 ^ 1023"
  shows "to_double x = Fin (round_double x)"
proof -
  let ?M = "2 ^ 1023 :: real"
  have M1: "1 \<le> ?M" by (rule one_le_power) simp
  have mu: "smallest_normal \<le> 1"
    unfolding smallest_normal_def by (simp add: divide_le_eq)
  have "(\<bar>x\<bar> + smallest_normal) / 2 ^ 53 \<le> (?M + ?M) / 2 ^ 53"
  proof (intro divide_right_mono)
    show "\<bar>x\<bar> + smallest_normal \<le> ?M + ?M" using assms mu M1 by linarith
  qed simp
  also have "\<dots> = ?M * (2 / 2 ^ 53)" by simp
  also have "\<dots> \<le> ?M * 1" by (intro mult_left_mono) simp_all
  finally have "(\<bar>x\<bar> + smallest_normal) / 2 ^ 53 \<le> ?M" by simp
  then have "\<bar>round_double x - x\<bar> \<le> ?M" using round_double_error[of x] by linarith
  then have "\<bar>round_double x\<bar> < ?M + ?M" using assms by linarith
  moreover have "?M + ?M = 2 ^ 1024" by simp
  ultimately have "\<bar>round_double x\<bar> < 2 ^ 1024" by (simp only:)
  then show ?thesis by (simp add: to_double_def)
qed

subsection \<open>A sum of roundings, its mean and the scaled mean\<close>

lemma round_double_step:
  assumes e: "\<bar>y' - y\<bar> \<le> (c - 1) * B" and y: "\<bar>y\<bar> + smallest_normal \<le> B" and c: "1 \<le> c"
  shows "\<bar>round_double y' - y\<bar> \<le> (c * rounding_factor - 1) * B"
proof -
  have "\<bar>y'\<bar> + smallest_normal \<le> (\<bar>y\<bar> + smallest_normal) + \<bar>y' - y\<bar>" by simp
  also have "\<dots> \<le> B + (c - 1) * B" using e y by simp
  also have "\<dots> = c * B" by (simp add: algebra_simps)
  finally have y': "\<bar>y'\<bar> + smallest_normal \<le> c * B" .
  have "\<bar>round_double y' - y\<bar> \<le> \<bar>round_double y' - y'\<bar> + \<bar>y' - y\<bar>" by simp
  also have "\<dots> \<le> (\<bar>y'\<bar> + smallest_normal) / 2 ^ 53 + (c - 1) * B"
    using round_double_error[of y'] e by linarith
  also have "\<dots> \<le> c * B / 2 ^ 53 + (c - 1) * B"
    using y' by (simp add: divide_right_mono)
  also have "\<dots> = (c * rounding_factor - 1) * B"
    by (simp add: rounding_factor_def algebra_simps)
  finally show ?thesis .
qed

lemma rounded_sum_error_gen:
  assumes "\<bar>s' - s\<bar> \<le> (c - 1) * A" and "\<bar>s\<bar> + smallest_normal \<le> A" and "1 \<le> c"
  shows "\<bar>foldl (\<lambda>a x. round_double (a + x)) s' xs - (s + sum_list xs)\<bar>
           \<le> (c * rounding_factor ^ length xs - 1) * (A + sum_list (map abs xs))"
  using assms
proof (induction xs arbitrary: s' s c A)
  case Nil
  then show ?case by simp
next
  case (Cons x xs)
  have c1: "0 \<le> c - 1" using Cons.prems(3) by simp
  have "\<bar>(s' + x) - (s + x)\<bar> \<le> (c - 1) * A" using Cons.prems(1) by simp
  also have "\<dots> \<le> (c - 1) * (A + \<bar>x\<bar>)" using c1 by (intro mult_left_mono) simp_all
  finally have e: "\<bar>(s' + x) - (s + x)\<bar> \<le> (c - 1) * (A + \<bar>x\<bar>)" .
  have y: "\<bar>s + x\<bar> + smallest_normal \<le> A + \<bar>x\<bar>" using Cons.prems(2) by linarith
  have step: "\<bar>round_double (s' + x) - (s + x)\<bar> \<le> (c * rounding_factor - 1) * (A + \<bar>x\<bar>)"
    by (rule round_double_step[OF e y Cons.prems(3)])
  have c': "1 \<le> c * rounding_factor"
  proof -
    have "1 * 1 \<le> c * rounding_factor"
      using Cons.prems(3) by (intro mult_mono) (simp_all add: rounding_factor_def)
    then show ?thesis by simp
  qed
  show ?case
    using Cons.IH[OF step y c'] by (simp add: algebra_simps)
qed

lemma rounded_sum_error:
  "\<bar>rounded_sum xs - sum_list xs\<bar>
     \<le> (rounding_factor ^ length xs - 1) * (smallest_normal + sum_list (map abs xs))"
  using rounded_sum_error_gen[of 0 0 1 smallest_normal xs] by (simp add: rounded_sum_def)

lemma one_le_rounding_factor: "1 \<le> rounding_factor ^ n"
  by (rule one_le_power) (simp add: rounding_factor_def)

lemma center_rounded_error_1:
  assumes n: "xs \<noteq> []"
  shows "\<bar>round_double (round_double (rounded_sum xs / real (length xs)) * w)
            - sum_list xs / real (length xs) * w\<bar>
         \<le> (rounding_factor ^ (length xs + 2) - 1)
             * ((sum_list (map abs xs) / real (length xs) + smallest_normal) * \<bar>w\<bar>
                + smallest_normal)"
proof -
  let ?n = "real (length xs)"
  let ?A = "sum_list (map abs xs)"
  let ?c = "rounding_factor ^ length xs"
  let ?m = "smallest_normal"
  have npos: "0 < ?n" using n by simp
  have n1: "1 \<le> ?n" using n by (cases xs) simp_all
  have mpos: "0 < ?m" by (rule smallest_normal_pos)
  have A0: "0 \<le> ?A" by (induction xs) simp_all
  have c0: "0 \<le> ?c - 1" using one_le_rounding_factor[of "length xs"] by simp
  have e0: "\<bar>rounded_sum xs - sum_list xs\<bar> \<le> (?c - 1) * (?m + ?A)"
    by (rule rounded_sum_error)
  have s0: "\<bar>sum_list xs\<bar> \<le> ?A" by (rule sum_list_abs)
  have e1: "\<bar>rounded_sum xs / ?n - sum_list xs / ?n\<bar> \<le> (?c - 1) * (?A / ?n + ?m)"
  proof -
    have "\<bar>rounded_sum xs / ?n - sum_list xs / ?n\<bar> = \<bar>rounded_sum xs - sum_list xs\<bar> / ?n"
      using npos by (simp add: diff_divide_distrib[symmetric])
    also have "\<dots> \<le> (?c - 1) * (?m + ?A) / ?n" using e0 npos by (simp add: divide_right_mono)
    also have "\<dots> = (?c - 1) * (?m / ?n + ?A / ?n)"
      by (simp only: times_divide_eq_right[symmetric] add_divide_distrib)
    also have "\<dots> \<le> (?c - 1) * (?A / ?n + ?m)"
    proof (intro mult_left_mono c0)
      have "?m * 1 \<le> ?m * ?n" by (intro mult_left_mono n1 less_imp_le[OF mpos])
      then have "?m / ?n \<le> ?m" unfolding pos_divide_le_eq[OF npos] by (simp only: mult_1_right)
      then show "?m / ?n + ?A / ?n \<le> ?A / ?n + ?m" by linarith
    qed
    finally show ?thesis .
  qed
  have y1: "\<bar>sum_list xs / ?n\<bar> + ?m \<le> ?A / ?n + ?m"
    using s0 npos by (simp add: divide_right_mono)
  have r1: "\<bar>round_double (rounded_sum xs / ?n) - sum_list xs / ?n\<bar>
              \<le> (?c * rounding_factor - 1) * (?A / ?n + ?m)"
    by (rule round_double_step[OF e1 y1 one_le_rounding_factor])
  have c1: "1 \<le> ?c * rounding_factor"
    using one_le_rounding_factor[of "Suc (length xs)"] by (simp add: mult.commute)
  have B0: "0 \<le> (?A / ?n + ?m) * \<bar>w\<bar>"
    using A0 npos mpos by (intro mult_nonneg_nonneg add_nonneg_nonneg) simp_all
  have e2: "\<bar>round_double (rounded_sum xs / ?n) * w - sum_list xs / ?n * w\<bar>
              \<le> (?c * rounding_factor - 1) * ((?A / ?n + ?m) * \<bar>w\<bar> + ?m)"
  proof -
    have "\<bar>round_double (rounded_sum xs / ?n) * w - sum_list xs / ?n * w\<bar>
            = \<bar>round_double (rounded_sum xs / ?n) - sum_list xs / ?n\<bar> * \<bar>w\<bar>"
      unfolding left_diff_distrib[symmetric] abs_mult ..
    also have "\<dots> \<le> ((?c * rounding_factor - 1) * (?A / ?n + ?m)) * \<bar>w\<bar>"
      using r1 by (intro mult_right_mono) simp_all
    also have "\<dots> = (?c * rounding_factor - 1) * ((?A / ?n + ?m) * \<bar>w\<bar>)"
      by (simp only: mult.assoc)
    also have "\<dots> \<le> (?c * rounding_factor - 1) * ((?A / ?n + ?m) * \<bar>w\<bar> + ?m)"
      using c1 mpos by (intro mult_left_mono) simp_all
    finally show ?thesis .
  qed
  have y2: "\<bar>sum_list xs / ?n * w\<bar> + ?m \<le> (?A / ?n + ?m) * \<bar>w\<bar> + ?m"
  proof -
    have "\<bar>sum_list xs / ?n * w\<bar> = \<bar>sum_list xs / ?n\<bar> * \<bar>w\<bar>" by (rule abs_mult)
    also have "\<dots> \<le> (?A / ?n + ?m) * \<bar>w\<bar>"
    proof (intro mult_right_mono)
      show "\<bar>sum_list xs / ?n\<bar> \<le> ?A / ?n + ?m" using y1 mpos by linarith
    qed simp
    finally show ?thesis by simp
  qed
  have "\<bar>round_double (round_double (rounded_sum xs / ?n) * w) - sum_list xs / ?n * w\<bar>
          \<le> (?c * rounding_factor * rounding_factor - 1) * ((?A / ?n + ?m) * \<bar>w\<bar> + ?m)"
    by (rule round_double_step[OF e2 y2 c1])
  moreover have "rounding_factor ^ (length xs + 2) = ?c * rounding_factor * rounding_factor"
    by (simp add: power_add power2_eq_square mult.assoc)
  ultimately show ?thesis by (simp only:)
qed

lemma centroid_scaled_components:
  "fst (centroid (map (scaled w h) ps)) = sum_list (map fst ps) / real (length ps) * w"
  "snd (centroid (map (scaled w h) ps)) = sum_list (map snd ps) / real (length ps) * h"
  by (simp_all add: centroid_def sum_list_scaled)

lemma center_rounded_error:
  assumes "ps \<noteq> []"
  shows "\<bar>fst (center_rounded w h ps) - fst (centroid (map (scaled w h) ps))\<bar>
           \<le> (rounding_factor ^ (length ps + 2) - 1)
               * ((sum_list (map (\<lambda>p. \<bar>fst p\<bar>) ps) / real (length ps) + smallest_normal) * \<bar>w\<bar>
                  + smallest_normal)"
    and "\<bar>snd (center_rounded w h ps) - snd (centroid (map (scaled w h) ps))\<bar>
           \<le> (rounding_factor ^ (length ps + 2) - 1)
               * ((sum_list (map (\<lambda>p. \<bar>snd p\<bar>) ps) / real (length ps) + smallest_normal) * \<bar>h\<bar>
                  + smallest_normal)"
  using center_rounded_error_1[of "map fst ps" w] center_rounded_error_1[of "map snd ps" h]
    assms
  by (simp_all add: center_rounded_def centroid_scaled_components comp_def)

subsection \<open>Finite results come from finite operands\<close>

lemma dadd_Fin_D:
  assumes "dadd a (Fin x) = Fin c"
  shows "\<exists>r. a = Fin r \<and> c = round_double (r + x)"
  using assms by (cases a) (simp_all add: dadd_def to_double_Fin_D)

lemma ddiv_Fin_D:
  assumes "ddiv a (Fin b) = Fin c" and "b \<noteq> 0"
  shows "\<exists>r. a = Fin r \<and> c = round_double (r / b)"
  using assms by (cases a) (simp_all add: ddiv_def to_double_Fin_D split: if_splits)

lemma dmul_Fin_D:
  assumes "dmul a (Fin b) = Fin c"
  shows "\<exists>r. a = Fin r \<and> c = round_double (r * b)"
  using assms
  by (cases a) (simp_all add: dmul_def to_double_Fin_D inf_of_sign_def split: if_splits)

lemma foldl_dadd_Fin_D:
  assumes "foldl (\<lambda>sum e. dadd sum (Fin (f e))) acc ps = Fin s"
  shows "\<exists>a. acc = Fin a \<and> s = foldl (\<lambda>s x. round_double (s + x)) a (map f ps)"
  using assms
proof (induction ps arbitrary: acc)
  case Nil
  then show ?case by simp
next
  case (Cons p ps)
  from Cons.prems have "foldl (\<lambda>sum e. dadd sum (Fin (f e))) (dadd acc (Fin (f p))) ps = Fin s"
    by simp
  from Cons.IH[OF this] obtain a' where a': "dadd acc (Fin (f p)) = Fin a'"
    and s: "s = foldl (\<lambda>s x. round_double (s + x)) a' (map f ps)" by blast
  from dadd_Fin_D[OF a'] obtain a where "acc = Fin a" "a' = round_double (a + f p)" by blast
  with s show ?case by simp
qed

lemma reduce_sum_rounded_Fin_D:
  assumes "reduce_sum_rounded pt (map fin_point ps) = Fin s"
  shows "pt = pt_x \<longrightarrow> s = rounded_sum (map fst ps)"
    and "pt = pt_y \<longrightarrow> s = rounded_sum (map snd ps)"
proof -
  show "pt = pt_x \<longrightarrow> s = rounded_sum (map fst ps)"
  proof
    assume "pt = pt_x"
    with assms have "foldl (\<lambda>sum e. dadd sum (Fin (fst e))) (Fin 0) ps = Fin s"
      by (simp add: reduce_sum_rounded_def foldl_map)
    from foldl_dadd_Fin_D[OF this] show "s = rounded_sum (map fst ps)"
      by (simp add: rounded_sum_def)
  qed
  show "pt = pt_y \<longrightarrow> s = rounded_sum (map snd ps)"
  proof
    assume "pt = pt_y"
    with assms have "foldl (\<lambda>sum e. dadd sum (Fin (snd e))) (Fin 0) ps = Fin s"
      by (simp add: reduce_sum_rounded_def foldl_map)
    from foldl_dadd_Fin_D[OF this] show "s = rounded_sum (map snd ps)"
      by (simp add: rounded_sum_def)
  qed
qed

lemma getCenter_Fin_D:
  assumes ne: "ps \<noteq> []"
    and c: "getCenter (map fin_point ps) (Fin w) (Fin h) = \<lparr> pt_x = Fin cx, pt_y = Fin cy \<rparr>"
  shows "cx = fst (center_rounded w h ps)" and "cy = snd (center_rounded w h ps)"
proof -
  let ?n = "real (length ps)"
  have n: "?n \<noteq> 0" using ne by simp
  have l: "jlength (map fin_point ps) = Fin ?n" by (simp add: jlength_def)
  from c have x: "dmul (ddiv (reduce_sum_rounded pt_x (map fin_point ps)) (Fin ?n)) (Fin w) = Fin cx"
    and y: "dmul (ddiv (reduce_sum_rounded pt_y (map fin_point ps)) (Fin ?n)) (Fin h) = Fin cy"
    by (simp_all add: getCenter_def l)
  from dmul_Fin_D[OF x] obtain qx
    where qx: "ddiv (reduce_sum_rounded pt_x (map fin_point ps)) (Fin ?n) = Fin qx"
      and cx: "cx = round_double (qx * w)" by blast
  from ddiv_Fin_D[OF qx n] obtain sx
    where sx: "reduce_sum_rounded pt_x (map fin_point ps) = Fin sx"
      and qx': "qx = round_double (sx / ?n)" by blast
  from reduce_sum_rounded_Fin_D(1)[OF sx] have "sx = rounded_sum (map fst ps)" by simp
  with cx qx' show "cx = fst (center_rounded w h ps)" by (simp add: center_rounded_def)
  from dmul_Fin_D[OF y] obtain qy
    where qy: "ddiv (reduce_sum_rounded pt_y (map fin_point ps)) (Fin ?n) = Fin qy"
      and cy: "cy = round_double (qy * h)" by blast
  from ddiv_Fin_D[OF qy n] obtain sy
    where sy: "reduce_sum_rounded pt_y (map fin_point ps) = Fin sy"
      and qy': "qy = round_double (sy / ?n)" by blast
  from reduce_sum_rounded_Fin_D(2)[OF sy] have "sy = rounded_sum (map snd ps)" by simp
  with cy qy' show "cy = snd (center_rounded w h ps)" by (simp add: center_rounded_def)
qed

subsection \<open>The operations at given doubles\<close>

text \<open>
  A rounded operation is evaluated from the exponent \<open>k\<close> that brings the exact result
  between \<open>2 ^ 52\<close> and \<open>2 ^ 53\<close>, and the integer \<open>m\<close> nearest to the result times
  \<open>2 ^ k\<close>.
\<close>

lemma dadd_eval:
  assumes "2 ^ 52 \<le> \<bar>a + b\<bar> * 2 ^ k" and "\<bar>a + b\<bar> * 2 ^ k < 2 ^ 53" and "k \<le> 1074"
    and "round_even ((a + b) * 2 ^ k) = m" and "c = of_int m / 2 ^ k"
  shows "dadd (Fin a) (Fin b) = Fin c"
  using to_double_eval[OF assms] by (simp add: dadd_def)

lemma dsub_eval:
  assumes "2 ^ 52 \<le> \<bar>a - b\<bar> * 2 ^ k" and "\<bar>a - b\<bar> * 2 ^ k < 2 ^ 53" and "k \<le> 1074"
    and "round_even ((a - b) * 2 ^ k) = m" and "c = of_int m / 2 ^ k"
  shows "dsub (Fin a) (Fin b) = Fin c"
  using to_double_eval[OF assms] by (simp add: dsub_def jsub_def)

lemma dmul_eval:
  assumes "2 ^ 52 \<le> \<bar>a * b\<bar> * 2 ^ k" and "\<bar>a * b\<bar> * 2 ^ k < 2 ^ 53" and "k \<le> 1074"
    and "round_even ((a * b) * 2 ^ k) = m" and "c = of_int m / 2 ^ k"
  shows "dmul (Fin a) (Fin b) = Fin c"
  using to_double_eval[OF assms] by (simp add: dmul_def)

lemma ddiv_eval:
  assumes "2 ^ 52 \<le> \<bar>a / b\<bar> * 2 ^ k" and "\<bar>a / b\<bar> * 2 ^ k < 2 ^ 53" and "k \<le> 1074"
    and "round_even ((a / b) * 2 ^ k) = m" and "c = of_int m / 2 ^ k"
  shows "ddiv (Fin a) (Fin b) = Fin c"
proof -
  have "b \<noteq> 0" using assms(1) by auto
  then show ?thesis using to_double_eval[OF assms] by (simp add: ddiv_def)
qed

lemma jlength_4: "jlength [a, b, c, d] = Fin 4"
  by (simp add: jlength_def)

lemma dmul_NaN: "dmul NaN b = NaN"
  by (simp add: dmul_def)

lemma dsub_NaN: "dsub a NaN = NaN"
  by (cases a) (simp_all add: dsub_def jsub_def)

lemma ddiv_NaN: "ddiv a NaN = NaN"
  by (cases a) (simp_all add: ddiv_def)

lemma dsub_Fin_not_NaN: "dsub (Fin a) (Fin b) \<noteq> NaN"
  by (simp add: dsub_def jsub_def to_double_not_NaN)

lemma jgt_0_iff: "e \<noteq> NaN \<Longrightarrow> jgt e (Fin 0) \<longleftrightarrow> \<not> jle e (Fin 0)"
  by (cases e) (auto simp add: jgt_def jle_def)

subsection \<open>The gaze ratio on finite landmarks, and on NaN\<close>

lemma to_pixels_rounded_fin:
  assumes "\<bar>fst p * w\<bar> < 2 ^ 1023" and "\<bar>snd p * h\<bar> < 2 ^ 1023"
  shows "to_pixels_rounded (Fin w) (Fin h) (fin_point p) = fin_point (scaled_rounded w h p)"
  using to_double_small[OF assms(1)] to_double_small[OF assms(2)]
  by (simp add: to_pixels_rounded_def fin_point_def scaled_rounded_def dmul_def)

lemma foldl_jmin2_NaN: "a = NaN \<or> NaN \<in> set xs \<Longrightarrow> foldl jmin2 a xs = NaN"
  by (induction xs arbitrary: a) (auto simp add: jmin2_def)

lemma foldl_jmax2_NaN: "a = NaN \<or> NaN \<in> set xs \<Longrightarrow> foldl jmax2 a xs = NaN"
  by (induction xs arbitrary: a) (auto simp add: jmax2_def)

lemma Math_min_max_NaN:
  assumes "NaN \<in> set xs"
  shows "Math_min xs = NaN" and "Math_max xs = NaN"
  using assms by (simp_all add: Math_min_def Math_max_def foldl_jmin2_NaN foldl_jmax2_NaN)

lemma calculateGazeRatio_fin:
  assumes "iris \<noteq> []" and "eye \<noteq> []"
    and r: "list_all (\<lambda>p. \<bar>fst p * w\<bar> < 2 ^ 1023 \<and> \<bar>snd p * h\<bar> < 2 ^ 1023) eye"
    and c: "getCenter (map fin_point iris) (Fin w) (Fin h) = \<lparr> pt_x = Fin cx, pt_y = Fin cy \<rparr>"
  shows "calculateGazeRatio (map fin_point iris) (map fin_point eye) (Fin w) (Fin h) =
     (let box = bounding_box (map (scaled_rounded w h) eye);
          minX = fst (fst box); maxX = snd (fst box);
          minY = fst (snd box); maxY = snd (snd box);
          eyeWidth = dsub (Fin maxX) (Fin minX);
          eyeHeight = dsub (Fin maxY) (Fin minY)
      in if jle eyeWidth (Fin 0) \<or> jle eyeHeight (Fin 0)
         then \<lparr> gaze_h = Fin 0.5, gaze_v = Fin 0.5 \<rparr>
         else \<lparr> gaze_h = ddiv (dsub (Fin cx) (Fin minX)) eyeWidth,
                gaze_v = ddiv (dsub (Fin cy) (Fin minY)) eyeHeight \<rparr>)"
proof -
  have pts: "map (to_pixels_rounded (Fin w) (Fin h)) (map fin_point eye)
               = map fin_point (map (scaled_rounded w h) eye)"
    using r by (simp add: to_pixels_rounded_fin list_all_iff)
  have px: "map pt_x (map (to_pixels_rounded (Fin w) (Fin h)) (map fin_point eye))
              = map Fin (map fst (map (scaled_rounded w h) eye))"
    unfolding pts by simp
  have py: "map pt_y (map (to_pixels_rounded (Fin w) (Fin h)) (map fin_point eye))
              = map Fin (map snd (map (scaled_rounded w h) eye))"
    unfolding pts by simp
  have ne: "map fst (map (scaled_rounded w h) eye) \<noteq> []"
    "map snd (map (scaled_rounded w h) eye) \<noteq> []"
    using assms(2) by simp_all
  show ?thesis
    unfolding calculateGazeRatio_def Let_def px py Math_min_fin[OF ne(1)] Math_max_fin[OF ne(1)]
      Math_min_fin[OF ne(2)] Math_max_fin[OF ne(2)] c
    by (simp add: bounding_box_def jgt_0_iff[OF dsub_Fin_not_NaN])
qed

lemma calculateGazeRatio_NaN:
  assumes "NaN \<in> pt_x ` set eyeL \<union> pt_y ` set eyeL"
  shows "calculateGazeRatio irisL eyeL wd ht = \<lparr> gaze_h = Fin 0.5, gaze_v = Fin 0.5 \<rparr>"
proof -
  let ?xs = "map pt_x (map (to_pixels_rounded wd ht) eyeL)"
  let ?ys = "map pt_y (map (to_pixels_rounded wd ht) eyeL)"
  have "NaN \<in> set ?xs \<or> NaN \<in> set ?ys"
  proof -
    from assms consider p where "p \<in> set eyeL" "pt_x p = NaN"
      | p where "p \<in> set eyeL" "pt_y p = NaN"
      by force
    then show ?thesis
    proof cases
      case 1
      then have "pt_x (to_pixels_rounded wd ht p) = NaN"
        by (simp add: to_pixels_rounded_def dmul_def)
      with 1(1) have "NaN \<in> set ?xs" by force
      then show ?thesis ..
    next
      case 2
      then have "pt_y (to_pixels_rounded wd ht p) = NaN"
        by (simp add: to_pixels_rounded_def dmul_def)
      with 2(1) have "NaN \<in> set ?ys" by force
      then show ?thesis ..
    qed
  qed
  then have "dsub (Math_max ?xs) (Math_min ?xs) = NaN \<or> dsub (Math_max ?ys) (Math_min ?ys) = NaN"
    using Math_min_max_NaN[of ?xs] Math_min_max_NaN[of ?ys] by (auto simp add: dsub_NaN)
  then show ?thesis
    unfolding calculateGazeRatio_def Let_def by (auto simp add: jgt_def)
qed

subsection \<open>The iris centre of two sets of landmarks\<close>

text \<open>
  \<^verbatim>\<open>getCenter\<close> in a frame of 640 by 480, on the doubles nearest to \<open>(0.1, 0.2)\<close>,
  \<open>(0.3, 0.4)\<close>, \<open>(0.5, 0.3)\<close> and \<open>(0.3, 0.1)\<close>, and on those nearest to \<open>(0.51, 0.5)\<close>,
  \<open>(0.56, 0.45)\<close>, \<open>(0.61, 0.5)\<close> and \<open>(0.56, 0.55)\<close>. \<open>4222124650659841 / 2 ^ 45\<close> is
  printed \<^verbatim>\<open>120.00000000000003\<close>.
\<close>

lemma getCenter_example_landmarks:
  "getCenter
     [\<lparr>pt_x = Fin (3602879701896397 / 2 ^ 55), pt_y = Fin (3602879701896397 / 2 ^ 54)\<rparr>,
      \<lparr>pt_x = Fin (5404319552844595 / 2 ^ 54), pt_y = Fin (3602879701896397 / 2 ^ 53)\<rparr>,
      \<lparr>pt_x = Fin (1 / 2), pt_y = Fin (5404319552844595 / 2 ^ 54)\<rparr>,
      \<lparr>pt_x = Fin (5404319552844595 / 2 ^ 54), pt_y = Fin (3602879701896397 / 2 ^ 55)\<rparr>]
     (Fin 640) (Fin 480)
     = \<lparr>pt_x = Fin 192, pt_y = Fin (4222124650659841 / 2 ^ 45)\<rparr>"
proof -
  have a1: "dadd (Fin 0) (Fin (3602879701896397 / 2 ^ 55))
          = Fin (3602879701896397 / 2 ^ 55)"
    by (rule dadd_eval[where k = 56 and m = "7205759403792794"])
       (simp_all add: round_even_def)
  have a2: "dadd (Fin (3602879701896397 / 2 ^ 55)) (Fin (5404319552844595 / 2 ^ 54))
          = Fin (3602879701896397 / 2 ^ 53)"
    by (rule dadd_eval[where k = 54 and m = "7205759403792794"])
       (simp_all add: round_even_def)
  have a3: "dadd (Fin (3602879701896397 / 2 ^ 53)) (Fin (1 / 2))
          = Fin (8106479329266893 / 2 ^ 53)"
    by (rule dadd_eval[where k = 53 and m = "8106479329266893"])
       (simp_all add: round_even_def)
  have a4: "dadd (Fin (8106479329266893 / 2 ^ 53)) (Fin (5404319552844595 / 2 ^ 54))
          = Fin (5404319552844595 / 2 ^ 52)"
    by (rule dadd_eval[where k = 52 and m = "5404319552844595"])
       (simp_all add: round_even_def)
  have a5: "ddiv (Fin (5404319552844595 / 2 ^ 52)) (Fin 4)
          = Fin (5404319552844595 / 2 ^ 54)"
    by (rule ddiv_eval[where k = 54 and m = "5404319552844595"])
       (simp_all add: round_even_def)
  have a6: "dmul (Fin (5404319552844595 / 2 ^ 54)) (Fin 640)
          = Fin 192"
    by (rule dmul_eval[where k = 45 and m = "6755399441055744"])
       (simp_all add: round_even_def)
  have a7: "dadd (Fin 0) (Fin (3602879701896397 / 2 ^ 54))
          = Fin (3602879701896397 / 2 ^ 54)"
    by (rule dadd_eval[where k = 55 and m = "7205759403792794"])
       (simp_all add: round_even_def)
  have a8: "dadd (Fin (3602879701896397 / 2 ^ 54)) (Fin (3602879701896397 / 2 ^ 53))
          = Fin (1351079888211149 / 2 ^ 51)"
    by (rule dadd_eval[where k = 53 and m = "5404319552844596"])
       (simp_all add: round_even_def)
  have a9: "dadd (Fin (1351079888211149 / 2 ^ 51)) (Fin (5404319552844595 / 2 ^ 54))
          = Fin (4053239664633447 / 2 ^ 52)"
    by (rule dadd_eval[where k = 53 and m = "8106479329266894"])
       (simp_all add: round_even_def)
  have a10: "dadd (Fin (4053239664633447 / 2 ^ 52)) (Fin (3602879701896397 / 2 ^ 55))
          = Fin (4503599627370497 / 2 ^ 52)"
    by (rule dadd_eval[where k = 52 and m = "4503599627370497"])
       (simp_all add: round_even_def)
  have a11: "ddiv (Fin (4503599627370497 / 2 ^ 52)) (Fin 4)
          = Fin (4503599627370497 / 2 ^ 54)"
    by (rule ddiv_eval[where k = 54 and m = "4503599627370497"])
       (simp_all add: round_even_def)
  have a12: "dmul (Fin (4503599627370497 / 2 ^ 54)) (Fin 480)
          = Fin (4222124650659841 / 2 ^ 45)"
    by (rule dmul_eval[where k = 46 and m = "8444249301319682"])
       (simp_all add: round_even_def)
  note steps =
    a1 a2 a3 a4 a5 a6 a7 a8 a9 a10 a11 a12
  show ?thesis
    by (simp only: getCenter_def reduce_sum_rounded_def foldl.simps point.select_convs
          jlength_4 steps)
qed

lemma getCenter_example_iris:
  "getCenter
     [\<lparr>pt_x = Fin (2296835809958953 / 2 ^ 52), pt_y = Fin (1 / 2)\<rparr>,
      \<lparr>pt_x = Fin (1261007895663739 / 2 ^ 51), pt_y = Fin (8106479329266893 / 2 ^ 54)\<rparr>,
      \<lparr>pt_x = Fin (5494391545392005 / 2 ^ 53), pt_y = Fin (1 / 2)\<rparr>,
      \<lparr>pt_x = Fin (1261007895663739 / 2 ^ 51), pt_y = Fin (2476979795053773 / 2 ^ 52)\<rparr>]
     (Fin 640) (Fin 480)
     = \<lparr>pt_x = Fin (6305039478318695 / 2 ^ 44), pt_y = Fin 240\<rparr>"
proof -
  have a1: "dadd (Fin 0) (Fin (2296835809958953 / 2 ^ 52))
          = Fin (2296835809958953 / 2 ^ 52)"
    by (rule dadd_eval[where k = 53 and m = "4593671619917906"])
       (simp_all add: round_even_def)
  have a2: "dadd (Fin (2296835809958953 / 2 ^ 52)) (Fin (1261007895663739 / 2 ^ 51))
          = Fin (4818851601286431 / 2 ^ 52)"
    by (rule dadd_eval[where k = 52 and m = "4818851601286431"])
       (simp_all add: round_even_def)
  have a3: "dadd (Fin (4818851601286431 / 2 ^ 52)) (Fin (5494391545392005 / 2 ^ 53))
          = Fin (3783023686991217 / 2 ^ 51)"
    by (rule dadd_eval[where k = 52 and m = "7566047373982434"])
       (simp_all add: round_even_def)
  have a4: "dadd (Fin (3783023686991217 / 2 ^ 51)) (Fin (1261007895663739 / 2 ^ 51))
          = Fin (1261007895663739 / 2 ^ 49)"
    by (rule dadd_eval[where k = 51 and m = "5044031582654956"])
       (simp_all add: round_even_def)
  have a5: "ddiv (Fin (1261007895663739 / 2 ^ 49)) (Fin 4)
          = Fin (1261007895663739 / 2 ^ 51)"
    by (rule ddiv_eval[where k = 53 and m = "5044031582654956"])
       (simp_all add: round_even_def)
  have a6: "dmul (Fin (1261007895663739 / 2 ^ 51)) (Fin 640)
          = Fin (6305039478318695 / 2 ^ 44)"
    by (rule dmul_eval[where k = 44 and m = "6305039478318695"])
       (simp_all add: round_even_def)
  have a7: "dadd (Fin 0) (Fin (1 / 2))
          = Fin (1 / 2)"
    by (rule dadd_eval[where k = 53 and m = "4503599627370496"])
       (simp_all add: round_even_def)
  have a8: "dadd (Fin (1 / 2)) (Fin (8106479329266893 / 2 ^ 54))
          = Fin (4278419646001971 / 2 ^ 52)"
    by (rule dadd_eval[where k = 53 and m = "8556839292003942"])
       (simp_all add: round_even_def)
  have a9: "dadd (Fin (4278419646001971 / 2 ^ 52)) (Fin (1 / 2))
          = Fin (6530219459687219 / 2 ^ 52)"
    by (rule dadd_eval[where k = 52 and m = "6530219459687219"])
       (simp_all add: round_even_def)
  have a10: "dadd (Fin (6530219459687219 / 2 ^ 52)) (Fin (2476979795053773 / 2 ^ 52))
          = Fin 2"
    by (rule dadd_eval[where k = 51 and m = "4503599627370496"])
       (simp_all add: round_even_def)
  have a11: "ddiv (Fin 2) (Fin 4)
          = Fin (1 / 2)"
    by (rule ddiv_eval[where k = 53 and m = "4503599627370496"])
       (simp_all add: round_even_def)
  have a12: "dmul (Fin (1 / 2)) (Fin 480)
          = Fin 240"
    by (rule dmul_eval[where k = 45 and m = "8444249301319680"])
       (simp_all add: round_even_def)
  note steps =
    a1 a2 a3 a4 a5 a6 a7 a8 a9 a10 a11 a12
  show ?thesis
    by (simp only: getCenter_def reduce_sum_rounded_def foldl.simps point.select_convs
          jlength_4 steps)
qed

subsection \<open>The claims on the gaze ratio\<close>

text \<open>
  C10. On a non-empty list of \<open>n\<close> landmarks with finite coordinates, and a finite width
  and height, whenever \<^verbatim>\<open>getCenter\<close> returns finite coordinates, that is when none of
  its operations has overflowed, each of them is the coordinate of the centroid of the
  scaled points up to the rounding of the \<open>n + 2\<close> operations that compute it (\<open>n\<close> sums, a
  division, a product): with \<open>m\<close> the mean of the absolute normalised coordinates and
  \<open>s = 2 ^ - 1022\<close> the smallest normal double, the distance between the two is at most
  \<open>((1 + 2 ^ - 53) ^ (n + 2) - 1) * ((m + s) * \<bar>width\<bar> + s)\<close>, resp. with the height. Over
  the reals the mean commutes with the scaling: the centroid of the scaled points is the
  scaled centroid.
\<close>

theorem getCenter_is_centroid_up_to_rounding:
  assumes "ps \<noteq> []"
    and "getCenter (map fin_point ps) (Fin w) (Fin h) = \<lparr> pt_x = Fin cx, pt_y = Fin cy \<rparr>"
  shows "\<bar>cx - fst (centroid (map (scaled w h) ps))\<bar>
           \<le> (rounding_factor ^ (length ps + 2) - 1)
               * ((sum_list (map (\<lambda>p. \<bar>fst p\<bar>) ps) / real (length ps) + smallest_normal) * \<bar>w\<bar>
                  + smallest_normal)
     \<and> \<bar>cy - snd (centroid (map (scaled w h) ps))\<bar>
           \<le> (rounding_factor ^ (length ps + 2) - 1)
               * ((sum_list (map (\<lambda>p. \<bar>snd p\<bar>) ps) / real (length ps) + smallest_normal) * \<bar>h\<bar>
                  + smallest_normal)
     \<and> centroid (map (scaled w h) ps) = scaled w h (centroid ps)"
  unfolding getCenter_Fin_D[OF assms]
  by (intro conjI center_rounded_error[OF assms(1)] centroid_scaled)

text \<open>
  The doubles nearest to \<open>(0.1, 0.2)\<close>, \<open>(0.3, 0.4)\<close>, \<open>(0.5, 0.3)\<close> and \<open>(0.3, 0.1)\<close> in a frame
  of 640 by 480: what \<^verbatim>\<open>getCenter\<close> returns is within the bound of the centroid of the
  scaled points.
\<close>

theorem getCenter_is_centroid_up_to_rounding_witness:
  "([(3602879701896397 / 2 ^ 55, 3602879701896397 / 2 ^ 54),
         (5404319552844595 / 2 ^ 54, 3602879701896397 / 2 ^ 53),
         (1 / 2, 5404319552844595 / 2 ^ 54),
         (5404319552844595 / 2 ^ 54, 3602879701896397 / 2 ^ 55)]
          :: (real \<times> real) list)
     \<noteq> ([] :: (real \<times> real) list)
   \<and> getCenter (map fin_point
       ([(3602879701896397 / 2 ^ 55, 3602879701896397 / 2 ^ 54),
         (5404319552844595 / 2 ^ 54, 3602879701896397 / 2 ^ 53),
         (1 / 2, 5404319552844595 / 2 ^ 54),
         (5404319552844595 / 2 ^ 54, 3602879701896397 / 2 ^ 55)]
          :: (real \<times> real) list))
       (Fin 640) (Fin 480)
       = \<lparr>pt_x = Fin 192, pt_y = Fin (4222124650659841 / 2 ^ 45)\<rparr>
   \<and> \<bar>192 - fst (centroid (map (scaled 640 480)
       ([(3602879701896397 / 2 ^ 55, 3602879701896397 / 2 ^ 54),
         (5404319552844595 / 2 ^ 54, 3602879701896397 / 2 ^ 53),
         (1 / 2, 5404319552844595 / 2 ^ 54),
         (5404319552844595 / 2 ^ 54, 3602879701896397 / 2 ^ 55)]
          :: (real \<times> real) list)))\<bar>
       \<le> (rounding_factor ^ 6 - 1)
          * ((sum_list (map (\<lambda>p. \<bar>fst p\<bar>)
       ([(3602879701896397 / 2 ^ 55, 3602879701896397 / 2 ^ 54),
         (5404319552844595 / 2 ^ 54, 3602879701896397 / 2 ^ 53),
         (1 / 2, 5404319552844595 / 2 ^ 54),
         (5404319552844595 / 2 ^ 54, 3602879701896397 / 2 ^ 55)]
          :: (real \<times> real) list)) / 4
              + smallest_normal) * 640 + smallest_normal)
   \<and> \<bar>4222124650659841 / 2 ^ 45 - snd (centroid (map (scaled 640 480)
       ([(3602879701896397 / 2 ^ 55, 3602879701896397 / 2 ^ 54),
         (5404319552844595 / 2 ^ 54, 3602879701896397 / 2 ^ 53),
         (1 / 2, 5404319552844595 / 2 ^ 54),
         (5404319552844595 / 2 ^ 54, 3602879701896397 / 2 ^ 55)]
          :: (real \<times> real) list)))\<bar>
       \<le> (rounding_factor ^ 6 - 1)
          * ((sum_list (map (\<lambda>p. \<bar>snd p\<bar>)
       ([(3602879701896397 / 2 ^ 55, 3602879701896397 / 2 ^ 54),
         (5404319552844595 / 2 ^ 54, 3602879701896397 / 2 ^ 53),
         (1 / 2, 5404319552844595 / 2 ^ 54),
         (5404319552844595 / 2 ^ 54, 3602879701896397 / 2 ^ 55)]
          :: (real \<times> real) list)) / 4
              + smallest_normal) * 480 + smallest_normal)"
proof -
  let ?ps =
       "[(3602879701896397 / 2 ^ 55, 3602879701896397 / 2 ^ 54),
        (5404319552844595 / 2 ^ 54, 3602879701896397 / 2 ^ 53),
        (1 / 2, 5404319552844595 / 2 ^ 54),
        (5404319552844595 / 2 ^ 54, 3602879701896397 / 2 ^ 55)]
          :: (real \<times> real) list"
  have h1: "?ps \<noteq> []" by simp
  have h2: "getCenter (map fin_point ?ps) (Fin 640) (Fin 480)
              = \<lparr>pt_x = Fin 192, pt_y = Fin (4222124650659841 / 2 ^ 45)\<rparr>"
    using getCenter_example_landmarks by (simp only: list.map fin_point_def fst_conv snd_conv)
  have l: "length ?ps + 2 = 6" "real (length ?ps) = 4" "\<bar>640 :: real\<bar> = 640"
    "\<bar>480 :: real\<bar> = 480"
    by simp_all
  note t = getCenter_is_centroid_up_to_rounding[OF h1 h2, unfolded l]
  show ?thesis
    by (intro conjI h1 h2 conjunct1[OF t] conjunct1[OF conjunct2[OF t]])
qed

text \<open>
  The two are not equal on doubles. On the same landmarks and frame \<^verbatim>\<open>getCenter\<close>
  returns \<open>y = 4222124650659841 / 2 ^ 45\<close>, printed \<^verbatim>\<open>120.00000000000003\<close>. The centroid
  of the scaled points, each point scaled first and every operation rounded, has
  \<open>y = 120\<close>, and the centroid of the scaled points over the reals is a third number.
\<close>

theorem getCenter_differs_from_centroid_counterexample:
  "getCenter
     [\<lparr>pt_x = Fin (3602879701896397 / 2 ^ 55), pt_y = Fin (3602879701896397 / 2 ^ 54)\<rparr>,
      \<lparr>pt_x = Fin (5404319552844595 / 2 ^ 54), pt_y = Fin (3602879701896397 / 2 ^ 53)\<rparr>,
      \<lparr>pt_x = Fin (1 / 2), pt_y = Fin (5404319552844595 / 2 ^ 54)\<rparr>,
      \<lparr>pt_x = Fin (5404319552844595 / 2 ^ 54), pt_y = Fin (3602879701896397 / 2 ^ 55)\<rparr>]
     (Fin 640) (Fin 480)
     = \<lparr>pt_x = Fin 192, pt_y = Fin (4222124650659841 / 2 ^ 45)\<rparr>
   \<and> spec_centroid (map (to_pixels_rounded (Fin 640) (Fin 480))
     [\<lparr>pt_x = Fin (3602879701896397 / 2 ^ 55), pt_y = Fin (3602879701896397 / 2 ^ 54)\<rparr>,
      \<lparr>pt_x = Fin (5404319552844595 / 2 ^ 54), pt_y = Fin (3602879701896397 / 2 ^ 53)\<rparr>,
      \<lparr>pt_x = Fin (1 / 2), pt_y = Fin (5404319552844595 / 2 ^ 54)\<rparr>,
      \<lparr>pt_x = Fin (5404319552844595 / 2 ^ 54), pt_y = Fin (3602879701896397 / 2 ^ 55)\<rparr>])
     = \<lparr>pt_x = Fin 192, pt_y = Fin 120\<rparr>
   \<and> centroid (map (scaled 640 480)
     [(3602879701896397 / 2 ^ 55, 3602879701896397 / 2 ^ 54),
      (5404319552844595 / 2 ^ 54, 3602879701896397 / 2 ^ 53),
      (1 / 2, 5404319552844595 / 2 ^ 54),
      (5404319552844595 / 2 ^ 54, 3602879701896397 / 2 ^ 55)])
     = (216172782113783805 / 2 ^ 50, 540431955284459535 / 2 ^ 52)
   \<and> (4222124650659841 / 2 ^ 45 :: real) \<noteq> 120
   \<and> (4222124650659841 / 2 ^ 45 :: real) \<noteq> 540431955284459535 / 2 ^ 52"
proof -
  let ?ps =
       "[\<lparr>pt_x = Fin (3602879701896397 / 2 ^ 55), pt_y = Fin (3602879701896397 / 2 ^ 54)\<rparr>,
         \<lparr>pt_x = Fin (5404319552844595 / 2 ^ 54), pt_y = Fin (3602879701896397 / 2 ^ 53)\<rparr>,
         \<lparr>pt_x = Fin (1 / 2), pt_y = Fin (5404319552844595 / 2 ^ 54)\<rparr>,
         \<lparr>pt_x = Fin (5404319552844595 / 2 ^ 54), pt_y = Fin (3602879701896397 / 2 ^ 55)\<rparr>]"
  let ?rs =
       "[(3602879701896397 / 2 ^ 55, 3602879701896397 / 2 ^ 54),
        (5404319552844595 / 2 ^ 54, 3602879701896397 / 2 ^ 53),
        (1 / 2, 5404319552844595 / 2 ^ 54),
        (5404319552844595 / 2 ^ 54, 3602879701896397 / 2 ^ 55)]
          :: (real \<times> real) list"
  have b1: "dmul (Fin (3602879701896397 / 2 ^ 55)) (Fin 640)
          = Fin 64"
    by (rule dmul_eval[where k = 46 and m = "4503599627370496"])
       (simp_all add: round_even_def)
  have b2: "dmul (Fin (5404319552844595 / 2 ^ 54)) (Fin 640)
          = Fin 192"
    by (rule dmul_eval[where k = 45 and m = "6755399441055744"])
       (simp_all add: round_even_def)
  have b3: "dmul (Fin (1 / 2)) (Fin 640)
          = Fin 320"
    by (rule dmul_eval[where k = 44 and m = "5629499534213120"])
       (simp_all add: round_even_def)
  have b4: "dadd (Fin 0) (Fin 64)
          = Fin 64"
    by (rule dadd_eval[where k = 46 and m = "4503599627370496"])
       (simp_all add: round_even_def)
  have b5: "dadd (Fin 64) (Fin 192)
          = Fin 256"
    by (rule dadd_eval[where k = 44 and m = "4503599627370496"])
       (simp_all add: round_even_def)
  have b6: "dadd (Fin 256) (Fin 320)
          = Fin 576"
    by (rule dadd_eval[where k = 43 and m = "5066549580791808"])
       (simp_all add: round_even_def)
  have b7: "dadd (Fin 576) (Fin 192)
          = Fin 768"
    by (rule dadd_eval[where k = 43 and m = "6755399441055744"])
       (simp_all add: round_even_def)
  have b8: "ddiv (Fin 768) (Fin 4)
          = Fin 192"
    by (rule ddiv_eval[where k = 45 and m = "6755399441055744"])
       (simp_all add: round_even_def)
  have b9: "dmul (Fin (3602879701896397 / 2 ^ 54)) (Fin 480)
          = Fin 96"
    by (rule dmul_eval[where k = 46 and m = "6755399441055744"])
       (simp_all add: round_even_def)
  have b10: "dmul (Fin (3602879701896397 / 2 ^ 53)) (Fin 480)
          = Fin 192"
    by (rule dmul_eval[where k = 45 and m = "6755399441055744"])
       (simp_all add: round_even_def)
  have b11: "dmul (Fin (5404319552844595 / 2 ^ 54)) (Fin 480)
          = Fin 144"
    by (rule dmul_eval[where k = 45 and m = "5066549580791808"])
       (simp_all add: round_even_def)
  have b12: "dmul (Fin (3602879701896397 / 2 ^ 55)) (Fin 480)
          = Fin 48"
    by (rule dmul_eval[where k = 47 and m = "6755399441055744"])
       (simp_all add: round_even_def)
  have b13: "dadd (Fin 0) (Fin 96)
          = Fin 96"
    by (rule dadd_eval[where k = 46 and m = "6755399441055744"])
       (simp_all add: round_even_def)
  have b14: "dadd (Fin 96) (Fin 192)
          = Fin 288"
    by (rule dadd_eval[where k = 44 and m = "5066549580791808"])
       (simp_all add: round_even_def)
  have b15: "dadd (Fin 288) (Fin 144)
          = Fin 432"
    by (rule dadd_eval[where k = 44 and m = "7599824371187712"])
       (simp_all add: round_even_def)
  have b16: "dadd (Fin 432) (Fin 48)
          = Fin 480"
    by (rule dadd_eval[where k = 44 and m = "8444249301319680"])
       (simp_all add: round_even_def)
  have b17: "ddiv (Fin 480) (Fin 4)
          = Fin 120"
    by (rule ddiv_eval[where k = 46 and m = "8444249301319680"])
       (simp_all add: round_even_def)
  note steps =
    b1 b2 b3 b4 b5 b6 b7 b8 b9 b10 b11 b12 b13 b14 b15 b16 b17
  have c: "getCenter ?ps (Fin 640) (Fin 480)
             = \<lparr>pt_x = Fin 192, pt_y = Fin (4222124650659841 / 2 ^ 45)\<rparr>"
    by (rule getCenter_example_landmarks)
  have s: "spec_centroid (map (to_pixels_rounded (Fin 640) (Fin 480)) ?ps)
             = \<lparr>pt_x = Fin 192, pt_y = Fin 120\<rparr>"
    by (simp only: spec_centroid_def to_pixels_rounded_def list.map reduce_sum_rounded_def
          foldl.simps point.select_convs jlength_4 steps)
  have e: "centroid (map (scaled 640 480) ?rs)
             = (216172782113783805 / 2 ^ 50, 540431955284459535 / 2 ^ 52)"
    by (simp add: centroid_def scaled_def)
  have n1: "(4222124650659841 / 2 ^ 45 :: real) \<noteq> 120"
    by simp
  have n2: "(4222124650659841 / 2 ^ 45 :: real) \<noteq> 540431955284459535 / 2 ^ 52"
    by simp
  show ?thesis by (intro conjI c s e n1 n2)
qed

text \<open>
  C4. On a non-empty list of iris landmarks and a non-empty list of eye landmarks with
  finite coordinates (four and six of them in the tracker), and a finite width and height,
  such that the scaled eye coordinates stay below \<open>2 ^ 1023\<close> in magnitude and
  \<^verbatim>\<open>getCenter\<close> returns a finite iris centre \<open>(cx, cy)\<close>: \<^verbatim>\<open>calculateGazeRatio\<close> returns
  \<open>{h: 0.5, v: 0.5}\<close> when the bounding box of the scaled eye points has a width or a
  height, the rounded difference of its maximum and minimum, that is at most 0, and
  otherwise \<open>h = (cx - minX) / eyeWidth\<close> and \<open>v = (cy - minY) / eyeHeight\<close>, by the
  subtraction and the division of doubles. \<open>(cx, cy)\<close> is the centroid of the scaled iris
  points up to the rounding of \<^verbatim>\<open>getCenter\<close>, within the bound of C10. When a coordinate
  of an eye landmark is NaN the result is \<open>{h: 0.5, v: 0.5}\<close> too, whatever the other
  arguments are. The function has no other result: it does not throw.
\<close>

theorem calculateGazeRatio_neutral_or_rounded_ratio:
  "(iris \<noteq> [] \<and> eye \<noteq> []
      \<and> list_all (\<lambda>p. \<bar>fst p * w\<bar> < 2 ^ 1023 \<and> \<bar>snd p * h\<bar> < 2 ^ 1023) eye
      \<and> getCenter (map fin_point iris) (Fin w) (Fin h) = \<lparr> pt_x = Fin cx, pt_y = Fin cy \<rparr>
    \<longrightarrow>
      calculateGazeRatio (map fin_point iris) (map fin_point eye) (Fin w) (Fin h) =
        (let box = bounding_box (map (scaled_rounded w h) eye);
             minX = fst (fst box); maxX = snd (fst box);
             minY = fst (snd box); maxY = snd (snd box);
             eyeWidth = dsub (Fin maxX) (Fin minX);
             eyeHeight = dsub (Fin maxY) (Fin minY)
         in if jle eyeWidth (Fin 0) \<or> jle eyeHeight (Fin 0)
            then \<lparr> gaze_h = Fin 0.5, gaze_v = Fin 0.5 \<rparr>
            else \<lparr> gaze_h = ddiv (dsub (Fin cx) (Fin minX)) eyeWidth,
                   gaze_v = ddiv (dsub (Fin cy) (Fin minY)) eyeHeight \<rparr>)
      \<and> \<bar>cx - fst (centroid (map (scaled w h) iris))\<bar>
           \<le> (rounding_factor ^ (length iris + 2) - 1)
               * ((sum_list (map (\<lambda>p. \<bar>fst p\<bar>) iris) / real (length iris) + smallest_normal)
                    * \<bar>w\<bar> + smallest_normal)
      \<and> \<bar>cy - snd (centroid (map (scaled w h) iris))\<bar>
           \<le> (rounding_factor ^ (length iris + 2) - 1)
               * ((sum_list (map (\<lambda>p. \<bar>snd p\<bar>) iris) / real (length iris) + smallest_normal)
                    * \<bar>h\<bar> + smallest_normal))
   \<and> (NaN \<in> pt_x ` set eyeL \<union> pt_y ` set eyeL \<longrightarrow>
        calculateGazeRatio irisL eyeL wd ht = \<lparr> gaze_h = Fin 0.5, gaze_v = Fin 0.5 \<rparr>)"
proof (intro conjI impI)
  assume a: "iris \<noteq> [] \<and> eye \<noteq> []
      \<and> list_all (\<lambda>p. \<bar>fst p * w\<bar> < 2 ^ 1023 \<and> \<bar>snd p * h\<bar> < 2 ^ 1023) eye
      \<and> getCenter (map fin_point iris) (Fin w) (Fin h) = \<lparr> pt_x = Fin cx, pt_y = Fin cy \<rparr>"
  then have i: "iris \<noteq> []" and e: "eye \<noteq> []"
    and r: "list_all (\<lambda>p. \<bar>fst p * w\<bar> < 2 ^ 1023 \<and> \<bar>snd p * h\<bar> < 2 ^ 1023) eye"
    and c: "getCenter (map fin_point iris) (Fin w) (Fin h) = \<lparr> pt_x = Fin cx, pt_y = Fin cy \<rparr>"
    by simp_all
  show "calculateGazeRatio (map fin_point iris) (map fin_point eye) (Fin w) (Fin h) =
        (let box = bounding_box (map (scaled_rounded w h) eye);
             minX = fst (fst box); maxX = snd (fst box);
             minY = fst (snd box); maxY = snd (snd box);
             eyeWidth = dsub (Fin maxX) (Fin minX);
             eyeHeight = dsub (Fin maxY) (Fin minY)
         in if jle eyeWidth (Fin 0) \<or> jle eyeHeight (Fin 0)
            then \<lparr> gaze_h = Fin 0.5, gaze_v = Fin 0.5 \<rparr>
            else \<lparr> gaze_h = ddiv (dsub (Fin cx) (Fin minX)) eyeWidth,
                   gaze_v = ddiv (dsub (Fin cy) (Fin minY)) eyeHeight \<rparr>)"
    by (rule calculateGazeRatio_fin[OF i e r c])
  show "\<bar>cx - fst (centroid (map (scaled w h) iris))\<bar>
           \<le> (rounding_factor ^ (length iris + 2) - 1)
               * ((sum_list (map (\<lambda>p. \<bar>fst p\<bar>) iris) / real (length iris) + smallest_normal)
                    * \<bar>w\<bar> + smallest_normal)"
    unfolding getCenter_Fin_D[OF i c] by (rule center_rounded_error(1)[OF i])
  show "\<bar>cy - snd (centroid (map (scaled w h) iris))\<bar>
           \<le> (rounding_factor ^ (length iris + 2) - 1)
               * ((sum_list (map (\<lambda>p. \<bar>snd p\<bar>) iris) / real (length iris) + smallest_normal)
                    * \<bar>h\<bar> + smallest_normal)"
    unfolding getCenter_Fin_D[OF i c] by (rule center_rounded_error(2)[OF i])
next
  assume "NaN \<in> pt_x ` set eyeL \<union> pt_y ` set eyeL"
  then show "calculateGazeRatio irisL eyeL wd ht = \<lparr> gaze_h = Fin 0.5, gaze_v = Fin 0.5 \<rparr>"
    by (rule calculateGazeRatio_NaN)
qed

text \<open>
  The doubles nearest to four iris landmarks \<open>(0.51, 0.5)\<close>, \<open>(0.56, 0.45)\<close>, \<open>(0.61, 0.5)\<close>,
  \<open>(0.56, 0.55)\<close> and six eye landmarks \<open>(0.3, 0.5)\<close>, \<open>(0.4, 0.4)\<close>, \<open>(0.6, 0.4)\<close>,
  \<open>(0.7, 0.5)\<close>, \<open>(0.6, 0.6)\<close>, \<open>(0.4, 0.6)\<close> in a frame of 640 by 480, and two eye landmarks
  of which one has the x coordinate NaN.
\<close>

theorem calculateGazeRatio_neutral_or_rounded_ratio_witness:
  "([(2296835809958953 / 2 ^ 52, 1 / 2),
         (1261007895663739 / 2 ^ 51, 8106479329266893 / 2 ^ 54),
         (5494391545392005 / 2 ^ 53, 1 / 2),
         (1261007895663739 / 2 ^ 51, 2476979795053773 / 2 ^ 52)]
          :: (real \<times> real) list)
     \<noteq> ([] :: (real \<times> real) list)
   \<and> ([(5404319552844595 / 2 ^ 54, 1 / 2),
         (3602879701896397 / 2 ^ 53, 3602879701896397 / 2 ^ 53),
         (5404319552844595 / 2 ^ 53, 3602879701896397 / 2 ^ 53),
         (3152519739159347 / 2 ^ 52, 1 / 2),
         (5404319552844595 / 2 ^ 53, 5404319552844595 / 2 ^ 53),
         (3602879701896397 / 2 ^ 53, 5404319552844595 / 2 ^ 53)]
          :: (real \<times> real) list)
     \<noteq> ([] :: (real \<times> real) list)
   \<and> list_all (\<lambda>p. \<bar>fst p * 640\<bar> < 2 ^ 1023 \<and> \<bar>snd p * 480\<bar> < 2 ^ 1023)
       ([(5404319552844595 / 2 ^ 54, 1 / 2),
         (3602879701896397 / 2 ^ 53, 3602879701896397 / 2 ^ 53),
         (5404319552844595 / 2 ^ 53, 3602879701896397 / 2 ^ 53),
         (3152519739159347 / 2 ^ 52, 1 / 2),
         (5404319552844595 / 2 ^ 53, 5404319552844595 / 2 ^ 53),
         (3602879701896397 / 2 ^ 53, 5404319552844595 / 2 ^ 53)]
          :: (real \<times> real) list)
   \<and> getCenter (map fin_point
       ([(2296835809958953 / 2 ^ 52, 1 / 2),
         (1261007895663739 / 2 ^ 51, 8106479329266893 / 2 ^ 54),
         (5494391545392005 / 2 ^ 53, 1 / 2),
         (1261007895663739 / 2 ^ 51, 2476979795053773 / 2 ^ 52)]
          :: (real \<times> real) list))
       (Fin 640) (Fin 480)
       = \<lparr>pt_x = Fin (6305039478318695 / 2 ^ 44), pt_y = Fin 240\<rparr>
   \<and> NaN \<in> pt_x ` set [\<lparr>pt_x = NaN, pt_y = Fin 0.5\<rparr>, \<lparr>pt_x = Fin 0.75, pt_y = Fin 0.5\<rparr>]
        \<union> pt_y ` set [\<lparr>pt_x = NaN, pt_y = Fin 0.5\<rparr>, \<lparr>pt_x = Fin 0.75, pt_y = Fin 0.5\<rparr>]
   \<and> calculateGazeRatio
       (map fin_point
       ([(2296835809958953 / 2 ^ 52, 1 / 2),
         (1261007895663739 / 2 ^ 51, 8106479329266893 / 2 ^ 54),
         (5494391545392005 / 2 ^ 53, 1 / 2),
         (1261007895663739 / 2 ^ 51, 2476979795053773 / 2 ^ 52)]
          :: (real \<times> real) list))
       (map fin_point
       ([(5404319552844595 / 2 ^ 54, 1 / 2),
         (3602879701896397 / 2 ^ 53, 3602879701896397 / 2 ^ 53),
         (5404319552844595 / 2 ^ 53, 3602879701896397 / 2 ^ 53),
         (3152519739159347 / 2 ^ 52, 1 / 2),
         (5404319552844595 / 2 ^ 53, 5404319552844595 / 2 ^ 53),
         (3602879701896397 / 2 ^ 53, 5404319552844595 / 2 ^ 53)]
          :: (real \<times> real) list))
       (Fin 640) (Fin 480) =
        (let box = bounding_box (map (scaled_rounded 640 480)
       ([(5404319552844595 / 2 ^ 54, 1 / 2),
         (3602879701896397 / 2 ^ 53, 3602879701896397 / 2 ^ 53),
         (5404319552844595 / 2 ^ 53, 3602879701896397 / 2 ^ 53),
         (3152519739159347 / 2 ^ 52, 1 / 2),
         (5404319552844595 / 2 ^ 53, 5404319552844595 / 2 ^ 53),
         (3602879701896397 / 2 ^ 53, 5404319552844595 / 2 ^ 53)]
          :: (real \<times> real) list));
             minX = fst (fst box); maxX = snd (fst box);
             minY = fst (snd box); maxY = snd (snd box);
             eyeWidth = dsub (Fin maxX) (Fin minX);
             eyeHeight = dsub (Fin maxY) (Fin minY)
         in if jle eyeWidth (Fin 0) \<or> jle eyeHeight (Fin 0)
            then \<lparr> gaze_h = Fin 0.5, gaze_v = Fin 0.5 \<rparr>
            else \<lparr> gaze_h = ddiv (dsub (Fin (6305039478318695 / 2 ^ 44)) (Fin minX)) eyeWidth,
                   gaze_v = ddiv (dsub (Fin 240) (Fin minY)) eyeHeight \<rparr>)
   \<and> \<bar>6305039478318695 / 2 ^ 44 - fst (centroid (map (scaled 640 480)
       ([(2296835809958953 / 2 ^ 52, 1 / 2),
         (1261007895663739 / 2 ^ 51, 8106479329266893 / 2 ^ 54),
         (5494391545392005 / 2 ^ 53, 1 / 2),
         (1261007895663739 / 2 ^ 51, 2476979795053773 / 2 ^ 52)]
          :: (real \<times> real) list)))\<bar>
       \<le> (rounding_factor ^ 6 - 1)
          * ((sum_list (map (\<lambda>p. \<bar>fst p\<bar>)
       ([(2296835809958953 / 2 ^ 52, 1 / 2),
         (1261007895663739 / 2 ^ 51, 8106479329266893 / 2 ^ 54),
         (5494391545392005 / 2 ^ 53, 1 / 2),
         (1261007895663739 / 2 ^ 51, 2476979795053773 / 2 ^ 52)]
          :: (real \<times> real) list)) / 4
              + smallest_normal) * 640 + smallest_normal)
   \<and> \<bar>240 - snd (centroid (map (scaled 640 480)
       ([(2296835809958953 / 2 ^ 52, 1 / 2),
         (1261007895663739 / 2 ^ 51, 8106479329266893 / 2 ^ 54),
         (5494391545392005 / 2 ^ 53, 1 / 2),
         (1261007895663739 / 2 ^ 51, 2476979795053773 / 2 ^ 52)]
          :: (real \<times> real) list)))\<bar>
       \<le> (rounding_factor ^ 6 - 1)
          * ((sum_list (map (\<lambda>p. \<bar>snd p\<bar>)
       ([(2296835809958953 / 2 ^ 52, 1 / 2),
         (1261007895663739 / 2 ^ 51, 8106479329266893 / 2 ^ 54),
         (5494391545392005 / 2 ^ 53, 1 / 2),
         (1261007895663739 / 2 ^ 51, 2476979795053773 / 2 ^ 52)]
          :: (real \<times> real) list)) / 4
              + smallest_normal) * 480 + smallest_normal)
   \<and> calculateGazeRatio []
        [\<lparr>pt_x = NaN, pt_y = Fin 0.5\<rparr>, \<lparr>pt_x = Fin 0.75, pt_y = Fin 0.5\<rparr>] (Fin 640) (Fin 480)
      = \<lparr> gaze_h = Fin 0.5, gaze_v = Fin 0.5 \<rparr>"
proof -
  let ?iris =
       "[(2296835809958953 / 2 ^ 52, 1 / 2),
        (1261007895663739 / 2 ^ 51, 8106479329266893 / 2 ^ 54),
        (5494391545392005 / 2 ^ 53, 1 / 2),
        (1261007895663739 / 2 ^ 51, 2476979795053773 / 2 ^ 52)]
          :: (real \<times> real) list"
  let ?eye =
       "[(5404319552844595 / 2 ^ 54, 1 / 2),
        (3602879701896397 / 2 ^ 53, 3602879701896397 / 2 ^ 53),
        (5404319552844595 / 2 ^ 53, 3602879701896397 / 2 ^ 53),
        (3152519739159347 / 2 ^ 52, 1 / 2),
        (5404319552844595 / 2 ^ 53, 5404319552844595 / 2 ^ 53),
        (3602879701896397 / 2 ^ 53, 5404319552844595 / 2 ^ 53)]
          :: (real \<times> real) list"
  let ?eyeL = "[\<lparr>pt_x = NaN, pt_y = Fin 0.5\<rparr>, \<lparr>pt_x = Fin 0.75, pt_y = Fin 0.5\<rparr>]"
  have h1: "?iris \<noteq> []" and h2: "?eye \<noteq> []" by simp_all
  have h3: "list_all (\<lambda>p. \<bar>fst p * 640\<bar> < 2 ^ 1023 \<and> \<bar>snd p * 480\<bar> < 2 ^ 1023) ?eye"
    by simp
  have h4: "getCenter (map fin_point ?iris) (Fin 640) (Fin 480)
              = \<lparr>pt_x = Fin (6305039478318695 / 2 ^ 44), pt_y = Fin 240\<rparr>"
    using getCenter_example_iris by (simp only: list.map fin_point_def fst_conv snd_conv)
  have h5: "NaN \<in> pt_x ` set ?eyeL \<union> pt_y ` set ?eyeL" by simp
  have l: "length ?iris + 2 = 6" "real (length ?iris) = 4" "\<bar>640 :: real\<bar> = 640"
    "\<bar>480 :: real\<bar> = 480"
    by simp_all
  note t = calculateGazeRatio_neutral_or_rounded_ratio
             [where iris = ?iris and eye = ?eye and w = 640 and h = 480
                and cx = "6305039478318695 / 2 ^ 44" and cy = "240"
                and eyeL = ?eyeL and irisL = "[]" and wd = "Fin 640" and ht = "Fin 480"]
  have a: "?iris \<noteq> [] \<and> ?eye \<noteq> []
      \<and> list_all (\<lambda>p. \<bar>fst p * 640\<bar> < 2 ^ 1023 \<and> \<bar>snd p * 480\<bar> < 2 ^ 1023) ?eye
      \<and> getCenter (map fin_point ?iris) (Fin 640) (Fin 480)
          = \<lparr>pt_x = Fin (6305039478318695 / 2 ^ 44), pt_y = Fin 240\<rparr>"
    by (intro conjI h1 h2 h3 h4)
  note t1 = mp[OF conjunct1[OF t] a, unfolded l]
  note t2 = mp[OF conjunct2[OF t] h5]
  show ?thesis
    by (intro conjI h1 h2 h3 h4 h5 conjunct1[OF t1] conjunct1[OF conjunct2[OF t1]]
          conjunct2[OF conjunct2[OF t1]] t2)
qed

text \<open>
  The ratio is not always the one of the centroid of the scaled iris points, and the
  neutral value is returned in more cases than a width or a height of at most 0. On the
  same iris and eye landmarks and frame, \<^verbatim>\<open>calculateGazeRatio\<close> returns
  \<open>h = 2927339757790823 / 2 ^ 52\<close>, printed \<^verbatim>\<open>0.6500000000000001\<close>; with the centroid of
  the scaled iris points the ratio is \<open>1463669878895411 / 2 ^ 51\<close>, printed
  \<^verbatim>\<open>0.6499999999999999\<close>. With NaN for the x of the first eye landmark the width of the
  box is NaN, which is not at most 0: \<^verbatim>\<open>calculateGazeRatio\<close> returns the neutral value,
  where the ratio has \<open>h = NaN\<close>.
\<close>

theorem calculateGazeRatio_differs_from_formula_counterexample:
  "calculateGazeRatio
     [\<lparr>pt_x = Fin (2296835809958953 / 2 ^ 52), pt_y = Fin (1 / 2)\<rparr>,
      \<lparr>pt_x = Fin (1261007895663739 / 2 ^ 51), pt_y = Fin (8106479329266893 / 2 ^ 54)\<rparr>,
      \<lparr>pt_x = Fin (5494391545392005 / 2 ^ 53), pt_y = Fin (1 / 2)\<rparr>,
      \<lparr>pt_x = Fin (1261007895663739 / 2 ^ 51), pt_y = Fin (2476979795053773 / 2 ^ 52)\<rparr>]
     [\<lparr>pt_x = Fin (5404319552844595 / 2 ^ 54), pt_y = Fin (1 / 2)\<rparr>,
      \<lparr>pt_x = Fin (3602879701896397 / 2 ^ 53), pt_y = Fin (3602879701896397 / 2 ^ 53)\<rparr>,
      \<lparr>pt_x = Fin (5404319552844595 / 2 ^ 53), pt_y = Fin (3602879701896397 / 2 ^ 53)\<rparr>,
      \<lparr>pt_x = Fin (3152519739159347 / 2 ^ 52), pt_y = Fin (1 / 2)\<rparr>,
      \<lparr>pt_x = Fin (5404319552844595 / 2 ^ 53), pt_y = Fin (5404319552844595 / 2 ^ 53)\<rparr>,
      \<lparr>pt_x = Fin (3602879701896397 / 2 ^ 53), pt_y = Fin (5404319552844595 / 2 ^ 53)\<rparr>]
     (Fin 640) (Fin 480)
     = \<lparr>gaze_h = Fin (2927339757790823 / 2 ^ 52), gaze_v = Fin (1 / 2)\<rparr>
   \<and> spec_gaze_ratio
     [\<lparr>pt_x = Fin (2296835809958953 / 2 ^ 52), pt_y = Fin (1 / 2)\<rparr>,
      \<lparr>pt_x = Fin (1261007895663739 / 2 ^ 51), pt_y = Fin (8106479329266893 / 2 ^ 54)\<rparr>,
      \<lparr>pt_x = Fin (5494391545392005 / 2 ^ 53), pt_y = Fin (1 / 2)\<rparr>,
      \<lparr>pt_x = Fin (1261007895663739 / 2 ^ 51), pt_y = Fin (2476979795053773 / 2 ^ 52)\<rparr>]
     [\<lparr>pt_x = Fin (5404319552844595 / 2 ^ 54), pt_y = Fin (1 / 2)\<rparr>,
      \<lparr>pt_x = Fin (3602879701896397 / 2 ^ 53), pt_y = Fin (3602879701896397 / 2 ^ 53)\<rparr>,
      \<lparr>pt_x = Fin (5404319552844595 / 2 ^ 53), pt_y = Fin (3602879701896397 / 2 ^ 53)\<rparr>,
      \<lparr>pt_x = Fin (3152519739159347 / 2 ^ 52), pt_y = Fin (1 / 2)\<rparr>,
      \<lparr>pt_x = Fin (5404319552844595 / 2 ^ 53), pt_y = Fin (5404319552844595 / 2 ^ 53)\<rparr>,
      \<lparr>pt_x = Fin (3602879701896397 / 2 ^ 53), pt_y = Fin (5404319552844595 / 2 ^ 53)\<rparr>]
     (Fin 640) (Fin 480)
     = \<lparr>gaze_h = Fin (1463669878895411 / 2 ^ 51), gaze_v = Fin (1 / 2)\<rparr>
   \<and> (2927339757790823 / 2 ^ 52 :: real) \<noteq> 1463669878895411 / 2 ^ 51
   \<and> calculateGazeRatio
     [\<lparr>pt_x = Fin (2296835809958953 / 2 ^ 52), pt_y = Fin (1 / 2)\<rparr>,
      \<lparr>pt_x = Fin (1261007895663739 / 2 ^ 51), pt_y = Fin (8106479329266893 / 2 ^ 54)\<rparr>,
      \<lparr>pt_x = Fin (5494391545392005 / 2 ^ 53), pt_y = Fin (1 / 2)\<rparr>,
      \<lparr>pt_x = Fin (1261007895663739 / 2 ^ 51), pt_y = Fin (2476979795053773 / 2 ^ 52)\<rparr>]
     [\<lparr>pt_x = NaN, pt_y = Fin (1 / 2)\<rparr>,
      \<lparr>pt_x = Fin (3602879701896397 / 2 ^ 53), pt_y = Fin (3602879701896397 / 2 ^ 53)\<rparr>,
      \<lparr>pt_x = Fin (5404319552844595 / 2 ^ 53), pt_y = Fin (3602879701896397 / 2 ^ 53)\<rparr>,
      \<lparr>pt_x = Fin (3152519739159347 / 2 ^ 52), pt_y = Fin (1 / 2)\<rparr>,
      \<lparr>pt_x = Fin (5404319552844595 / 2 ^ 53), pt_y = Fin (5404319552844595 / 2 ^ 53)\<rparr>,
      \<lparr>pt_x = Fin (3602879701896397 / 2 ^ 53), pt_y = Fin (5404319552844595 / 2 ^ 53)\<rparr>]
     (Fin 640) (Fin 480)
     = \<lparr>gaze_h = Fin 0.5, gaze_v = Fin 0.5\<rparr>
   \<and> gaze_h (spec_gaze_ratio
     [\<lparr>pt_x = Fin (2296835809958953 / 2 ^ 52), pt_y = Fin (1 / 2)\<rparr>,
      \<lparr>pt_x = Fin (1261007895663739 / 2 ^ 51), pt_y = Fin (8106479329266893 / 2 ^ 54)\<rparr>,
      \<lparr>pt_x = Fin (5494391545392005 / 2 ^ 53), pt_y = Fin (1 / 2)\<rparr>,
      \<lparr>pt_x = Fin (1261007895663739 / 2 ^ 51), pt_y = Fin (2476979795053773 / 2 ^ 52)\<rparr>]
     [\<lparr>pt_x = NaN, pt_y = Fin (1 / 2)\<rparr>,
      \<lparr>pt_x = Fin (3602879701896397 / 2 ^ 53), pt_y = Fin (3602879701896397 / 2 ^ 53)\<rparr>,
      \<lparr>pt_x = Fin (5404319552844595 / 2 ^ 53), pt_y = Fin (3602879701896397 / 2 ^ 53)\<rparr>,
      \<lparr>pt_x = Fin (3152519739159347 / 2 ^ 52), pt_y = Fin (1 / 2)\<rparr>,
      \<lparr>pt_x = Fin (5404319552844595 / 2 ^ 53), pt_y = Fin (5404319552844595 / 2 ^ 53)\<rparr>,
      \<lparr>pt_x = Fin (3602879701896397 / 2 ^ 53), pt_y = Fin (5404319552844595 / 2 ^ 53)\<rparr>]
     (Fin 640) (Fin 480)) = NaN"
proof -
  let ?iris =
       "[\<lparr>pt_x = Fin (2296835809958953 / 2 ^ 52), pt_y = Fin (1 / 2)\<rparr>,
         \<lparr>pt_x = Fin (1261007895663739 / 2 ^ 51), pt_y = Fin (8106479329266893 / 2 ^ 54)\<rparr>,
         \<lparr>pt_x = Fin (5494391545392005 / 2 ^ 53), pt_y = Fin (1 / 2)\<rparr>,
         \<lparr>pt_x = Fin (1261007895663739 / 2 ^ 51), pt_y = Fin (2476979795053773 / 2 ^ 52)\<rparr>]"
  let ?eye =
       "[\<lparr>pt_x = Fin (5404319552844595 / 2 ^ 54), pt_y = Fin (1 / 2)\<rparr>,
         \<lparr>pt_x = Fin (3602879701896397 / 2 ^ 53), pt_y = Fin (3602879701896397 / 2 ^ 53)\<rparr>,
         \<lparr>pt_x = Fin (5404319552844595 / 2 ^ 53), pt_y = Fin (3602879701896397 / 2 ^ 53)\<rparr>,
         \<lparr>pt_x = Fin (3152519739159347 / 2 ^ 52), pt_y = Fin (1 / 2)\<rparr>,
         \<lparr>pt_x = Fin (5404319552844595 / 2 ^ 53), pt_y = Fin (5404319552844595 / 2 ^ 53)\<rparr>,
         \<lparr>pt_x = Fin (3602879701896397 / 2 ^ 53), pt_y = Fin (5404319552844595 / 2 ^ 53)\<rparr>]"
  let ?eyeN =
       "[\<lparr>pt_x = NaN, pt_y = Fin (1 / 2)\<rparr>,
         \<lparr>pt_x = Fin (3602879701896397 / 2 ^ 53), pt_y = Fin (3602879701896397 / 2 ^ 53)\<rparr>,
         \<lparr>pt_x = Fin (5404319552844595 / 2 ^ 53), pt_y = Fin (3602879701896397 / 2 ^ 53)\<rparr>,
         \<lparr>pt_x = Fin (3152519739159347 / 2 ^ 52), pt_y = Fin (1 / 2)\<rparr>,
         \<lparr>pt_x = Fin (5404319552844595 / 2 ^ 53), pt_y = Fin (5404319552844595 / 2 ^ 53)\<rparr>,
         \<lparr>pt_x = Fin (3602879701896397 / 2 ^ 53), pt_y = Fin (5404319552844595 / 2 ^ 53)\<rparr>]"
  have b1: "dmul (Fin (5404319552844595 / 2 ^ 54)) (Fin 640)
          = Fin 192"
    by (rule dmul_eval[where k = 45 and m = "6755399441055744"])
       (simp_all add: round_even_def)
  have b2: "dmul (Fin (3602879701896397 / 2 ^ 53)) (Fin 640)
          = Fin 256"
    by (rule dmul_eval[where k = 44 and m = "4503599627370496"])
       (simp_all add: round_even_def)
  have b3: "dmul (Fin (5404319552844595 / 2 ^ 53)) (Fin 640)
          = Fin 384"
    by (rule dmul_eval[where k = 44 and m = "6755399441055744"])
       (simp_all add: round_even_def)
  have b4: "dmul (Fin (3152519739159347 / 2 ^ 52)) (Fin 640)
          = Fin 448"
    by (rule dmul_eval[where k = 44 and m = "7881299347898368"])
       (simp_all add: round_even_def)
  have b5: "dmul (Fin (1 / 2)) (Fin 480)
          = Fin 240"
    by (rule dmul_eval[where k = 45 and m = "8444249301319680"])
       (simp_all add: round_even_def)
  have b6: "dmul (Fin (3602879701896397 / 2 ^ 53)) (Fin 480)
          = Fin 192"
    by (rule dmul_eval[where k = 45 and m = "6755399441055744"])
       (simp_all add: round_even_def)
  have b7: "dmul (Fin (5404319552844595 / 2 ^ 53)) (Fin 480)
          = Fin 288"
    by (rule dmul_eval[where k = 44 and m = "5066549580791808"])
       (simp_all add: round_even_def)
  have b8: "dsub (Fin 448) (Fin 192)
          = Fin 256"
    by (rule dsub_eval[where k = 44 and m = "4503599627370496"])
       (simp_all add: round_even_def)
  have b9: "dsub (Fin 288) (Fin 192)
          = Fin 96"
    by (rule dsub_eval[where k = 46 and m = "6755399441055744"])
       (simp_all add: round_even_def)
  have b10: "dsub (Fin (6305039478318695 / 2 ^ 44)) (Fin 192)
          = Fin (2927339757790823 / 2 ^ 44)"
    by (rule dsub_eval[where k = 45 and m = "5854679515581646"])
       (simp_all add: round_even_def)
  have b11: "ddiv (Fin (2927339757790823 / 2 ^ 44)) (Fin 256)
          = Fin (2927339757790823 / 2 ^ 52)"
    by (rule ddiv_eval[where k = 53 and m = "5854679515581646"])
       (simp_all add: round_even_def)
  have b12: "dsub (Fin 240) (Fin 192)
          = Fin 48"
    by (rule dsub_eval[where k = 47 and m = "6755399441055744"])
       (simp_all add: round_even_def)
  have b13: "ddiv (Fin 48) (Fin 96)
          = Fin (1 / 2)"
    by (rule ddiv_eval[where k = 53 and m = "4503599627370496"])
       (simp_all add: round_even_def)
  have b14: "dmul (Fin (2296835809958953 / 2 ^ 52)) (Fin 640)
          = Fin (2871044762448691 / 2 ^ 43)"
    by (rule dmul_eval[where k = 44 and m = "5742089524897382"])
       (simp_all add: round_even_def)
  have b15: "dmul (Fin (1261007895663739 / 2 ^ 51)) (Fin 640)
          = Fin (6305039478318695 / 2 ^ 44)"
    by (rule dmul_eval[where k = 44 and m = "6305039478318695"])
       (simp_all add: round_even_def)
  have b16: "dmul (Fin (5494391545392005 / 2 ^ 53)) (Fin 640)
          = Fin (3433994715870003 / 2 ^ 43)"
    by (rule dmul_eval[where k = 44 and m = "6867989431740006"])
       (simp_all add: round_even_def)
  have b17: "dadd (Fin 0) (Fin (2871044762448691 / 2 ^ 43))
          = Fin (2871044762448691 / 2 ^ 43)"
    by (rule dadd_eval[where k = 44 and m = "5742089524897382"])
       (simp_all add: round_even_def)
  have b18: "dadd (Fin (2871044762448691 / 2 ^ 43)) (Fin (6305039478318695 / 2 ^ 44))
          = Fin (3011782250804019 / 2 ^ 42)"
    by (rule dadd_eval[where k = 43 and m = "6023564501608038"])
       (simp_all add: round_even_def)
  have b19: "dadd (Fin (3011782250804019 / 2 ^ 42)) (Fin (3433994715870003 / 2 ^ 43))
          = Fin (1182194902184755 / 2 ^ 40)"
    by (rule dadd_eval[where k = 42 and m = "4728779608739020"])
       (simp_all add: round_even_def)
  have b20: "dadd (Fin (1182194902184755 / 2 ^ 40)) (Fin (6305039478318695 / 2 ^ 44))
          = Fin (3152519739159347 / 2 ^ 41)"
    by (rule dadd_eval[where k = 42 and m = "6305039478318694"])
       (simp_all add: round_even_def)
  have b21: "ddiv (Fin (3152519739159347 / 2 ^ 41)) (Fin 4)
          = Fin (3152519739159347 / 2 ^ 43)"
    by (rule ddiv_eval[where k = 44 and m = "6305039478318694"])
       (simp_all add: round_even_def)
  have b22: "dmul (Fin (8106479329266893 / 2 ^ 54)) (Fin 480)
          = Fin 216"
    by (rule dmul_eval[where k = 45 and m = "7599824371187712"])
       (simp_all add: round_even_def)
  have b23: "dmul (Fin (2476979795053773 / 2 ^ 52)) (Fin 480)
          = Fin 264"
    by (rule dmul_eval[where k = 44 and m = "4644337115725824"])
       (simp_all add: round_even_def)
  have b24: "dadd (Fin 0) (Fin 240)
          = Fin 240"
    by (rule dadd_eval[where k = 45 and m = "8444249301319680"])
       (simp_all add: round_even_def)
  have b25: "dadd (Fin 240) (Fin 216)
          = Fin 456"
    by (rule dadd_eval[where k = 44 and m = "8022036836253696"])
       (simp_all add: round_even_def)
  have b26: "dadd (Fin 456) (Fin 240)
          = Fin 696"
    by (rule dadd_eval[where k = 43 and m = "6122080743456768"])
       (simp_all add: round_even_def)
  have b27: "dadd (Fin 696) (Fin 264)
          = Fin 960"
    by (rule dadd_eval[where k = 43 and m = "8444249301319680"])
       (simp_all add: round_even_def)
  have b28: "ddiv (Fin 960) (Fin 4)
          = Fin 240"
    by (rule ddiv_eval[where k = 45 and m = "8444249301319680"])
       (simp_all add: round_even_def)
  have b29: "dsub (Fin (3152519739159347 / 2 ^ 43)) (Fin 192)
          = Fin (1463669878895411 / 2 ^ 43)"
    by (rule dsub_eval[where k = 45 and m = "5854679515581644"])
       (simp_all add: round_even_def)
  have b30: "ddiv (Fin (1463669878895411 / 2 ^ 43)) (Fin 256)
          = Fin (1463669878895411 / 2 ^ 51)"
    by (rule ddiv_eval[where k = 53 and m = "5854679515581644"])
       (simp_all add: round_even_def)
  note steps =
    b1 b2 b3 b4 b5 b6 b7 b8 b9 b10 b11 b12 b13 b14 b15 b16 b17 b18 b19 b20
    b21 b22 b23 b24 b25 b26 b27 b28 b29 b30
  have xs: "map pt_x (map (to_pixels_rounded (Fin 640) (Fin 480)) ?eye)
              = [Fin 192, Fin 256, Fin 384, Fin 448, Fin 384, Fin 256]"
    by (simp only: list.map to_pixels_rounded_def point.select_convs steps)
  have ys: "map pt_y (map (to_pixels_rounded (Fin 640) (Fin 480)) ?eye)
              = [Fin 240, Fin 192, Fin 192, Fin 240, Fin 288, Fin 288]"
    by (simp only: list.map to_pixels_rounded_def point.select_convs steps)
  have xsn: "map pt_x (map (to_pixels_rounded (Fin 640) (Fin 480)) ?eyeN)
              = [NaN, Fin 256, Fin 384, Fin 448, Fin 384, Fin 256]"
    by (simp only: list.map to_pixels_rounded_def point.select_convs dmul_NaN steps)
  have ysn: "map pt_y (map (to_pixels_rounded (Fin 640) (Fin 480)) ?eyeN)
              = [Fin 240, Fin 192, Fin 192, Fin 240, Fin 288, Fin 288]"
    by (simp only: list.map to_pixels_rounded_def point.select_convs steps)
  have minx: "Math_min [Fin 192, Fin 256, Fin 384, Fin 448, Fin 384, Fin 256] = Fin 192"
    by (simp add: Math_min_def jmin2_def)
  have maxx: "Math_max [Fin 192, Fin 256, Fin 384, Fin 448, Fin 384, Fin 256] = Fin 448"
    by (simp add: Math_max_def jmax2_def)
  have miny: "Math_min [Fin 240, Fin 192, Fin 192, Fin 240, Fin 288, Fin 288] = Fin 192"
    by (simp add: Math_min_def jmin2_def)
  have maxy: "Math_max [Fin 240, Fin 192, Fin 192, Fin 240, Fin 288, Fin 288] = Fin 288"
    by (simp add: Math_max_def jmax2_def)
  have minxn: "Math_min [NaN, Fin 256, Fin 384, Fin 448, Fin 384, Fin 256] = NaN"
    by (simp add: Math_min_def jmin2_def)
  have maxxn: "Math_max [NaN, Fin 256, Fin 384, Fin 448, Fin 384, Fin 256] = NaN"
    by (simp add: Math_max_def jmax2_def)
  have gw: "jgt (Fin 256) (Fin 0)" by (simp add: jgt_def)
  have gh: "jgt (Fin 96) (Fin 0)" by (simp add: jgt_def)
  have lw: "\<not> jle (Fin 256) (Fin 0)" by (simp add: jle_def)
  have lh: "\<not> jle (Fin 96) (Fin 0)" by (simp add: jle_def)
  have gn: "\<not> jgt NaN (Fin 0)" by (simp add: jgt_def)
  have ln: "\<not> jle NaN (Fin 0)" by (simp add: jle_def)
  have c: "calculateGazeRatio ?iris ?eye (Fin 640) (Fin 480)
             = \<lparr>gaze_h = Fin (2927339757790823 / 2 ^ 52), gaze_v = Fin (1 / 2)\<rparr>"
    by (simp only: calculateGazeRatio_def Let_def xs ys minx maxx miny maxy
          getCenter_example_iris point.select_convs gw gh simp_thms if_True steps)
  have s: "spec_gaze_ratio ?iris ?eye (Fin 640) (Fin 480)
             = \<lparr>gaze_h = Fin (1463669878895411 / 2 ^ 51), gaze_v = Fin (1 / 2)\<rparr>"
    by (simp only: spec_gaze_ratio_def Let_def xs ys minx maxx miny maxy spec_centroid_def
          to_pixels_rounded_def list.map reduce_sum_rounded_def foldl.simps
          point.select_convs jlength_4 lw lh simp_thms if_False steps)
  have n: "(2927339757790823 / 2 ^ 52 :: real) \<noteq> 1463669878895411 / 2 ^ 51"
    by simp
  have cn: "calculateGazeRatio ?iris ?eyeN (Fin 640) (Fin 480)
              = \<lparr>gaze_h = Fin 0.5, gaze_v = Fin 0.5\<rparr>"
    by (simp only: calculateGazeRatio_def Let_def xsn minxn maxxn dsub_NaN gn simp_thms
          if_False)
  have sn: "gaze_h (spec_gaze_ratio ?iris ?eyeN (Fin 640) (Fin 480)) = NaN"
    by (simp only: spec_gaze_ratio_def Let_def xsn ysn minxn maxxn miny maxy dsub_NaN
          ddiv_NaN ln lh simp_thms if_False gaze.select_convs steps)
  show ?thesis by (intro conjI c s n cn sn)
qed

end
